theory Spec2Isabelle
  imports Complex_Main "HOL-Library.Word" "HOL-Library.Sublist" "HOL-Library.Extended_Nat"
begin

unbundle bit_operations_syntax

section \<open>Plane construction (utils/clipping and slice-mesh.ts)\<close>

text \<open>
  JavaScript numbers are IEEE doubles; the plane arithmetic is modelled over the reals.
  Every operation of the two functions below is exact on the inputs of the worked
  example (50 / 100, 0.5 * 10, -5 + 5), and negation is exact on every double, so the
  real-number model and the double computation agree on what is proved here (JavaScript
  distinguishes \<open>-0\<close> from \<open>0\<close> in its representation only; \<open>-0 === 0\<close> holds).
\<close>

datatype ClippingAxis = AxisX | AxisY | AxisZ

datatype ClippingMode = ModeAxis | ModeFree

record Vector3 =
  vx :: real
  vy :: real
  vz :: real

text \<open>\<open>THREE.Plane(normal, constant)\<close>: the points \<open>p\<close> with \<open>normal . p + constant = 0\<close>.\<close>

record Plane =
  pl_normal :: Vector3
  pl_constant :: real

record BoundingBox =
  bmin :: Vector3
  bmax :: Vector3

record ClippingState =
  enabled :: bool
  mode :: ClippingMode
  axis :: ClippingAxis
  quaternion :: "real \<times> real \<times> real \<times> real"
  position :: real
  flipped :: bool
  lastFreeQuaternion :: "(real \<times> real \<times> real \<times> real) option"

definition getAxisValue :: "Vector3 \<Rightarrow> ClippingAxis \<Rightarrow> real" where
  "getAxisValue point a = (case a of AxisX \<Rightarrow> vx point | AxisY \<Rightarrow> vy point | AxisZ \<Rightarrow> vz point)"

text \<open>\<open>THREE.Vector3.negate\<close>.\<close>

definition negate :: "Vector3 \<Rightarrow> Vector3" where
  "negate v = \<lparr>vx = - vx v, vy = - vy v, vz = - vz v\<rparr>"

text \<open>\<open>THREE.Vector3.dot\<close>.\<close>

definition dot :: "Vector3 \<Rightarrow> Vector3 \<Rightarrow> real" where
  "dot a b = vx a * vx b + vy a * vy b + vz a * vz b"

text \<open>\<open>THREE.Plane.distanceToPoint\<close>: zero exactly on the plane.\<close>

definition distanceToPoint :: "Plane \<Rightarrow> Vector3 \<Rightarrow> real" where
  "distanceToPoint pl p = dot (pl_normal pl) p + pl_constant pl"

definition computeClippingPlane :: "ClippingState \<Rightarrow> BoundingBox \<Rightarrow> Plane" where
  "computeClippingPlane clipping bbox =
    (let t = position clipping / 100;
         a = axis clipping;
         axisMin = getAxisValue (bmin bbox) a;
         axisMax = getAxisValue (bmax bbox) a;
         planePos = axisMin + t * (axisMax - axisMin);
         normal0 = \<lparr>vx = (if a = AxisX then 1 else 0),
                    vy = (if a = AxisY then 1 else 0),
                    vz = (if a = AxisZ then 1 else 0)\<rparr>;
         normal1 = (if flipped clipping then negate normal0 else normal0);
         constant1 = (if flipped clipping then planePos else - planePos)
     in \<lparr>pl_normal = normal1, pl_constant = constant1\<rparr>)"

text \<open>slice-mesh.ts: \<open>SlicePlane\<close>, \<open>createAxisPlane\<close>, \<open>computeSlicePlane\<close>.\<close>

record SlicePlane =
  sp_normal :: Vector3
  sp_distance :: real

definition createAxisPlane :: "ClippingAxis \<Rightarrow> real \<Rightarrow> bool \<Rightarrow> SlicePlane" where
  "createAxisPlane a pos flip =
    (let normal0 = (case a of
            AxisX \<Rightarrow> \<lparr>vx = 1, vy = 0, vz = 0\<rparr>
          | AxisY \<Rightarrow> \<lparr>vx = 0, vy = 1, vz = 0\<rparr>
          | AxisZ \<Rightarrow> \<lparr>vx = 0, vy = 0, vz = 1\<rparr>);
         normal1 = (if flip then \<lparr>vx = - vx normal0, vy = - vy normal0, vz = - vz normal0\<rparr>
                    else normal0)
     in \<lparr>sp_normal = normal1, sp_distance = pos\<rparr>)"

text \<open>The \<open>position\<close> argument of \<open>computeSlicePlane\<close> is a fraction in the 0-1 range.\<close>

definition computeSlicePlane :: "ClippingAxis \<Rightarrow> real \<Rightarrow> bool \<Rightarrow> BoundingBox \<Rightarrow> SlicePlane" where
  "computeSlicePlane a pos flip bbox =
    (let range_min = (case a of AxisX \<Rightarrow> vx (bmin bbox) | AxisY \<Rightarrow> vy (bmin bbox) | AxisZ \<Rightarrow> vz (bmin bbox));
         range_max = (case a of AxisX \<Rightarrow> vx (bmax bbox) | AxisY \<Rightarrow> vy (bmax bbox) | AxisZ \<Rightarrow> vz (bmax bbox));
         distance = range_min + (range_max - range_min) * pos
     in createAxisPlane a distance flip)"

definition cube10 :: BoundingBox where
  "cube10 = \<lparr>bmin = \<lparr>vx = -5, vy = -5, vz = -5\<rparr>, bmax = \<lparr>vx = 5, vy = 5, vz = 5\<rparr>\<rparr>"

section \<open>JavaScript strings\<close>

text \<open>
  A JavaScript string is a sequence of UTF-16 code units; \<open>lit\<close> writes a source literal.
\<close>

type_synonym jsstring = "nat list"

definition lit :: "string \<Rightarrow> jsstring" where
  "lit s = map of_char s"

text \<open>
  White space as \<open>String.prototype.trim\<close>, the regular expression class \<open>\s\<close>,
  \<open>parseInt\<close> and \<open>parseFloat\<close> understand it: WhiteSpace and LineTerminator of
  ECMAScript.
\<close>

definition isWhiteSpace :: "nat \<Rightarrow> bool" where
  "isWhiteSpace c = (c = 9 \<or> c = 10 \<or> c = 11 \<or> c = 12 \<or> c = 13 \<or> c = 32 \<or> c = 160
     \<or> c = 5760 \<or> (8192 \<le> c \<and> c \<le> 8202) \<or> c = 8232 \<or> c = 8233 \<or> c = 8239
     \<or> c = 8287 \<or> c = 12288 \<or> c = 65279)"

definition trim :: "jsstring \<Rightarrow> jsstring" where
  "trim s = rev (dropWhile isWhiteSpace (rev (dropWhile isWhiteSpace s)))"

definition startsWith :: "jsstring \<Rightarrow> jsstring \<Rightarrow> bool" where
  "startsWith s p = (take (length p) s = p)"

definition endsWith :: "jsstring \<Rightarrow> jsstring \<Rightarrow> bool" where
  "endsWith s p = (length p \<le> length s \<and> drop (length s - length p) s = p)"

fun includes_js :: "jsstring \<Rightarrow> jsstring \<Rightarrow> bool" where
  "includes_js [] p = (p = [])"
| "includes_js (c # cs) p = (startsWith (c # cs) p \<or> includes_js cs p)"

text \<open>\<open>s.split(sep)\<close> for a separator of one code unit.\<close>

fun split_char :: "nat \<Rightarrow> jsstring \<Rightarrow> jsstring list" where
  "split_char sep [] = [[]]"
| "split_char sep (c # cs) =
     (if c = sep then [] # split_char sep cs
      else (case split_char sep cs of [] \<Rightarrow> [[c]] | piece # pieces \<Rightarrow> (c # piece) # pieces))"

text \<open>
  \<open>s.split(/\s+/)\<close>: the pieces between the maximal runs of white space; a string that
  starts (ends) with white space has an empty first (last) piece.
\<close>

function split_ws :: "jsstring \<Rightarrow> jsstring list" where
  "split_ws [] = [[]]"
| "split_ws (c # cs) =
     (if isWhiteSpace c then [] # split_ws (dropWhile isWhiteSpace cs)
      else (case split_ws cs of [] \<Rightarrow> [[c]] | piece # pieces \<Rightarrow> (c # piece) # pieces))"
  by pat_completeness auto
termination
  by (relation "measure length") (auto simp: length_dropWhile_le le_imp_less_Suc)

text \<open>
  \<open>String.prototype.toLowerCase\<close>. The ASCII letters are mapped as written here. The
  Unicode case mapping of the other code units is data of the platform: the parameter
  \<open>uc\<close> gives, for the whole string and a position holding a non-ASCII unit, the units
  that replace it (so it covers surrogate pairs and the context-dependent sigma).
\<close>

definition asciiLower :: "nat \<Rightarrow> nat" where
  "asciiLower c = (if 65 \<le> c \<and> c \<le> 90 then c + 32 else c)"

definition lowerUnit :: "(jsstring \<Rightarrow> nat \<Rightarrow> jsstring) \<Rightarrow> jsstring \<Rightarrow> nat \<Rightarrow> jsstring" where
  "lowerUnit uc s i =
     (let c = s ! i in if c < 128 then [asciiLower c] else uc s i)"

definition toLowerCase :: "(jsstring \<Rightarrow> nat \<Rightarrow> jsstring) \<Rightarrow> jsstring \<Rightarrow> jsstring" where
  "toLowerCase uc s = concat (map (lowerUnit uc s) [0..<length s])"

text \<open>A case mapping that leaves every non-ASCII unit alone, for the worked examples.\<close>

definition uc_id :: "jsstring \<Rightarrow> nat \<Rightarrow> jsstring" where
  "uc_id s i = [s ! i]"

definition isDigit :: "nat \<Rightarrow> bool" where
  "isDigit c = (48 \<le> c \<and> c \<le> 57)"

fun digitsValue :: "nat \<Rightarrow> jsstring \<Rightarrow> nat" where
  "digitsValue acc [] = acc"
| "digitsValue acc (d # ds) = digitsValue (acc * 10 + (d - 48)) ds"

text \<open>
  The Number values that \<open>parseInt\<close> and the integer arithmetic of the decoders produce:
  NaN, a finite double whose value is an integer, and the two infinities.
\<close>

datatype jsint = NotANumber | Finite int | PosInfinity | NegInfinity

text \<open>
  The Number value of a mathematical integer: the nearest double, ties to the even
  significand, and an infinity from \<open>2^1024\<close> on. Below \<open>2^53\<close> every integer is a double;
  an integer of \<open>k > 53\<close> bits lies between two neighbouring multiples of \<open>2^(k - 53)\<close>.
\<close>

function bitLength :: "nat \<Rightarrow> nat" where
  "bitLength n = (if n = 0 then 0 else Suc (bitLength (n div 2)))"
  by pat_completeness auto
termination
  by (relation "measure id") auto

declare bitLength.simps [simp del]

definition roundToDouble :: "nat \<Rightarrow> nat" where
  "roundToDouble n =
     (if n < 2 ^ 53 then n
      else
        (let unit = 2 ^ (bitLength n - 53);
             q = n div unit;
             r = n mod unit
         in (if 2 * r > unit \<or> (2 * r = unit \<and> odd q) then q + 1 else q) * unit))"

definition toNumber :: "int \<Rightarrow> jsint" where
  "toNumber x =
     (let m = roundToDouble (nat \<bar>x\<bar>)
      in if m \<ge> 2 ^ 1024 then (if x < 0 then NegInfinity else PosInfinity)
         else Finite (if x < 0 then - int m else int m))"

text \<open>
  \<open>parseInt(s, 10)\<close>: leading white space, an optional sign, the longest run of decimal
  digits, and the Number value of the integer they denote (the sign of \<open>-0\<close> is not
  kept; for more than 20 significant digits the language lets an implementation replace
  the later digits by zeros, which is not modelled). NaN when there is no digit. An
  absent array element (\<open>undefined\<close>) converts to the string "undefined" and so to NaN.
\<close>

definition parseInt :: "jsstring option \<Rightarrow> jsint" where
  "parseInt so =
     (case so of None \<Rightarrow> NotANumber
      | Some s0 \<Rightarrow>
         (let s = dropWhile isWhiteSpace s0;
              neg = (s \<noteq> [] \<and> hd s = 45);
              r = (if s \<noteq> [] \<and> (hd s = 45 \<or> hd s = 43) then tl s else s);
              ds = takeWhile isDigit r
          in if ds = [] then NotANumber
             else toNumber ((if neg then - 1 else 1) * int (digitsValue 0 ds))))"

text \<open>
  \<open>x < 0\<close>, \<open>x + k\<close> and \<open>x * k\<close> for a Number \<open>x\<close> of this kind and an integer \<open>k\<close> (positive
  in the product) that is a double: the exact result, rounded. NaN compares false.
\<close>

definition isNegative :: "jsint \<Rightarrow> bool" where
  "isNegative x = (case x of Finite i \<Rightarrow> i < 0 | NegInfinity \<Rightarrow> True | _ \<Rightarrow> False)"

definition addInt :: "jsint \<Rightarrow> int \<Rightarrow> jsint" where
  "addInt x k = (case x of Finite i \<Rightarrow> toNumber (i + k) | _ \<Rightarrow> x)"

definition timesInt :: "jsint \<Rightarrow> int \<Rightarrow> jsint" where
  "timesInt x k = (case x of Finite i \<Rightarrow> toNumber (i * k) | _ \<Rightarrow> x)"

text \<open>The integer that a Number of this kind holds when it is finite.\<close>

definition finiteValue :: "jsint \<Rightarrow> int option" where
  "finiteValue x = (case x of Finite i \<Rightarrow> Some i | _ \<Rightarrow> None)"

text \<open>
  A double as the in-process decoders produce it: NaN, or the double nearest to a decimal
  literal. \<open>Dec s\<close> stands for the Number value of the StrDecimalLiteral \<open>s\<close>; the model
  keeps the accepted literal and does no floating-point arithmetic on it.
\<close>

datatype f64 = NaN | Dec jsstring

text \<open>
  \<open>parseFloat\<close>: leading white space, then the longest prefix that is a
  StrDecimalLiteral (sign, \<open>Infinity\<close> or digits with an optional fraction and an
  optional complete exponent); NaN when there is none.
\<close>

definition parseFloat :: "jsstring option \<Rightarrow> f64" where
  "parseFloat so =
     (case so of None \<Rightarrow> NaN
      | Some s0 \<Rightarrow>
         (let s = dropWhile isWhiteSpace s0;
              sgn = (if s \<noteq> [] \<and> (hd s = 45 \<or> hd s = 43) then [hd s] else []);
              r = drop (length sgn) s
          in if startsWith r (lit ''Infinity'') then Dec (sgn @ lit ''Infinity'')
             else
               (let ip = takeWhile isDigit r;
                    r1 = drop (length ip) r;
                    hasDot = (r1 \<noteq> [] \<and> hd r1 = 46);
                    fp = (if hasDot then takeWhile isDigit (tl r1) else []);
                    r2 = (if hasDot then drop (length fp) (tl r1) else r1);
                    hasE = (r2 \<noteq> [] \<and> (hd r2 = 101 \<or> hd r2 = 69));
                    r3 = (if hasE then tl r2 else []);
                    esgn = (if r3 \<noteq> [] \<and> (hd r3 = 45 \<or> hd r3 = 43) then [hd r3] else []);
                    ed = takeWhile isDigit (drop (length esgn) r3);
                    ex = (if hasE \<and> ed \<noteq> [] then hd r2 # esgn @ ed else [])
                in if ip = [] \<and> fp = [] then NaN
                   else Dec (sgn @ ip @ (if hasDot then 46 # fp else []) @ ex))))"

section \<open>Bytes and text decoding\<close>

type_synonym byte = "8 word"

definition bytes_of :: "string \<Rightarrow> byte list" where
  "bytes_of s = map of_char s"

text \<open>
  \<open>new TextDecoder('utf-8').decode\<close> (not fatal, BOM not ignored): the UTF-8 decoder of
  the Encoding standard. A malformed sequence gives U+FFFD and the offending byte is read
  again as the start of a sequence; a leading U+FEFF is dropped; a code point above
  U+FFFF becomes a surrogate pair.
\<close>

type_synonym utf8_state = "nat \<times> nat \<times> nat \<times> nat"

definition utf8_init :: utf8_state where
  "utf8_init = (0, 0, 128, 191)"

definition utf8_lead :: "nat \<Rightarrow> nat list \<times> utf8_state" where
  "utf8_lead b =
     (if b \<le> 127 then ([b], utf8_init)
      else if 194 \<le> b \<and> b \<le> 223 then ([], (b mod 32, 1, 128, 191))
      else if 224 \<le> b \<and> b \<le> 239 then
        ([], (b mod 16, 2, (if b = 224 then 160 else 128), (if b = 237 then 159 else 191)))
      else if 240 \<le> b \<and> b \<le> 244 then
        ([], (b mod 8, 3, (if b = 240 then 144 else 128), (if b = 244 then 143 else 191)))
      else ([65533], utf8_init))"

definition utf8_step :: "utf8_state \<Rightarrow> nat \<Rightarrow> nat list \<times> utf8_state" where
  "utf8_step st b =
     (case st of (cp, needed, lo, hi) \<Rightarrow>
        if needed = 0 then utf8_lead b
        else if b < lo \<or> hi < b then
          (case utf8_lead b of (out, st') \<Rightarrow> (65533 # out, st'))
        else
          (let cp' = cp * 64 + b mod 64
           in if needed = 1 then ([cp'], utf8_init) else ([], (cp', needed - 1, 128, 191))))"

fun utf8_run :: "utf8_state \<Rightarrow> nat list \<Rightarrow> nat list" where
  "utf8_run st [] = (case st of (cp, needed, lo, hi) \<Rightarrow> if needed \<noteq> 0 then [65533] else [])"
| "utf8_run st (b # bs) = (case utf8_step st b of (out, st') \<Rightarrow> out @ utf8_run st' bs)"

definition utf16_units :: "nat \<Rightarrow> jsstring" where
  "utf16_units cp =
     (if cp \<le> 65535 then [cp]
      else [55296 + (cp - 65536) div 1024, 56320 + (cp - 65536) mod 1024])"

definition decode_utf8 :: "byte list \<Rightarrow> jsstring" where
  "decode_utf8 bs =
     (let cps = utf8_run utf8_init (map unat bs);
          cps' = (case cps of [] \<Rightarrow> [] | c # rest \<Rightarrow> if c = 65279 then rest else cps)
      in concat (map utf16_units cps'))"

text \<open>
  \<open>new TextDecoder('ascii').decode\<close>: in the Encoding standard the label \<open>ascii\<close> names
  windows-1252, which maps every byte to one code unit.
\<close>

definition windows1252_high :: "nat list" where
  "windows1252_high =
     [8364, 129, 8218, 402, 8222, 8230, 8224, 8225, 710, 8240, 352, 8249, 338, 141, 381, 143,
      144, 8216, 8217, 8220, 8221, 8226, 8211, 8212, 732, 8482, 353, 8250, 339, 157, 382, 376]"

definition decode_ascii :: "byte list \<Rightarrow> jsstring" where
  "decode_ascii bs =
     map (\<lambda>w. let b = unat w in
               if 128 \<le> b \<and> b \<le> 159 then windows1252_high ! (b - 128) else b) bs"

section \<open>Format detection (format-detector)\<close>

text \<open>The source's \<open>MeshFormat\<close> literals; \<open>stl\<close> is the ASCII variant of STL.\<close>

datatype MeshFormat = stl | stl_binary | obj | ply_ascii | ply_binary_le | ply_binary_be

definition formatName :: "MeshFormat \<Rightarrow> jsstring" where
  "formatName f = (case f of
       stl \<Rightarrow> lit ''stl'' | stl_binary \<Rightarrow> lit ''stl_binary'' | obj \<Rightarrow> lit ''obj''
     | ply_ascii \<Rightarrow> lit ''ply_ascii'' | ply_binary_le \<Rightarrow> lit ''ply_binary_le''
     | ply_binary_be \<Rightarrow> lit ''ply_binary_be'')"

datatype DetectionMethod = magic | extension | mime | unknown

record FormatDetectionResult =
  format :: "MeshFormat option"
  det_method :: DetectionMethod
  mismatch :: bool
  expectedFormat :: "MeshFormat option"

text \<open>
  A browser \<open>File\<close>: name, MIME type and content; \<open>file_readable\<close> is false when
  reading the content rejects. \<open>file.size\<close> is the length of the content.
\<close>

record File =
  file_name :: jsstring
  file_type :: jsstring
  file_bytes :: "byte list"
  file_readable :: bool

definition file_size :: "File \<Rightarrow> nat" where
  "file_size file = length (file_bytes file)"

text \<open>\<open>DataView.getUint32(off, true)\<close>, little-endian, on an offset that is in range.\<close>

definition getUint32LE :: "byte list \<Rightarrow> nat \<Rightarrow> nat" where
  "getUint32LE bs off =
     unat (bs ! off) + 256 * unat (bs ! (off + 1)) + 65536 * unat (bs ! (off + 2))
       + 16777216 * unat (bs ! (off + 3))"

definition detectPlySubformat :: "(jsstring \<Rightarrow> nat \<Rightarrow> jsstring) \<Rightarrow> byte list \<Rightarrow> MeshFormat" where
  "detectPlySubformat uc header =
     (let text = decode_utf8 header;
          lowerText = toLowerCase uc text
      in if includes_js lowerText (lit ''format binary_little_endian'') then ply_binary_le
         else if includes_js lowerText (lit ''format binary_big_endian'') then ply_binary_be
         else ply_ascii)"

definition detectByMagicBytes :: "(jsstring \<Rightarrow> nat \<Rightarrow> jsstring) \<Rightarrow> byte list \<Rightarrow> MeshFormat option" where
  "detectByMagicBytes uc header =
     (if length header < 4 then None
      else if header ! 0 = 0x70 \<and> header ! 1 = 0x6C \<and> header ! 2 = 0x79
              \<and> (header ! 3 = 0x0A \<or> header ! 3 = 0x0D)
        then Some (detectPlySubformat uc header)
      else
        (let firstTwo = [unat (header ! 0), unat (header ! 1)] in
         if firstTwo = lit ''v '' \<or> firstTwo = lit ''# '' then Some obj
         else
           (let first5 = toLowerCase uc (decode_utf8 (take 5 header)) in
            if first5 = lit ''solid'' \<and> 0x0A \<in> set (take 80 header) then Some stl
            else if length header \<ge> 84
                    \<and> (let triangleCount = getUint32LE header 80
                        in triangleCount > 0 \<and> triangleCount < 100000000)
                    \<and> first5 \<noteq> lit ''solid''
              then Some stl_binary
            else None)))"

definition detectByExtension :: "(jsstring \<Rightarrow> nat \<Rightarrow> jsstring) \<Rightarrow> jsstring \<Rightarrow> MeshFormat option" where
  "detectByExtension uc fileName =
     (let ext = toLowerCase uc (last (split_char 46 fileName)) in
      if ext = lit ''stl'' then Some stl
      else if ext = lit ''obj'' then Some obj
      else if ext = lit ''ply'' then Some ply_ascii
      else None)"

definition detectByMime :: "(jsstring \<Rightarrow> nat \<Rightarrow> jsstring) \<Rightarrow> jsstring \<Rightarrow> MeshFormat option" where
  "detectByMime uc mimeType =
     (let lower = toLowerCase uc mimeType in
      if includes_js lower (lit ''stl'') \<or> lower = lit ''model/stl'' then Some stl
      else if includes_js lower (lit ''obj'') \<or> lower = lit ''model/obj'' then Some obj
      else if includes_js lower (lit ''ply'') then Some ply_ascii
      else None)"

definition family :: "MeshFormat \<Rightarrow> jsstring" where
  "family f =
     (if startsWith (formatName f) (lit ''stl'') then lit ''stl''
      else if startsWith (formatName f) (lit ''ply'') then lit ''ply''
      else formatName f)"

definition isSameFormatFamily :: "MeshFormat \<Rightarrow> MeshFormat \<Rightarrow> bool" where
  "isSameFormatFamily a b = (family a = family b)"

text \<open>
  \<open>detectMeshFormat\<close>. Reading the first \<open>min(256, size)\<close> bytes can reject; the
  \<open>catch\<close> then falls through to the extension and the MIME type.
\<close>

definition detectMeshFormat :: "(jsstring \<Rightarrow> nat \<Rightarrow> jsstring) \<Rightarrow> File \<Rightarrow> FormatDetectionResult" where
  "detectMeshFormat uc file =
     (let extensionFormat = detectByExtension uc (file_name file);
          headerSize = min 256 (file_size file);
          magicFormat = (if file_readable file
                         then detectByMagicBytes uc (take headerSize (file_bytes file))
                         else None)
      in case magicFormat of
           Some mf \<Rightarrow>
             (case extensionFormat of
                Some ef \<Rightarrow>
                  if \<not> isSameFormatFamily ef mf
                  then \<lparr>format = Some mf, det_method = magic, mismatch = True, expectedFormat = Some ef\<rparr>
                  else \<lparr>format = Some mf, det_method = magic, mismatch = False, expectedFormat = None\<rparr>
              | None \<Rightarrow>
                  \<lparr>format = Some mf, det_method = magic, mismatch = False, expectedFormat = None\<rparr>)
         | None \<Rightarrow>
             (case extensionFormat of
                Some ef \<Rightarrow>
                  \<lparr>format = Some ef, det_method = extension, mismatch = False, expectedFormat = None\<rparr>
              | None \<Rightarrow>
                  (case (if file_type file \<noteq> [] then detectByMime uc (file_type file) else None) of
                     Some mimeFormat \<Rightarrow>
                       \<lparr>format = Some mimeFormat, det_method = mime, mismatch = False, expectedFormat = None\<rparr>
                   | None \<Rightarrow>
                       \<lparr>format = None, det_method = unknown, mismatch = False, expectedFormat = None\<rparr>)))"

definition isSupportedFormat :: "MeshFormat option \<Rightarrow> bool" where
  "isSupportedFormat f = (case f of None \<Rightarrow> False
     | Some g \<Rightarrow> g \<in> set [stl, stl_binary, obj, ply_ascii, ply_binary_le, ply_binary_be])"

section \<open>In-process decoders (js-parsers)\<close>

text \<open>\<open>xs[i]\<close> on a JavaScript array: \<open>undefined\<close> (here \<open>None\<close>) out of range.\<close>

definition nth_opt :: "'a list \<Rightarrow> nat \<Rightarrow> 'a option" where
  "nth_opt xs i = (if i < length xs then Some (xs ! i) else None)"

text \<open>
  Storing a number into a \<open>Uint32Array\<close>: NaN and the infinities (\<open>None\<close>) become 0, an
  integer is taken modulo \<open>2^32\<close>.
\<close>

definition toUint32 :: "int option \<Rightarrow> 32 word" where
  "toUint32 n = (case n of None \<Rightarrow> 0 | Some i \<Rightarrow> word_of_int i)"

record JsParseResult =
  jr_vertices :: "f64 list"
  jr_indices :: "32 word list"
  jr_vertexCount :: "int option"
  jr_faceCount :: nat

datatype PlyFormat = ascii | binary_little_endian | binary_big_endian

record PlyHeader =
  ph_format :: PlyFormat
  ph_vertexCount :: jsint
  ph_faceCount :: jsint
  ph_headerEndOffset :: nat

text \<open>\<open>s.replace(/\r$/, '')\<close>.\<close>

definition replace_cr_end :: "jsstring \<Rightarrow> jsstring" where
  "replace_cr_end s = (if s \<noteq> [] \<and> last s = 13 then butlast s else s)"

text \<open>The loop of \<open>parsePlyHeader\<close> over the lines; it stops at \<open>end_header\<close>.\<close>

fun plyHeaderLines :: "jsstring list \<Rightarrow> PlyHeader \<Rightarrow> nat \<Rightarrow> PlyHeader" where
  "plyHeaderLines [] h offset = h"
| "plyHeaderLines (line # rest) h offset =
     (let lineWithNewline = length line + 1;
          trimmed = replace_cr_end (trim line)
      in if startsWith trimmed (lit ''format '') then
           (let parts = split_ws trimmed;
                fmt = (if nth_opt parts 1 = Some (lit ''binary_little_endian'') then binary_little_endian
                       else if nth_opt parts 1 = Some (lit ''binary_big_endian'') then binary_big_endian
                       else ascii)
            in plyHeaderLines rest (h\<lparr>ph_format := fmt\<rparr>) (offset + lineWithNewline))
         else if startsWith trimmed (lit ''element vertex '') then
           plyHeaderLines rest (h\<lparr>ph_vertexCount := parseInt (nth_opt (split_ws trimmed) 2)\<rparr>)
             (offset + lineWithNewline)
         else if startsWith trimmed (lit ''element face '') then
           plyHeaderLines rest (h\<lparr>ph_faceCount := parseInt (nth_opt (split_ws trimmed) 2)\<rparr>)
             (offset + lineWithNewline)
         else if trimmed = lit ''end_header'' then
           h\<lparr>ph_headerEndOffset := offset + length line + 1\<rparr>
         else plyHeaderLines rest h (offset + lineWithNewline))"

definition parsePlyHeader :: "byte list \<Rightarrow> PlyHeader" where
  "parsePlyHeader data =
     (let maxHeaderSize = min 4096 (length data);
          headerText = decode_ascii (take maxHeaderSize data)
      in plyHeaderLines (split_char 10 headerText)
           \<lparr>ph_format = ascii, ph_vertexCount = Finite 0, ph_faceCount = Finite 0,
            ph_headerEndOffset = 0\<rparr> 0)"

text \<open>
  The loops run while \<open>i < count\<close>: never for NaN, as for 0 for a negative count, and
  without a bound of their own for \<open>Infinity\<close>.
\<close>

definition loopBound :: "jsint \<Rightarrow> enat" where
  "loopBound n = (case n of Finite c \<Rightarrow> enat (nat c) | PosInfinity \<Rightarrow> \<infinity> | _ \<Rightarrow> 0)"

text \<open>
  The vertex loop of \<open>parseAsciiPly\<close>: \<open>i\<close> counts the vertices read, blank lines are
  skipped, and the loop ends with the count or with the lines. It returns the array and
  the lines not yet read.
\<close>

fun plyVertices :: "nat \<Rightarrow> enat \<Rightarrow> jsstring list \<Rightarrow> f64 list \<Rightarrow> f64 list \<times> jsstring list" where
  "plyVertices i n [] vertices = (vertices, [])"
| "plyVertices i n (l # ls) vertices =
     (if enat i < n then
        (let line = trim l in
         if line = [] then plyVertices i n ls vertices
         else
           (let parts = split_ws line
            in plyVertices (i + 1) n ls
                 (vertices[i * 3 := parseFloat (nth_opt parts 0),
                           i * 3 + 1 := parseFloat (nth_opt parts 1),
                           i * 3 + 2 := parseFloat (nth_opt parts 2)])))
      else (vertices, l # ls))"

text \<open>
  An \<open>Array\<close> holds at most \<open>2^32 - 1\<close> elements: the \<open>push\<close> that would make it longer
  throws a RangeError, whose message (\<open>arrayError\<close>) is the engine's. Memory is taken to
  suffice for every array below that length.
\<close>

definition MAX_ARRAY_LENGTH :: nat where
  "MAX_ARRAY_LENGTH = 4294967295"

text \<open>
  Fan triangulation of one PLY face line onto an array of \<open>used\<close> elements: the numbers
  pushed for \<open>j = 2 .. count - 1\<close>, three for each \<open>j\<close>, or the exception of the \<open>push\<close> for
  which the array has no room (always reached when the count is \<open>Infinity\<close>).
\<close>

definition plyFaceFan :: "jsstring \<Rightarrow> nat \<Rightarrow> jsstring list \<Rightarrow> jsstring + jsint list" where
  "plyFaceFan arrayError used parts =
     (case parseInt (nth_opt parts 0) of
        Finite count \<Rightarrow>
          if count \<ge> 3 then
            (if used + 3 * (nat count - 2) > MAX_ARRAY_LENGTH then Inl arrayError
             else
               (let first = parseInt (nth_opt parts 1)
                in Inr (concat (map (\<lambda>j. [first, parseInt (nth_opt parts j),
                                           parseInt (nth_opt parts (j + 1))])
                                  [2..<nat count]))))
          else Inr []
      | PosInfinity \<Rightarrow> Inl arrayError
      | _ \<Rightarrow> Inr [])"

fun plyFaces ::
  "jsstring \<Rightarrow> nat \<Rightarrow> enat \<Rightarrow> jsstring list \<Rightarrow> jsint list \<Rightarrow> jsstring + jsint list" where
  "plyFaces arrayError i n [] tempIndices = Inr tempIndices"
| "plyFaces arrayError i n (l # ls) tempIndices =
     (if enat i < n then
        (let line = trim l in
         if line = [] then plyFaces arrayError i n ls tempIndices
         else
           (case plyFaceFan arrayError (length tempIndices) (split_ws line) of
              Inl e \<Rightarrow> Inl e
            | Inr pushed \<Rightarrow> plyFaces arrayError (i + 1) n ls (tempIndices @ pushed)))
      else Inr tempIndices)"

text \<open>
  \<open>parseAsciiPly\<close>. \<open>new Float64Array(vertexCount * 3)\<close> has length 0 for NaN and throws
  a RangeError for a negative length, for an infinite one and for one above the largest
  length \<open>maxLength\<close> that the engine allocates; \<open>rangeError\<close> is the engine's message for
  it. \<open>Inl\<close> is the message of the exception.
\<close>

definition parseAsciiPly ::
  "nat \<Rightarrow> (jsint \<Rightarrow> jsstring) \<Rightarrow> jsstring \<Rightarrow> byte list \<Rightarrow> jsstring + JsParseResult" where
  "parseAsciiPly maxLength rangeError arrayError data =
     (let text = decode_utf8 data;
          header = parsePlyHeader data;
          dataText = drop (ph_headerEndOffset header) text;
          lines = split_char 10 dataText;
          len = timesInt (ph_vertexCount header) 3
      in case (case len of NotANumber \<Rightarrow> Some 0
               | Finite c \<Rightarrow> if c < 0 \<or> c > int maxLength then None else Some (nat c)
               | _ \<Rightarrow> None) of
           None \<Rightarrow> Inl (rangeError len)
         | Some arrayLength \<Rightarrow>
             (let (vertices, rest) = plyVertices 0 (loopBound (ph_vertexCount header)) lines
                                        (replicate arrayLength (Dec (lit ''0'')))
              in case plyFaces arrayError 0 (loopBound (ph_faceCount header)) rest [] of
                   Inl e \<Rightarrow> Inl e
                 | Inr tempIndices \<Rightarrow>
                     Inr \<lparr>jr_vertices = vertices,
                          jr_indices = map (toUint32 \<circ> finiteValue) tempIndices,
                          jr_vertexCount = finiteValue (ph_vertexCount header),
                          jr_faceCount = length tempIndices div 3\<rparr>))"

text \<open>\<open>isAsciiStl\<close>.\<close>

definition isAsciiStl :: "(jsstring \<Rightarrow> nat \<Rightarrow> jsstring) \<Rightarrow> byte list \<Rightarrow> bool" where
  "isAsciiStl uc data =
     (if length data < 84 then True
      else
        (let header = decode_ascii (take (min 256 (length data)) data) in
         if \<not> startsWith (toLowerCase uc header) (lit ''solid'') then False
         else if \<not> includes_js header [10] then False
         else
           (let triangleCount = getUint32LE data 80;
                expectedSize = 84 + triangleCount * 50
            in if expectedSize = length data then False else True)))"

text \<open>One line of \<open>parseAsciiStl\<close>, on the vertices, the indices and \<open>vertexIndex\<close>.\<close>

definition stlLine ::
  "jsstring \<Rightarrow> f64 list \<times> int option list \<times> nat \<Rightarrow> f64 list \<times> int option list \<times> nat" where
  "stlLine line acc =
     (case acc of (tempVertices, tempIndices, vertexIndex) \<Rightarrow>
        (let trimmed = trim line in
         if startsWith trimmed (lit ''vertex '') then
           (let parts = split_ws trimmed
            in (tempVertices @ [parseFloat (nth_opt parts 1), parseFloat (nth_opt parts 2),
                                parseFloat (nth_opt parts 3)],
                tempIndices, vertexIndex))
         else if trimmed = lit ''endfacet'' then
           (tempVertices,
            tempIndices @ [Some (int vertexIndex), Some (int vertexIndex + 1), Some (int vertexIndex + 2)],
            vertexIndex + 3)
         else acc))"

definition parseAsciiStl :: "byte list \<Rightarrow> JsParseResult" where
  "parseAsciiStl data =
     (let text = decode_utf8 data;
          lines = split_char 10 text
      in case fold stlLine lines ([], [], 0) of
           (tempVertices, tempIndices, vertexIndex) \<Rightarrow>
             \<lparr>jr_vertices = tempVertices, jr_indices = map toUint32 tempIndices,
              jr_vertexCount = Some (int (length tempVertices div 3)),
              jr_faceCount = length tempIndices div 3\<rparr>)"

text \<open>
  One corner of an OBJ face: the index before the first slash, relative to the vertices
  read so far when negative, and then made zero-based.
\<close>

definition objCorner :: "nat \<Rightarrow> jsstring \<Rightarrow> jsint" where
  "objCorner poolSize vertexSpec =
     (let indexStr = takeWhile (\<lambda>c. c \<noteq> 47) vertexSpec;
          idx = parseInt (Some indexStr);
          idx1 = (if isNegative idx then addInt (addInt idx (int poolSize)) 1 else idx)
      in addInt idx1 (- 1))"

definition fanTriangles :: "jsint list \<Rightarrow> jsint list" where
  "fanTriangles faceIndices =
     concat (map (\<lambda>i. [faceIndices ! 0, faceIndices ! i, faceIndices ! (i + 1)])
               [1..<length faceIndices - 1])"

definition objLine :: "jsstring \<Rightarrow> f64 list \<times> jsint list \<Rightarrow> f64 list \<times> jsint list" where
  "objLine line acc =
     (case acc of (tempVertices, tempIndices) \<Rightarrow>
        (let trimmed = trim line in
         if trimmed = [] \<or> startsWith trimmed (lit ''#'') then acc
         else
           (let parts = split_ws trimmed;
                prefix = nth_opt parts 0
            in if prefix = Some (lit ''v'') then
                 (tempVertices @ [parseFloat (nth_opt parts 1), parseFloat (nth_opt parts 2),
                                  parseFloat (nth_opt parts 3)],
                  tempIndices)
               else if prefix = Some (lit ''f'') then
                 (tempVertices,
                  tempIndices
                    @ fanTriangles (map (objCorner (length tempVertices div 3)) (drop 1 parts)))
               else acc)))"

definition parseObj :: "byte list \<Rightarrow> JsParseResult" where
  "parseObj data =
     (let text = decode_utf8 data;
          lines = split_char 10 text
      in case fold objLine lines ([], []) of
           (tempVertices, tempIndices) \<Rightarrow>
             \<lparr>jr_vertices = tempVertices, jr_indices = map (toUint32 \<circ> finiteValue) tempIndices,
              jr_vertexCount = Some (int (length tempVertices div 3)),
              jr_faceCount = length tempIndices div 3\<rparr>)"

section \<open>Observability channel (log-emitter)\<close>

text \<open>
  Time is a clock of whole milliseconds (\<open>performance.now()\<close>) that advances only while
  an awaited operation is pending. Wall-clock timestamps (\<open>nowISO8601\<close>, \<open>Date.now\<close>)
  and the two timers of the metrics collector are not modelled.
\<close>

datatype LogLevel = DEBUG | INFO | WARN | ERROR

record LogContext =
  ctx_category :: "jsstring option"
  ctx_op :: "jsstring option"
  ctx_elapsed_ms :: "nat option"
  ctx_code :: "jsstring option"
  ctx_fileId :: "jsstring option"

record LogEvent =
  ev_level :: LogLevel
  ev_message :: jsstring
  ev_context :: "LogContext option"

text \<open>
  A subscriber is a weak reference to a callback. \<open>sub_alive\<close> tells whether \<open>deref\<close>
  still returns the callback, \<open>sub_throws\<close> whether the callback throws on an event.
  Callbacks are taken not to call back into the emitter.
\<close>

record Subscriber =
  sub_id :: nat
  sub_alive :: bool
  sub_throws :: "LogEvent \<Rightarrow> bool"

text \<open>
  The emitter: \<open>delivered\<close> records the callback invocations (subscriber, event) and
  \<open>consoleErrors\<close> the subscriber errors written to the console, for observation.
\<close>

record LogEmitter =
  subscribers :: "Subscriber list"
  logs :: "LogEvent list"
  maxBufferSize :: nat
  delivered :: "(nat \<times> LogEvent) list"
  consoleErrors :: "(nat \<times> LogEvent) list"

definition LogEmitter_new :: LogEmitter where
  "LogEmitter_new = \<lparr>subscribers = [], logs = [], maxBufferSize = 1000, delivered = [],
     consoleErrors = []\<rparr>"

definition subscribe :: "Subscriber \<Rightarrow> LogEmitter \<Rightarrow> LogEmitter" where
  "subscribe ref em = em\<lparr>subscribers := subscribers em @ [ref]\<rparr>"

definition unsubscribe :: "nat \<Rightarrow> LogEmitter \<Rightarrow> LogEmitter" where
  "unsubscribe i em = em\<lparr>subscribers := filter (\<lambda>r. sub_id r \<noteq> i) (subscribers em)\<rparr>"

definition emit :: "LogEvent \<Rightarrow> LogEmitter \<Rightarrow> LogEmitter" where
  "emit event em =
     (let pushed = logs em @ [event];
          kept = (if length pushed > maxBufferSize em then tl pushed else pushed);
          live = filter sub_alive (subscribers em)
      in em\<lparr>logs := kept,
            subscribers := live,
            delivered := delivered em @ map (\<lambda>r. (sub_id r, event)) live,
            consoleErrors := consoleErrors em
               @ map (\<lambda>r. (sub_id r, event)) (filter (\<lambda>r. sub_throws r event) live)\<rparr>)"

definition getLogs :: "LogEmitter \<Rightarrow> LogEvent list" where
  "getLogs em = logs em"

definition clear :: "LogEmitter \<Rightarrow> LogEmitter" where
  "clear em = em\<lparr>logs := []\<rparr>"

text \<open>Emitting a sequence of events, first to last.\<close>

definition emit_all :: "LogEvent list \<Rightarrow> LogEmitter \<Rightarrow> LogEmitter" where
  "emit_all events em = fold emit events em"

section \<open>Mesh data, errors and metrics (types, error-factory, metrics-collector)\<close>

text \<open>
  \<open>`${n}`\<close> for a count: the decimal digits (JavaScript prints integers below
  \<open>10^21\<close> this way).
\<close>

function showNat :: "nat \<Rightarrow> jsstring" where
  "showNat n = (if n < 10 then [48 + n] else showNat (n div 10) @ [48 + n mod 10])"
  by pat_completeness auto
termination
  by (relation "measure id") auto

declare showNat.simps [simp del]

definition showInt :: "int \<Rightarrow> jsstring" where
  "showInt i = (if i < 0 then 45 # showNat (nat (- i)) else showNat (nat i))"

text \<open>
  \<open>MeshStats\<close>: the counts are integers wherever the repository computes them
  (\<open>Math.floor\<close> in \<open>computeMeshStats\<close>, \<open>0 / 3\<close> in the adapter). The bounding box and
  the diagonal are doubles that nothing here computes with.
\<close>

record MeshStats =
  st_vertices :: int
  st_triangles :: int
  st_bbox_min :: "f64 \<times> f64 \<times> f64"
  st_bbox_max :: "f64 \<times> f64 \<times> f64"
  st_diagonalLength :: f64

text \<open>
  \<open>MeshBuffers\<close>. The \<open>release\<close> closure and the \<open>released\<close> cell it captures are the
  fields \<open>releaseKind\<close> and \<open>released\<close>: the adapter's closure does nothing, the one of
  \<open>toJsBuffers\<close> only sets the cell, the one of \<open>toMeshBuffers\<close> calls the bridge once.
\<close>

datatype ReleaseKind = ReleaseNothing | ReleaseJs | ReleaseBridge

record MeshBuffers =
  vertexView :: "f64 list"
  indexView :: "32 word list"
  normalView :: "f64 list option"
  generation :: int
  releaseKind :: ReleaseKind
  released :: bool

record MeshAsset =
  asset_id :: jsstring
  asset_fileName :: jsstring
  asset_fileSizeBytes :: nat
  asset_format :: MeshFormat
  asset_buffers :: MeshBuffers
  asset_stats :: "MeshStats option"

datatype AdapterErrorCode =
  E_EMPTY_FILE | E_FILE_TOO_LARGE | E_FILE_READ_FAILED | E_PARSE_FAILED
  | E_UNSUPPORTED_FORMAT | E_MEMORY_LIMIT | E_TOO_MANY_TRIANGLES

definition codeName :: "AdapterErrorCode \<Rightarrow> jsstring" where
  "codeName c = (case c of
       E_EMPTY_FILE \<Rightarrow> lit ''E_EMPTY_FILE'' | E_FILE_TOO_LARGE \<Rightarrow> lit ''E_FILE_TOO_LARGE''
     | E_FILE_READ_FAILED \<Rightarrow> lit ''E_FILE_READ_FAILED'' | E_PARSE_FAILED \<Rightarrow> lit ''E_PARSE_FAILED''
     | E_UNSUPPORTED_FORMAT \<Rightarrow> lit ''E_UNSUPPORTED_FORMAT'' | E_MEMORY_LIMIT \<Rightarrow> lit ''E_MEMORY_LIMIT''
     | E_TOO_MANY_TRIANGLES \<Rightarrow> lit ''E_TOO_MANY_TRIANGLES'')"

datatype Severity = SevError | SevWarn

record ErrorContext =
  ec_fileName :: "jsstring option"
  ec_reason :: "jsstring option"
  ec_format :: "jsstring option"
  ec_triangleCount :: "int option"
  ec_maxTriangles :: "int option"

record AdapterError =
  err_code :: AdapterErrorCode
  err_message :: jsstring
  err_severity :: Severity
  err_context :: "ErrorContext option"

definition noContext :: ErrorContext where
  "noContext = \<lparr>ec_fileName = None, ec_reason = None, ec_format = None,
     ec_triangleCount = None, ec_maxTriangles = None\<rparr>"

definition createAdapterError ::
  "AdapterErrorCode \<Rightarrow> jsstring \<Rightarrow> ErrorContext option \<Rightarrow> AdapterError" where
  "createAdapterError c msg ctx =
     \<lparr>err_code = c, err_message = msg, err_severity = SevError, err_context = ctx\<rparr>"

definition createEmptyFileError :: "jsstring \<Rightarrow> AdapterError" where
  "createEmptyFileError fileName =
     createAdapterError E_EMPTY_FILE (lit ''File is empty (0 bytes)'')
       (if fileName \<noteq> [] then Some (noContext\<lparr>ec_fileName := Some fileName\<rparr>) else None)"

definition createFileTooLargeError :: "jsstring \<Rightarrow> nat \<Rightarrow> nat \<Rightarrow> AdapterError" where
  "createFileTooLargeError fileName fileSize maxSize =
     createAdapterError E_FILE_TOO_LARGE
       (lit ''File exceeds maximum size: '' @ showNat fileSize @ lit '' bytes > ''
          @ showNat maxSize @ lit '' bytes'')
       (Some (noContext\<lparr>ec_fileName := Some fileName\<rparr>))"

definition createParseError :: "jsstring \<Rightarrow> jsstring option \<Rightarrow> AdapterError" where
  "createParseError fileName reason =
     createAdapterError E_PARSE_FAILED
       (lit ''Failed to parse mesh: ''
          @ (case reason of None \<Rightarrow> lit ''unknown error''
             | Some r \<Rightarrow> if r = [] then lit ''unknown error'' else r))
       (Some (noContext\<lparr>ec_fileName := Some fileName, ec_reason := reason\<rparr>))"

definition createUnsupportedFormatError :: "jsstring \<Rightarrow> jsstring option \<Rightarrow> AdapterError" where
  "createUnsupportedFormatError fileName fmt =
     createAdapterError E_UNSUPPORTED_FORMAT
       (case fmt of None \<Rightarrow> lit ''Unable to detect mesh format''
        | Some f \<Rightarrow> if f = [] then lit ''Unable to detect mesh format''
                    else lit ''Unsupported mesh format: '' @ f)
       (Some (noContext\<lparr>ec_fileName := Some fileName, ec_format := fmt\<rparr>))"

definition createTooManyTrianglesError :: "int \<Rightarrow> int \<Rightarrow> jsstring \<Rightarrow> AdapterError" where
  "createTooManyTrianglesError triangleCount maxTriangles fileName =
     createAdapterError E_TOO_MANY_TRIANGLES
       (lit ''Triangle count exceeds limit: '' @ showInt triangleCount @ lit '' > ''
          @ showInt maxTriangles)
       (Some (noContext\<lparr>ec_triangleCount := Some triangleCount,
                ec_maxTriangles := Some maxTriangles, ec_fileName := Some fileName\<rparr>))"

datatype ParserMode = fast | exact

record AdapterMetrics =
  am_fileId :: jsstring
  am_vertexCount :: int
  am_triangleCount :: int
  am_parserMode :: ParserMode
  am_fallbackCount :: nat
  am_bytesRead :: nat

datatype MeshLoadResult =
    LoadSuccess MeshAsset AdapterMetrics "LogEvent list"
  | LoadError AdapterError AdapterMetrics "LogEvent list"

text \<open>\<open>MetricsCollector\<close> without its two timers.\<close>

record MetricsCollector =
  mc_fileId :: jsstring
  mc_vertexCount :: int
  mc_triangleCount :: int
  mc_bytesRead :: nat
  mc_parserMode :: ParserMode
  mc_fallbackCount :: nat

definition MetricsCollector_new :: "jsstring \<Rightarrow> MetricsCollector" where
  "MetricsCollector_new fileId = \<lparr>mc_fileId = fileId, mc_vertexCount = 0, mc_triangleCount = 0,
     mc_bytesRead = 0, mc_parserMode = fast, mc_fallbackCount = 0\<rparr>"

definition setParserMode :: "ParserMode \<Rightarrow> MetricsCollector \<Rightarrow> MetricsCollector" where
  "setParserMode m mc = mc\<lparr>mc_parserMode := m\<rparr>"

definition recordFallback :: "MetricsCollector \<Rightarrow> MetricsCollector" where
  "recordFallback mc =
     (if mc_fallbackCount mc < 1 then mc\<lparr>mc_fallbackCount := mc_fallbackCount mc + 1\<rparr> else mc)"

definition setVertexCount :: "int \<Rightarrow> MetricsCollector \<Rightarrow> MetricsCollector" where
  "setVertexCount n mc = mc\<lparr>mc_vertexCount := n\<rparr>"

definition setTriangleCount :: "int \<Rightarrow> MetricsCollector \<Rightarrow> MetricsCollector" where
  "setTriangleCount n mc = mc\<lparr>mc_triangleCount := n\<rparr>"

definition setBytesRead :: "nat \<Rightarrow> MetricsCollector \<Rightarrow> MetricsCollector" where
  "setBytesRead n mc = mc\<lparr>mc_bytesRead := n\<rparr>"

definition collect :: "MetricsCollector \<Rightarrow> AdapterMetrics" where
  "collect mc = \<lparr>am_fileId = mc_fileId mc, am_vertexCount = mc_vertexCount mc,
     am_triangleCount = mc_triangleCount mc, am_parserMode = mc_parserMode mc,
     am_fallbackCount = mc_fallbackCount mc, am_bytesRead = mc_bytesRead mc\<rparr>"

section \<open>Foreign decoder bridge (embind-bridge)\<close>

text \<open>
  The module-level state of the bridge: the generation counter and the map of copied
  buffers. \<open>heap_mallocs\<close> and \<open>heap_frees\<close> count the calls of the foreign heap's
  \<open>_malloc\<close> and \<open>_free\<close>, and \<open>releaseCalls\<close> records the calls of the bridge's
  \<open>releaseBuffers\<close>, for observation.
\<close>

record PendingBuffers =
  pb_generation :: int
  pb_vertices :: "f64 list"
  pb_indices :: "32 word list"
  pb_normals :: "f64 list option"

record BridgeState =
  generationCounter :: int
  pendingBuffersMap :: "int \<rightharpoonup> PendingBuffers"
  heap_mallocs :: nat
  heap_frees :: nat
  releaseCalls :: "int list"

record EmbindParseResult =
  epr_success :: bool
  epr_error :: jsstring
  epr_vertexCount :: int
  epr_faceCount :: int
  epr_vertices :: "f64 list option"
  epr_indices :: "32 word list option"
  epr_normals :: "f64 list option"

record MeshBufferPointers =
  vertexPtr :: nat
  ptr_vertexCount :: nat
  indexPtr :: nat
  ptr_indexCount :: nat
  normalPtr :: "nat option"
  normalCount :: "nat option"
  ptr_generation :: int

definition filenameMap :: "MeshFormat \<Rightarrow> jsstring" where
  "filenameMap f = (case f of
       stl \<Rightarrow> lit ''model.stl'' | stl_binary \<Rightarrow> lit ''model.stl'' | obj \<Rightarrow> lit ''model.obj''
     | ply_ascii \<Rightarrow> lit ''model.ply'' | ply_binary_le \<Rightarrow> lit ''model.ply''
     | ply_binary_be \<Rightarrow> lit ''model.ply'')"

text \<open>
  \<open>parseMesh\<close> of the Embind bridge. \<open>wasm\<close> is the foreign entry point
  \<open>parseMeshFromPointer\<close> on the copied bytes: it returns a result object or throws. The
  input buffer is freed on every path (\<open>finally\<close>).
\<close>

definition parseMesh ::
  "(byte list \<Rightarrow> jsstring \<Rightarrow> bool \<Rightarrow> jsstring + EmbindParseResult) \<Rightarrow> byte list \<Rightarrow> MeshFormat
     \<Rightarrow> BridgeState \<Rightarrow> (jsstring + MeshBufferPointers) \<times> BridgeState" where
  "parseMesh wasm data fmt bs =
     (let filename = filenameMap fmt;
          bs1 = bs\<lparr>heap_mallocs := heap_mallocs bs + 1\<rparr>
      in case wasm data filename False of
           Inl thrown \<Rightarrow> (Inl thrown, bs1\<lparr>heap_frees := heap_frees bs1 + 1\<rparr>)
         | Inr result \<Rightarrow>
             if \<not> epr_success result then
               (Inl (if epr_error result \<noteq> [] then epr_error result else lit ''Mesh parsing failed''),
                bs1\<lparr>heap_frees := heap_frees bs1 + 1\<rparr>)
             else
               (let gen = generationCounter bs1 + 1;
                    vertices = (case epr_vertices result of None \<Rightarrow> [] | Some v \<Rightarrow> v);
                    indices = (case epr_indices result of None \<Rightarrow> [] | Some i \<Rightarrow> i);
                    normals = epr_normals result;
                    bs2 = bs1\<lparr>generationCounter := gen,
                              pendingBuffersMap := (pendingBuffersMap bs1)(gen \<mapsto>
                                 \<lparr>pb_generation = gen, pb_vertices = vertices,
                                  pb_indices = indices, pb_normals = normals\<rparr>)\<rparr>
                in (Inr \<lparr>vertexPtr = 0, ptr_vertexCount = length vertices, indexPtr = 0,
                         ptr_indexCount = length indices,
                         normalPtr = (case normals of None \<Rightarrow> None | Some n \<Rightarrow> Some 0),
                         normalCount = map_option length normals, ptr_generation = gen\<rparr>,
                    bs2\<lparr>heap_frees := heap_frees bs2 + 1\<rparr>)))"

definition releaseBuffers :: "int \<Rightarrow> BridgeState \<Rightarrow> BridgeState" where
  "releaseBuffers gen bs =
     bs\<lparr>pendingBuffersMap := (pendingBuffersMap bs)(gen := None),
        releaseCalls := releaseCalls bs @ [gen]\<rparr>"

definition getBuffersForGeneration :: "int \<Rightarrow> BridgeState \<Rightarrow> PendingBuffers option" where
  "getBuffersForGeneration gen bs = pendingBuffersMap bs gen"

section \<open>Hybrid loader (mesh-loader)\<close>

text \<open>
  What the loader takes from outside: the Unicode case mapping, the two default limits
  of \<open>types\<close>, the file id and the asset id (random), the foreign entry point, the typed
  array views that \<open>toMeshBuffers\<close> lays over the bridge's memory when no copied buffers
  are registered (\<open>Inl\<close>: the RangeError of a view out of bounds), the engine's largest
  typed array length with its RangeError message, its message for an \<open>Array\<close> that grows
  beyond \<open>2^32 - 1\<close> elements, and the time that the clock \<open>now\<close> measures from the start
  of a load to its end (a whole number of milliseconds).
\<close>

record LoaderEnv =
  le_uc :: "jsstring \<Rightarrow> nat \<Rightarrow> jsstring"
  le_MAX_MESH_FILE_BYTES :: nat
  le_MAX_TRIANGLE_COUNT :: int
  le_fileId :: jsstring
  le_assetId :: jsstring
  le_wasm :: "byte list \<Rightarrow> jsstring \<Rightarrow> bool \<Rightarrow> jsstring + EmbindParseResult"
  le_legacyViews :: "MeshBufferPointers \<Rightarrow> jsstring + (f64 list \<times> 32 word list \<times> f64 list option)"
  le_maxTypedArrayLength :: nat
  le_rangeError :: "jsint \<Rightarrow> jsstring"
  le_arrayLengthError :: jsstring
  le_loadDurationMs :: nat

text \<open>
  The options of \<open>loadMeshAsset\<close> that matter here (the bridge is the Embind bridge
  above; \<open>idFactory\<close> and \<open>now\<close> are covered by the asset id and the load duration of
  the environment).
\<close>

record MeshLoaderOptions =
  formatHint :: "MeshFormat option"
  statsCalculator :: "(MeshBuffers \<Rightarrow> MeshStats option) option"
  maxFileBytes :: "nat option"
  maxTriangleCount :: "int option"

text \<open>A \<open>Blob\<close> with an optional name; \<open>blob_readError\<close> is the message of a rejected read.\<close>

record MeshBlob =
  blob_name :: "jsstring option"
  blob_bytes :: "byte list"
  blob_readError :: "jsstring option"

text \<open>The \<open>release\<close> method of a \<open>MeshBuffers\<close> value.\<close>

definition release :: "MeshBuffers \<Rightarrow> BridgeState \<Rightarrow> MeshBuffers \<times> BridgeState" where
  "release b bs =
     (case releaseKind b of
        ReleaseNothing \<Rightarrow> (b, bs)
      | ReleaseJs \<Rightarrow> (b\<lparr>released := True\<rparr>, bs)
      | ReleaseBridge \<Rightarrow>
          if released b then (b, bs)
          else (b\<lparr>released := True\<rparr>, releaseBuffers (generation b) bs))"

definition toJsBuffers :: "JsParseResult \<Rightarrow> MeshBuffers" where
  "toJsBuffers result =
     \<lparr>vertexView = jr_vertices result, indexView = jr_indices result, normalView = None,
      generation = - 1, releaseKind = ReleaseJs, released = False\<rparr>"

definition toMeshBuffers ::
  "LoaderEnv \<Rightarrow> MeshBufferPointers \<Rightarrow> BridgeState \<Rightarrow> jsstring + MeshBuffers" where
  "toMeshBuffers env pointers bs =
     (case getBuffersForGeneration (ptr_generation pointers) bs of
        Some cached \<Rightarrow>
          Inr \<lparr>vertexView = pb_vertices cached, indexView = pb_indices cached,
               normalView = pb_normals cached, generation = ptr_generation pointers,
               releaseKind = ReleaseBridge, released = False\<rparr>
      | None \<Rightarrow>
          (case le_legacyViews env pointers of
             Inl rangeError \<Rightarrow> Inl rangeError
           | Inr (vertexView', indexView', normalView') \<Rightarrow>
               Inr \<lparr>vertexView = vertexView', indexView = indexView', normalView = normalView',
                    generation = ptr_generation pointers, releaseKind = ReleaseBridge,
                    released = False\<rparr>))"

definition inferFormat :: "(jsstring \<Rightarrow> nat \<Rightarrow> jsstring) \<Rightarrow> jsstring \<Rightarrow> MeshFormat option" where
  "inferFormat uc fileName =
     (let lower = toLowerCase uc fileName in
      if endsWith lower (lit ''.obj'') then Some obj
      else if endsWith lower (lit ''.stl'') then Some stl
      else if endsWith lower (lit ''.ply'') then Some ply_ascii
      else None)"

datatype Parser = js | wasm

record ParseStrategy =
  ps_parser :: Parser
  ps_format :: MeshFormat

definition determineParseStrategy ::
  "(jsstring \<Rightarrow> nat \<Rightarrow> jsstring) \<Rightarrow> byte list \<Rightarrow> MeshFormat \<Rightarrow> jsstring \<Rightarrow> ParseStrategy" where
  "determineParseStrategy uc data hintFormat fileName =
     (let ext = last (split_char 46 (toLowerCase uc fileName)) in
      if ext = lit ''ply'' then
        (let header = parsePlyHeader data in
         if ph_format header = ascii then \<lparr>ps_parser = js, ps_format = ply_ascii\<rparr>
         else if ph_format header = binary_little_endian
           then \<lparr>ps_parser = wasm, ps_format = ply_binary_le\<rparr>
         else \<lparr>ps_parser = wasm, ps_format = ply_binary_be\<rparr>)
      else if ext = lit ''stl'' then
        (if isAsciiStl uc data then \<lparr>ps_parser = js, ps_format = stl\<rparr>
         else \<lparr>ps_parser = wasm, ps_format = stl_binary\<rparr>)
      else if ext = lit ''obj'' then \<lparr>ps_parser = js, ps_format = obj\<rparr>
      else \<lparr>ps_parser = wasm, ps_format = hintFormat\<rparr>)"

definition parseWithJs :: "LoaderEnv \<Rightarrow> byte list \<Rightarrow> MeshFormat \<Rightarrow> jsstring + JsParseResult" where
  "parseWithJs env data fmt =
     (case fmt of
        ply_ascii \<Rightarrow> parseAsciiPly (le_maxTypedArrayLength env) (le_rangeError env)
                       (le_arrayLengthError env) data
      | stl \<Rightarrow> Inr (parseAsciiStl data)
      | obj \<Rightarrow> Inr (parseObj data)
      | _ \<Rightarrow> Inl (lit ''JS parser does not support format: '' @ formatName fmt))"

definition loaderLog ::
  "LoaderEnv \<Rightarrow> LogLevel \<Rightarrow> jsstring \<Rightarrow> jsstring option \<Rightarrow> jsstring option \<Rightarrow> LogEvent" where
  "loaderLog env lvl msg op' code' =
     \<lparr>ev_level = lvl, ev_message = msg,
      ev_context = Some \<lparr>ctx_category = Some (lit ''adapter''), ctx_op = op',
                         ctx_elapsed_ms = None, ctx_code = code', ctx_fileId = Some (le_fileId env)\<rparr>\<rparr>"

definition buildMetrics :: "LoaderEnv \<Rightarrow> nat \<Rightarrow> int \<Rightarrow> int \<Rightarrow> AdapterMetrics" where
  "buildMetrics env fileSizeBytes triangleCount vertexCount =
     \<lparr>am_fileId = le_fileId env, am_vertexCount = vertexCount, am_triangleCount = triangleCount,
      am_parserMode = fast, am_fallbackCount = 0, am_bytesRead = fileSizeBytes\<rparr>"

definition loaderError ::
  "AdapterErrorCode \<Rightarrow> jsstring \<Rightarrow> ErrorContext \<Rightarrow> AdapterMetrics \<Rightarrow> LogEvent list \<Rightarrow> MeshLoadResult" where
  "loaderError c msg ctx metrics lg =
     LoadError \<lparr>err_code = c, err_message = msg, err_severity = SevError, err_context = Some ctx\<rparr>
       metrics lg"

text \<open>The end of \<open>loadMeshAsset\<close>, once the buffers are there.\<close>

definition loaderSuccess ::
  "LoaderEnv \<Rightarrow> MeshLoaderOptions \<Rightarrow> jsstring \<Rightarrow> nat \<Rightarrow> MeshFormat \<Rightarrow> MeshBuffers \<Rightarrow> int \<Rightarrow> int
     \<Rightarrow> nat \<Rightarrow> LogEvent list \<Rightarrow> MeshLoadResult" where
  "loaderSuccess env options fileName fileSizeBytes actualFormat buffers triangleCount vertexCount
     byteLength lg =
     (let asset = \<lparr>asset_id = le_assetId env, asset_fileName = fileName,
                   asset_fileSizeBytes = fileSizeBytes, asset_format = actualFormat,
                   asset_buffers = buffers,
                   asset_stats = (case statsCalculator options of None \<Rightarrow> None
                                  | Some calc \<Rightarrow> calc buffers)\<rparr>;
          metrics = \<lparr>am_fileId = le_fileId env, am_vertexCount = vertexCount,
                     am_triangleCount = triangleCount, am_parserMode = fast,
                     am_fallbackCount = 0, am_bytesRead = byteLength\<rparr>;
          lg1 = lg @ [\<lparr>ev_level = INFO,
                       ev_message = lit ''Mesh load complete: '' @ showInt triangleCount
                          @ lit '' triangles, '' @ showInt vertexCount @ lit '' vertices'',
                       ev_context = Some \<lparr>ctx_category = Some (lit ''adapter''),
                          ctx_op = Some (lit ''load_complete''),
                          ctx_elapsed_ms = Some (le_loadDurationMs env),
                          ctx_code = Some (lit ''Success''),
                          ctx_fileId = Some (le_fileId env)\<rparr>\<rparr>]
      in LoadSuccess asset metrics lg1)"

text \<open>The branch of \<open>loadMeshAsset\<close> that uses the JavaScript parsers.\<close>

definition loadWithJs ::
  "LoaderEnv \<Rightarrow> MeshLoaderOptions \<Rightarrow> jsstring \<Rightarrow> nat \<Rightarrow> int \<Rightarrow> byte list \<Rightarrow> ParseStrategy
     \<Rightarrow> LogEvent list \<Rightarrow> MeshLoadResult" where
  "loadWithJs env options fileName fileSizeBytes guardTriangles arrayBuffer parseStrategy lg1 =
     (case parseWithJs env arrayBuffer (ps_format parseStrategy) of
        Inl errorMessage \<Rightarrow>
          loaderError E_PARSE_FAILED (lit ''JS parsing failed: '' @ errorMessage)
            (noContext\<lparr>ec_fileName := Some fileName, ec_reason := Some (lit ''js_parser_error'')\<rparr>)
            (buildMetrics env fileSizeBytes 0 0)
            (lg1 @ [loaderLog env ERROR (lit ''JS parsing failed: '' @ errorMessage) None
                      (Some (lit ''E_PARSE_FAILED''))])
      | Inr jsResult \<Rightarrow>
          (let triangleCount = int (jr_faceCount jsResult);
               vertexCount = int (length (jr_vertices jsResult) div 3)
           in if triangleCount > guardTriangles then
                loaderError E_TOO_MANY_TRIANGLES (lit ''Triangle count exceeds allowed limit.'')
                  (noContext\<lparr>ec_triangleCount := Some triangleCount,
                     ec_maxTriangles := Some guardTriangles\<rparr>)
                  (buildMetrics env fileSizeBytes triangleCount vertexCount)
                  (lg1 @ [loaderLog env ERROR (lit ''Triangle count exceeds allowed limit.'') None
                            (Some (lit ''E_TOO_MANY_TRIANGLES''))])
              else
                loaderSuccess env options fileName fileSizeBytes (ps_format parseStrategy)
                  (toJsBuffers jsResult) triangleCount vertexCount (length arrayBuffer) lg1))"

text \<open>
  The branch that goes through the bridge. \<open>Inl\<close> is an exception that escapes
  \<open>loadMeshAsset\<close> (no \<open>try\<close> surrounds \<open>toMeshBuffers\<close>).
\<close>

definition loadWithWasm ::
  "LoaderEnv \<Rightarrow> MeshLoaderOptions \<Rightarrow> jsstring \<Rightarrow> nat \<Rightarrow> int \<Rightarrow> byte list \<Rightarrow> MeshFormat
     \<Rightarrow> LogEvent list \<Rightarrow> BridgeState \<Rightarrow> (jsstring + MeshLoadResult) \<times> BridgeState" where
  "loadWithWasm env options fileName fileSizeBytes guardTriangles arrayBuffer actualFormat lg1 bs =
     (case parseMesh (le_wasm env) arrayBuffer actualFormat bs of
        (Inl errorMessage, bs1) \<Rightarrow>
          (Inr (loaderError E_PARSE_FAILED (lit ''WASM parsing failed: '' @ errorMessage)
                  (noContext\<lparr>ec_fileName := Some fileName,
                     ec_reason := Some (lit ''wasm_parser_error'')\<rparr>)
                  (buildMetrics env fileSizeBytes 0 0)
                  (lg1 @ [loaderLog env ERROR (lit ''WASM parsing failed: '' @ errorMessage) None
                            (Some (lit ''E_PARSE_FAILED''))])), bs1)
      | (Inr pointers, bs1) \<Rightarrow>
          (case toMeshBuffers env pointers bs1 of
             Inl rangeError \<Rightarrow> (Inl rangeError, bs1)
           | Inr buffers \<Rightarrow>
               (let triangleCount = int (ptr_indexCount pointers div 3);
                    vertexCount = int (ptr_vertexCount pointers)
                in if triangleCount > guardTriangles then
                     (case release buffers bs1 of
                        (buffers', bs2) \<Rightarrow>
                          (Inr (loaderError E_TOO_MANY_TRIANGLES
                                  (lit ''Triangle count exceeds allowed limit.'')
                                  (noContext\<lparr>ec_triangleCount := Some triangleCount,
                                     ec_maxTriangles := Some guardTriangles\<rparr>)
                                  (buildMetrics env fileSizeBytes triangleCount vertexCount)
                                  (lg1 @ [loaderLog env ERROR
                                            (lit ''Triangle count exceeds allowed limit.'') None
                                            (Some (lit ''E_TOO_MANY_TRIANGLES''))])), bs2))
                   else
                     (Inr (loaderSuccess env options fileName fileSizeBytes actualFormat buffers
                             triangleCount vertexCount (length arrayBuffer) lg1), bs1))))"

text \<open>\<open>loadMeshAsset\<close>.\<close>

definition loadMeshAsset ::
  "LoaderEnv \<Rightarrow> MeshBlob \<Rightarrow> MeshLoaderOptions \<Rightarrow> BridgeState
     \<Rightarrow> (jsstring + MeshLoadResult) \<times> BridgeState" where
  "loadMeshAsset env file options bs =
     (let fileName = (case blob_name file of None \<Rightarrow> lit ''unnamed.mesh'' | Some n \<Rightarrow> n);
          fileSizeBytes = length (blob_bytes file);
          guardBytes = (case maxFileBytes options of None \<Rightarrow> le_MAX_MESH_FILE_BYTES env | Some g \<Rightarrow> g);
          guardTriangles =
            (case maxTriangleCount options of None \<Rightarrow> le_MAX_TRIANGLE_COUNT env | Some g \<Rightarrow> g);
          lg0 = [loaderLog env DEBUG (lit ''Starting mesh load: '' @ fileName)
                   (Some (lit ''load_start'')) None];
          metrics0 = buildMetrics env fileSizeBytes 0 0
      in if fileSizeBytes \<le> 0 then
           (Inr (loaderError E_EMPTY_FILE (lit ''Cannot load empty file.'')
                   (noContext\<lparr>ec_fileName := Some fileName\<rparr>) metrics0
                   (lg0 @ [loaderLog env ERROR (lit ''Cannot load empty file.'') None
                             (Some (lit ''E_EMPTY_FILE''))])), bs)
         else if fileSizeBytes > guardBytes then
           (Inr (loaderError E_FILE_TOO_LARGE (lit ''Asset size exceeds allowed limit.'')
                   (noContext\<lparr>ec_fileName := Some fileName\<rparr>) metrics0
                   (lg0 @ [loaderLog env ERROR (lit ''Asset size exceeds allowed limit.'') None
                             (Some (lit ''E_FILE_TOO_LARGE''))])), bs)
         else
           (case (case formatHint options of None \<Rightarrow> inferFormat (le_uc env) fileName
                  | Some h \<Rightarrow> Some h) of
              None \<Rightarrow>
                (Inr (loaderError E_UNSUPPORTED_FORMAT
                        (lit ''Unrecognized file extension: '' @ fileName)
                        (noContext\<lparr>ec_fileName := Some fileName, ec_format := Some (lit ''unknown'')\<rparr>)
                        metrics0
                        (lg0 @ [loaderLog env ERROR (lit ''Unrecognized file extension: '' @ fileName)
                                  None (Some (lit ''E_UNSUPPORTED_FORMAT''))])), bs)
            | Some fmt \<Rightarrow>
                (case blob_readError file of
                   Some readMessage \<Rightarrow>
                     (Inr (loaderError E_FILE_READ_FAILED (lit ''Failed to read file: '' @ readMessage)
                             (noContext\<lparr>ec_fileName := Some fileName, ec_reason := Some (lit ''io_error'')\<rparr>)
                             metrics0
                             (lg0 @ [loaderLog env ERROR (lit ''Failed to read file: '' @ readMessage)
                                       None (Some (lit ''E_FILE_READ_FAILED''))])), bs)
                 | None \<Rightarrow>
                     (let arrayBuffer = blob_bytes file;
                          parseStrategy = determineParseStrategy (le_uc env) arrayBuffer fmt fileName;
                          lg1 = lg0 @ [loaderLog env DEBUG
                                  (lit ''Parser strategy determined: ''
                                     @ (case ps_parser parseStrategy of js \<Rightarrow> lit ''js'' | wasm \<Rightarrow> lit ''wasm'')
                                     @ lit '' ('' @ formatName (ps_format parseStrategy) @ lit '')'')
                                  (Some (lit ''detect_format'')) None]
                      in if ps_parser parseStrategy = js then
                           (Inr (loadWithJs env options fileName fileSizeBytes guardTriangles
                                   arrayBuffer parseStrategy lg1), bs)
                         else
                           loadWithWasm env options fileName fileSizeBytes guardTriangles arrayBuffer
                             (ps_format parseStrategy) lg1 bs))))"

section \<open>Lock watchdog (shared-buffer-timeout)\<close>

text \<open>
  While an awaited operation is pending the host does two things: time passes
  (\<open>Tick\<close>), and the event loop gets to run the timers that are due (\<open>RunTimers\<close>).
  A schedule is the list of these events up to the moment the operation settles.
\<close>

datatype HostEvent = Tick nat | RunTimers

definition SHARED_BUFFER_TIMEOUT_MS :: nat where
  "SHARED_BUFFER_TIMEOUT_MS = 30000"

record 's MonitorOptions =
  opt_timeoutMs :: "nat option"
  opt_onTimeoutWarning :: "(nat \<Rightarrow> 's \<Rightarrow> 's) option"
  opt_continueAfterTimeout :: "bool option"

text \<open>
  The monitor's three variables, the host's side of its one-shot timer (\<open>tw_pending\<close>:
  the time it is due, while it is set and has neither fired nor been cleared), the
  clock, and the state \<open>tw_user\<close> on which the warning callback acts.
\<close>

record 's TimerWorld =
  mon_startTime :: "nat option"
  mon_timeoutId :: "nat option"
  mon_timedOut :: bool
  tw_pending :: "nat option"
  tw_clock :: nat
  tw_user :: 's

definition getElapsedMs :: "'s TimerWorld \<Rightarrow> nat" where
  "getElapsedMs w = (case mon_startTime w of None \<Rightarrow> 0 | Some t0 \<Rightarrow> tw_clock w - t0)"

definition hasTimedOut :: "'s TimerWorld \<Rightarrow> bool" where
  "hasTimedOut w = mon_timedOut w"

definition timeoutMs_of :: "'s MonitorOptions \<Rightarrow> nat" where
  "timeoutMs_of opts = (case opt_timeoutMs opts of None \<Rightarrow> SHARED_BUFFER_TIMEOUT_MS | Some t \<Rightarrow> t)"

definition monitor_start :: "'s MonitorOptions \<Rightarrow> 's TimerWorld \<Rightarrow> 's TimerWorld" where
  "monitor_start opts w =
     (if mon_startTime w \<noteq> None then w
      else w\<lparr>mon_startTime := Some (tw_clock w), mon_timedOut := False,
             mon_timeoutId := Some 1, tw_pending := Some (tw_clock w + timeoutMs_of opts)\<rparr>)"

text \<open>The function given to \<open>setTimeout\<close>.\<close>

definition timer_callback :: "'s MonitorOptions \<Rightarrow> 's TimerWorld \<Rightarrow> 's TimerWorld" where
  "timer_callback opts w =
     (let w1 = w\<lparr>mon_timedOut := True\<rparr>;
          elapsedMs = getElapsedMs w1
      in case opt_onTimeoutWarning opts of
           None \<Rightarrow> w1
         | Some warn \<Rightarrow> w1\<lparr>tw_user := warn elapsedMs (tw_user w1)\<rparr>)"

definition monitor_stop :: "'s TimerWorld \<Rightarrow> 's TimerWorld" where
  "monitor_stop w =
     (if mon_timeoutId w \<noteq> None then w\<lparr>mon_timeoutId := None, tw_pending := None\<rparr> else w)"

definition host_step :: "'s MonitorOptions \<Rightarrow> HostEvent \<Rightarrow> 's TimerWorld \<Rightarrow> 's TimerWorld" where
  "host_step opts ev w =
     (case ev of
        Tick n \<Rightarrow> w\<lparr>tw_clock := tw_clock w + n\<rparr>
      | RunTimers \<Rightarrow>
          (case tw_pending w of
             None \<Rightarrow> w
           | Some due \<Rightarrow> if due \<le> tw_clock w then timer_callback opts (w\<lparr>tw_pending := None\<rparr>)
                         else w))"

record 'a TimeoutResult =
  tr_value :: 'a
  tr_timedOut :: bool
  tr_elapsedMs :: nat

text \<open>
  \<open>withSharedBufferTimeout\<close>. The operation is called once; \<open>outcome\<close> is what its
  promise settles to (\<open>Inl\<close>: the rejection) and \<open>schedule\<close> what the host does until
  then. The result carries the clock and the user state at the return.
\<close>

definition withSharedBufferTimeout ::
  "'s MonitorOptions \<Rightarrow> ('e + 'a) \<Rightarrow> HostEvent list \<Rightarrow> nat \<Rightarrow> 's
     \<Rightarrow> ('e + 'a TimeoutResult) \<times> 's TimerWorld" where
  "withSharedBufferTimeout opts outcome schedule clock0 user0 =
     (let monitor = \<lparr>mon_startTime = None, mon_timeoutId = None, mon_timedOut = False,
                      tw_pending = None, tw_clock = clock0, tw_user = user0\<rparr>;
          w1 = monitor_start opts monitor;
          w2 = fold (host_step opts) schedule w1;
          result = (case outcome of
                      Inl e \<Rightarrow> Inl e
                    | Inr v \<Rightarrow> Inr \<lparr>tr_value = v, tr_timedOut = hasTimedOut w2,
                                    tr_elapsedMs = getElapsedMs w2\<rparr>)
      in (result, monitor_stop w2))"

text \<open>
  Two readings of a schedule, used to state what the watchdog does: the time that passes
  during it, and the clock time at which the event loop runs the timer callback, if it
  does (the first \<open>RunTimers\<close> at or after the time the timer is due).
\<close>

fun ticks :: "HostEvent list \<Rightarrow> nat" where
  "ticks [] = 0"
| "ticks (Tick n # es) = n + ticks es"
| "ticks (RunTimers # es) = ticks es"

fun firedAt :: "nat \<Rightarrow> nat \<Rightarrow> HostEvent list \<Rightarrow> nat option" where
  "firedAt due c [] = None"
| "firedAt due c (Tick n # es) = firedAt due (c + n) es"
| "firedAt due c (RunTimers # es) = (if due \<le> c then Some c else firedAt due c es)"

definition watchdogFired :: "'s MonitorOptions \<Rightarrow> HostEvent list \<Rightarrow> nat \<Rightarrow> nat option" where
  "watchdogFired opts schedule clock0 = firedAt (clock0 + timeoutMs_of opts) clock0 schedule"

section \<open>The adapter's load (adapter)\<close>

text \<open>
  What the adapter takes from outside: the Unicode case mapping, the two limits of
  \<open>types\<close> (a file of this repository that is not part of the sources at hand), the
  file id (a random UUID), the message of a rejected file read, and, for each parser
  mode, what the decode operation wrapped by \<open>parseWithMode\<close> settles to and what the
  host does in the meantime. In the source that operation is \<open>stubOperation\<close> below (its
  parsing logic is still to be integrated); the load is modelled for any operation.
\<close>

record AdapterEnv =
  env_uc :: "jsstring \<Rightarrow> nat \<Rightarrow> jsstring"
  env_MAX_MESH_FILE_BYTES :: nat
  env_MAX_TRIANGLE_COUNT :: int
  env_fileId :: jsstring
  env_readError :: jsstring
  env_operation :: "ParserMode \<Rightarrow> jsstring + MeshAsset"
  env_schedule :: "ParserMode \<Rightarrow> HostEvent list"

text \<open>
  The adapter's state: its log emitter and the clock; \<open>ad_decodeCalls\<close> records each
  invocation of the decode operation, for observation.
\<close>

record AdapterState =
  ad_logEmitter :: LogEmitter
  ad_clock :: nat
  ad_decodeCalls :: "ParserMode list"

record MeshLoadOptions =
  computeNormals :: "bool option"
  enableFallback :: "bool option"

definition logContext ::
  "string \<Rightarrow> string \<Rightarrow> nat option \<Rightarrow> jsstring option \<Rightarrow> jsstring \<Rightarrow> LogContext" where
  "logContext category op' elapsed code' fileId =
     \<lparr>ctx_category = Some (lit category), ctx_op = Some (lit op'), ctx_elapsed_ms = elapsed,
      ctx_code = code', ctx_fileId = Some fileId\<rparr>"

definition emitLog :: "LogLevel \<Rightarrow> jsstring \<Rightarrow> LogContext \<Rightarrow> AdapterState \<Rightarrow> AdapterState" where
  "emitLog lvl msg ctx st =
     st\<lparr>ad_logEmitter :=
          emit \<lparr>ev_level = lvl, ev_message = msg, ev_context = Some ctx\<rparr> (ad_logEmitter st)\<rparr>"

text \<open>\<open>n.toFixed(2)\<close> of a whole number of milliseconds.\<close>

definition toFixed2 :: "nat \<Rightarrow> jsstring" where
  "toFixed2 n = showNat n @ lit ''.00''"

definition zero3 :: "f64 \<times> f64 \<times> f64" where
  "zero3 = (Dec (lit ''0''), Dec (lit ''0''), Dec (lit ''0''))"

text \<open>The operation that \<open>parseWithMode\<close> wraps in the source: an empty mesh, in either mode.\<close>

definition stubOperation :: "File \<Rightarrow> MeshFormat \<Rightarrow> jsstring \<Rightarrow> jsstring + MeshAsset" where
  "stubOperation file fmt ident =
     Inr \<lparr>asset_id = ident, asset_fileName = file_name file,
          asset_fileSizeBytes = file_size file, asset_format = fmt,
          asset_buffers = \<lparr>vertexView = [], indexView = [], normalView = None, generation = 1,
                            releaseKind = ReleaseNothing, released = False\<rparr>,
          asset_stats = Some \<lparr>st_vertices = 0, st_triangles = 0, st_bbox_min = zero3,
                               st_bbox_max = zero3, st_diagonalLength = Dec (lit ''0'')\<rparr>\<rparr>"

definition timeoutWarning :: "jsstring \<Rightarrow> nat \<Rightarrow> LogEmitter \<Rightarrow> LogEmitter" where
  "timeoutWarning ident timeoutElapsedMs em =
     emit \<lparr>ev_level = WARN,
           ev_message = lit ''SharedArrayBuffer lock timeout after '' @ showNat timeoutElapsedMs
              @ lit ''ms. Browser tab may be inactive. Continuing operation.'',
           ev_context = Some (logContext ''wasm'' ''shared_buffer_timeout''
              (Some timeoutElapsedMs) None ident)\<rparr> em"

text \<open>The options that \<open>parseWithMode\<close> passes to the watchdog.\<close>

definition adapterWatchdog :: "jsstring \<Rightarrow> LogEmitter MonitorOptions" where
  "adapterWatchdog ident = \<lparr>opt_timeoutMs = Some SHARED_BUFFER_TIMEOUT_MS,
     opt_onTimeoutWarning = Some (timeoutWarning ident), opt_continueAfterTimeout = Some True\<rparr>"

definition parseWithMode ::
  "AdapterEnv \<Rightarrow> ParserMode \<Rightarrow> jsstring \<Rightarrow> AdapterState \<Rightarrow> (jsstring + MeshAsset) \<times> AdapterState" where
  "parseWithMode env pmode ident st =
     (let opts = adapterWatchdog ident;
          st1 = st\<lparr>ad_decodeCalls := ad_decodeCalls st @ [pmode]\<rparr>;
          (res, w) = withSharedBufferTimeout opts (env_operation env pmode)
                       (env_schedule env pmode) (ad_clock st1) (ad_logEmitter st1);
          st2 = st1\<lparr>ad_clock := tw_clock w, ad_logEmitter := tw_user w\<rparr>
      in case res of
           Inl e \<Rightarrow> (Inl e, st2)
         | Inr r \<Rightarrow>
             (Inr (tr_value r),
              if tr_timedOut r
              then emitLog DEBUG
                     (lit ''Parse completed after SharedArrayBuffer timeout. Total elapsed: ''
                        @ toFixed2 (tr_elapsedMs r) @ lit ''ms'')
                     (logContext ''wasm'' ''parse_after_timeout'' (Some (tr_elapsedMs r)) None ident)
                     st2
              else st2))"

definition validateParsedMesh :: "MeshAsset \<Rightarrow> bool \<times> jsstring" where
  "validateParsedMesh asset =
     (case asset_stats asset of
        None \<Rightarrow> (False, lit ''No vertices found'')
      | Some stats \<Rightarrow>
          if st_vertices stats = 0 then (False, lit ''No vertices found'')
          else if st_triangles stats = 0 then (False, lit ''No triangles found'')
          else (True, []))"

record ParseFileResult =
  pf_success :: bool
  pf_asset :: "MeshAsset option"
  pf_error :: "jsstring option"
  pf_parserMode :: ParserMode
  pf_fallbackOccurred :: bool

text \<open>The second half of \<open>parseFile\<close>: the Exact attempt after a failed Fast attempt.\<close>

definition exactFallback ::
  "AdapterEnv \<Rightarrow> jsstring \<Rightarrow> MetricsCollector \<Rightarrow> AdapterState
     \<Rightarrow> (ParseFileResult \<times> MetricsCollector) \<times> AdapterState" where
  "exactFallback env fileId metrics st =
     (let metrics1 = recordFallback metrics;
          st1 = emitLog DEBUG (lit ''Attempting Exact mode parsing'')
                  (logContext ''adapter'' ''parse_exact_start'' None None fileId) st;
          exactStartTime = ad_clock st1;
          (r, st2) = parseWithMode env exact fileId st1
      in case r of
           Inr asset \<Rightarrow>
             (let exactElapsed = ad_clock st2 - exactStartTime;
                  st3 = emitLog INFO
                          (lit ''Exact mode parsing successful after fallback (''
                             @ toFixed2 exactElapsed @ lit ''ms)'')
                          (logContext ''adapter'' ''parse_exact_complete'' (Some exactElapsed) None fileId)
                          st2
              in ((\<lparr>pf_success = True, pf_asset = Some asset, pf_error = None,
                     pf_parserMode = exact, pf_fallbackOccurred = True\<rparr>, metrics1), st3))
         | Inl exactErrorMsg \<Rightarrow>
             (let st3 = emitLog ERROR (lit ''Exact mode parsing also failed: '' @ exactErrorMsg)
                          (logContext ''adapter'' ''parse_exact_failed''
                             (Some (ad_clock st2 - exactStartTime)) None fileId)
                          st2
              in ((\<lparr>pf_success = False, pf_asset = None,
                     pf_error = Some (lit ''Both Fast and Exact parsing failed. Last error: ''
                                        @ exactErrorMsg),
                     pf_parserMode = exact, pf_fallbackOccurred = True\<rparr>, metrics1), st3)))"

text \<open>
  \<open>parseFile\<close>. \<open>Inl\<close> is an exception that leaves the function: the rejected read of
  the file's bytes.
\<close>

definition parseFile ::
  "AdapterEnv \<Rightarrow> File \<Rightarrow> MeshLoadOptions \<Rightarrow> MetricsCollector \<Rightarrow> jsstring \<Rightarrow> AdapterState
     \<Rightarrow> (jsstring + ParseFileResult \<times> MetricsCollector) \<times> AdapterState" where
  "parseFile env file options metrics fileId st =
     (if \<not> file_readable file then (Inl (env_readError env), st)
      else
        (let fallbackEnabled = (enableFallback options \<noteq> Some False);
             st1 = emitLog DEBUG (lit ''Attempting Fast mode parsing'')
                     (logContext ''adapter'' ''parse_fast_start'' None None fileId) st;
             fastStartTime = ad_clock st1;
             (r, st2) = parseWithMode env fast fileId st1
         in case r of
              Inr asset \<Rightarrow>
                (let (valid, reason) = validateParsedMesh asset in
                 if valid then
                   (let fastElapsed = ad_clock st2 - fastStartTime;
                        st3 = emitLog DEBUG
                                (lit ''Fast mode parsing successful ('' @ toFixed2 fastElapsed
                                   @ lit ''ms)'')
                                (logContext ''adapter'' ''parse_fast_complete'' (Some fastElapsed) None fileId)
                                st2
                    in (Inr (\<lparr>pf_success = True, pf_asset = Some asset, pf_error = None,
                               pf_parserMode = fast, pf_fallbackOccurred = False\<rparr>, metrics), st3))
                 else if \<not> fallbackEnabled then
                   (Inr (\<lparr>pf_success = False, pf_asset = None,
                           pf_error = Some (lit ''Fast mode validation failed: '' @ reason),
                           pf_parserMode = fast, pf_fallbackOccurred = False\<rparr>, metrics), st2)
                 else
                   (let st3 = emitLog WARN
                                (lit ''Fast mode validation failed: '' @ reason
                                   @ lit ''. Triggering Exact fallback.'')
                                (logContext ''robustness'' ''fallback_exact''
                                   (Some (ad_clock st2 - fastStartTime)) None fileId)
                                st2
                    in case exactFallback env fileId metrics st3 of (res, st4) \<Rightarrow> (Inr res, st4)))
            | Inl fastErrorMsg \<Rightarrow>
                if \<not> fallbackEnabled then
                  (Inr (\<lparr>pf_success = False, pf_asset = None, pf_error = Some fastErrorMsg,
                          pf_parserMode = fast, pf_fallbackOccurred = False\<rparr>, metrics), st2)
                else
                  (let st3 = emitLog WARN
                               (lit ''Fast mode parsing failed: '' @ fastErrorMsg
                                  @ lit ''. Triggering Exact fallback.'')
                               (logContext ''robustness'' ''fallback_exact''
                                  (Some (ad_clock st2 - fastStartTime)) None fileId)
                               st2
                   in case exactFallback env fileId metrics st3 of (res, st4) \<Rightarrow> (Inr res, st4))))"

definition buildSuccessResult :: "MeshAsset \<Rightarrow> MetricsCollector \<Rightarrow> LogEvent list \<Rightarrow> MeshLoadResult" where
  "buildSuccessResult asset metrics lg = LoadSuccess asset (collect metrics) lg"

definition buildErrorResult :: "AdapterError \<Rightarrow> MetricsCollector \<Rightarrow> LogEvent list \<Rightarrow> MeshLoadResult" where
  "buildErrorResult error metrics lg = LoadError error (collect metrics) lg"

definition methodName :: "DetectionMethod \<Rightarrow> jsstring" where
  "methodName m = (case m of magic \<Rightarrow> lit ''magic'' | extension \<Rightarrow> lit ''extension''
     | mime \<Rightarrow> lit ''mime'' | unknown \<Rightarrow> lit ''unknown'')"

text \<open>\<open>`${f}`\<close> of an optional format: \<open>null\<close> and \<open>undefined\<close> print as such.\<close>

definition showFormat :: "string \<Rightarrow> MeshFormat option \<Rightarrow> jsstring" where
  "showFormat absent f = (case f of None \<Rightarrow> lit absent | Some g \<Rightarrow> formatName g)"

text \<open>The steps of \<open>load\<close> after a successful \<open>parseFile\<close> call returned.\<close>

definition finishLoad ::
  "AdapterEnv \<Rightarrow> File \<Rightarrow> jsstring \<Rightarrow> ParseFileResult \<Rightarrow> MetricsCollector \<Rightarrow> AdapterState
     \<Rightarrow> MeshLoadResult \<times> AdapterState" where
  "finishLoad env file fileId parseResult metrics st =
     (let metrics1 = setParserMode (pf_parserMode parseResult) metrics;
          st1 = (if pf_fallbackOccurred parseResult
                 then emitLog DEBUG (lit ''Parser fallback was triggered'')
                        (logContext ''robustness'' ''fallback_recorded'' None None fileId) st
                 else st)
      in case (if pf_success parseResult then pf_asset parseResult else None) of
           None \<Rightarrow>
             (let error = createParseError (file_name file) (pf_error parseResult);
                  st2 = emitLog ERROR (err_message error)
                          (logContext ''adapter'' ''parse_mesh'' None
                             (Some (codeName (err_code error))) fileId) st1
              in (buildErrorResult error metrics1 (getLogs (ad_logEmitter st2)), st2))
         | Some asset \<Rightarrow>
             (case asset_stats asset of
                Some stats \<Rightarrow>
                  if st_triangles stats > env_MAX_TRIANGLE_COUNT env then
                    (let error = createTooManyTrianglesError (st_triangles stats)
                                   (env_MAX_TRIANGLE_COUNT env) (file_name file);
                         st2 = emitLog ERROR (err_message error)
                                 (logContext ''adapter'' ''validate_mesh'' None
                                    (Some (codeName (err_code error))) fileId) st1
                     in (buildErrorResult error metrics1 (getLogs (ad_logEmitter st2)), st2))
                  else
                    (let metrics2 = setTriangleCount (st_triangles stats)
                                      (setVertexCount (st_vertices stats) metrics1);
                         st2 = emitLog INFO (lit ''Load successful: '' @ file_name file)
                                 (logContext ''io'' ''load_complete'' None None fileId) st1
                     in (buildSuccessResult asset metrics2 (getLogs (ad_logEmitter st2)), st2))
              | None \<Rightarrow>
                  (let metrics2 = setTriangleCount 0 (setVertexCount 0 metrics1);
                       st2 = emitLog INFO (lit ''Load successful: '' @ file_name file)
                               (logContext ''io'' ''load_complete'' None None fileId) st1
                   in (buildSuccessResult asset metrics2 (getLogs (ad_logEmitter st2)), st2))))"

text \<open>\<open>MeshCoreAdapter.load\<close>.\<close>

definition load ::
  "AdapterEnv \<Rightarrow> File \<Rightarrow> MeshLoadOptions \<Rightarrow> AdapterState \<Rightarrow> MeshLoadResult \<times> AdapterState" where
  "load env file options st =
     (let fileId = env_fileId env;
          metrics = MetricsCollector_new fileId;
          st1 = emitLog DEBUG (lit ''Load started: '' @ file_name file)
                  (logContext ''io'' ''load_start'' None None fileId) st
      in if file_size file = 0 then
           (let error = createEmptyFileError (file_name file);
                st2 = emitLog ERROR (err_message error)
                        (logContext ''io'' ''load_validate'' None (Some (codeName (err_code error))) fileId)
                        st1
            in (buildErrorResult error metrics (getLogs (ad_logEmitter st2)), st2))
         else if file_size file > env_MAX_MESH_FILE_BYTES env then
           (let error = createFileTooLargeError (file_name file) (file_size file)
                          (env_MAX_MESH_FILE_BYTES env);
                st2 = emitLog ERROR (err_message error)
                        (logContext ''io'' ''load_validate'' None (Some (codeName (err_code error))) fileId)
                        st1
            in (buildErrorResult error metrics (getLogs (ad_logEmitter st2)), st2))
         else
           (let metrics1 = setBytesRead (file_size file) metrics;
                detection = detectMeshFormat (env_uc env) file;
                st2 = (if mismatch detection
                       then emitLog WARN
                              (lit ''Format mismatch: expected ''
                                 @ showFormat ''undefined'' (expectedFormat detection)
                                 @ lit '' but detected '' @ showFormat ''null'' (format detection))
                              (logContext ''adapter'' ''detect_format'' None None fileId) st1
                       else st1)
            in if \<not> isSupportedFormat (format detection) then
                 (let error = createUnsupportedFormatError (file_name file)
                                (map_option formatName (format detection));
                      st3 = emitLog ERROR (err_message error)
                              (logContext ''adapter'' ''detect_format'' None
                                 (Some (codeName (err_code error))) fileId) st2
                  in (buildErrorResult error metrics1 (getLogs (ad_logEmitter st3)), st3))
               else
                 (let st3 = emitLog DEBUG
                              (lit ''Format detected: '' @ showFormat ''null'' (format detection)
                                 @ lit '' (method: '' @ methodName (det_method detection) @ lit '')'')
                              (logContext ''adapter'' ''detect_format'' None None fileId) st2
                  in case parseFile env file options metrics1 fileId st3 of
                       (Inr (parseResult, metrics2), st4) \<Rightarrow>
                         finishLoad env file fileId parseResult metrics2 st4
                     | (Inl errorMessage, st4) \<Rightarrow>
                         (let error = createParseError (file_name file) (Some errorMessage);
                              st5 = emitLog ERROR (lit ''Load failed: '' @ errorMessage)
                                      (logContext ''adapter'' ''load_error'' None
                                         (Some (codeName (err_code error))) fileId) st4
                          in (buildErrorResult error metrics1 (getLogs (ad_logEmitter st5)), st5)))))"


definition reachesDecode :: "AdapterEnv \<Rightarrow> File \<Rightarrow> bool" where
  "reachesDecode env file =
     (file_size file \<noteq> 0 \<and> file_size file \<le> env_MAX_MESH_FILE_BYTES env
      \<and> isSupportedFormat (format (detectMeshFormat (env_uc env) file))
      \<and> file_readable file)"


text \<open>
  Worked examples: an OBJ file; \<open>stub_env\<close>, the environment of the source as it stands, in
  which both modes run \<open>stubOperation\<close> on that file (with the detected format and the file
  id) and so return \<open>empty_asset\<close>; and \<open>failing_env\<close>, in which the Exact operation throws,
  which the operation of the source never does: it exercises the \<open>catch\<close> branch of the
  Exact attempt in \<open>parseFile\<close>.
\<close>

definition obj_file :: File where
  "obj_file = \<lparr>file_name = lit ''tri.obj'', file_type = [],
     file_bytes = bytes_of ''v 0 0 0\<newline>v 1 0 0\<newline>v 0 1 0\<newline>f 1 2 3\<newline>'',
     file_readable = True\<rparr>"

definition failing_env :: AdapterEnv where
  "failing_env = \<lparr>env_uc = uc_id, env_MAX_MESH_FILE_BYTES = 629145600,
     env_MAX_TRIANGLE_COUNT = 30000000, env_fileId = lit ''file-1'',
     env_readError = lit ''read failed'',
     env_operation = (\<lambda>m. case m of fast \<Rightarrow> stubOperation obj_file obj (lit ''file-1'')
                                   | exact \<Rightarrow> Inl (lit ''exact decoder failed'')),
     env_schedule = (\<lambda>m. [])\<rparr>"

definition stub_env :: AdapterEnv where
  "stub_env = \<lparr>env_uc = uc_id, env_MAX_MESH_FILE_BYTES = 629145600,
     env_MAX_TRIANGLE_COUNT = 30000000, env_fileId = lit ''file-1'',
     env_readError = lit ''read failed'',
     env_operation = (\<lambda>m. stubOperation obj_file obj (lit ''file-1'')),
     env_schedule = (\<lambda>m. [])\<rparr>"

definition empty_asset :: MeshAsset where
  "empty_asset = \<lparr>asset_id = lit ''file-1'', asset_fileName = lit ''tri.obj'',
     asset_fileSizeBytes = 32, asset_format = obj,
     asset_buffers = \<lparr>vertexView = [], indexView = [], normalView = None, generation = 1,
                       releaseKind = ReleaseNothing, released = False\<rparr>,
     asset_stats = Some \<lparr>st_vertices = 0, st_triangles = 0, st_bbox_min = zero3,
                          st_bbox_max = zero3, st_diagonalLength = Dec (lit ''0'')\<rparr>\<rparr>"

text \<open>
  The environment of the source with a host that lets 31 s pass before the event loop
  runs the timers, and another half second before the operation settles.
\<close>

definition stalled_env :: AdapterEnv where
  "stalled_env = stub_env\<lparr>env_schedule := (\<lambda>m. [Tick 31000, RunTimers, Tick 500])\<rparr>"

definition default_options :: MeshLoadOptions where
  "default_options = \<lparr>computeNormals = None, enableFallback = None\<rparr>"

definition adapter0 :: AdapterState where
  "adapter0 = \<lparr>ad_logEmitter = LogEmitter_new, ad_clock = 0, ad_decodeCalls = []\<rparr>"

text \<open>Reading a load result.\<close>

definition resultError :: "MeshLoadResult \<Rightarrow> AdapterError option" where
  "resultError r = (case r of LoadSuccess a m l \<Rightarrow> None | LoadError e m l \<Rightarrow> Some e)"

definition resultAsset :: "MeshLoadResult \<Rightarrow> MeshAsset option" where
  "resultAsset r = (case r of LoadSuccess a m l \<Rightarrow> Some a | LoadError e m l \<Rightarrow> None)"

text \<open>Calling \<open>release\<close> \<open>n\<close> times in a row on the same \<open>MeshBuffers\<close> value.\<close>

fun release_n :: "nat \<Rightarrow> MeshBuffers \<Rightarrow> BridgeState \<Rightarrow> MeshBuffers \<times> BridgeState" where
  "release_n 0 b bs = (b, bs)"
| "release_n (Suc n) b bs = (case release b bs of (b', bs') \<Rightarrow> release_n n b' bs')"

text \<open>
  Names for the first steps of \<open>loadMeshAsset\<close>: the file name, the two guards, the
  format (hint or extension), the parse strategy, the condition under which the load
  gets to parsing, and the two log events emitted until then. \<open>loadedError\<close> and
  \<open>loadedAsset\<close> read a result.
\<close>

definition loaderFileName :: "MeshBlob \<Rightarrow> jsstring" where
  "loaderFileName file = (case blob_name file of None \<Rightarrow> lit ''unnamed.mesh'' | Some n \<Rightarrow> n)"

definition guardBytes :: "LoaderEnv \<Rightarrow> MeshLoaderOptions \<Rightarrow> nat" where
  "guardBytes env options =
     (case maxFileBytes options of None \<Rightarrow> le_MAX_MESH_FILE_BYTES env | Some g \<Rightarrow> g)"

definition guardTriangles :: "LoaderEnv \<Rightarrow> MeshLoaderOptions \<Rightarrow> int" where
  "guardTriangles env options =
     (case maxTriangleCount options of None \<Rightarrow> le_MAX_TRIANGLE_COUNT env | Some g \<Rightarrow> g)"

definition loaderFormat :: "LoaderEnv \<Rightarrow> MeshBlob \<Rightarrow> MeshLoaderOptions \<Rightarrow> MeshFormat option" where
  "loaderFormat env file options =
     (case formatHint options of None \<Rightarrow> inferFormat (le_uc env) (loaderFileName file)
      | Some h \<Rightarrow> Some h)"

definition loaderStrategy :: "LoaderEnv \<Rightarrow> MeshBlob \<Rightarrow> MeshLoaderOptions \<Rightarrow> ParseStrategy option" where
  "loaderStrategy env file options =
     map_option (\<lambda>fmt. determineParseStrategy (le_uc env) (blob_bytes file) fmt (loaderFileName file))
       (loaderFormat env file options)"

definition reachesParse :: "LoaderEnv \<Rightarrow> MeshBlob \<Rightarrow> MeshLoaderOptions \<Rightarrow> bool" where
  "reachesParse env file options =
     (0 < length (blob_bytes file) \<and> length (blob_bytes file) \<le> guardBytes env options
      \<and> loaderFormat env file options \<noteq> None \<and> blob_readError file = None)"

definition loadedError :: "jsstring + MeshLoadResult \<Rightarrow> AdapterError option" where
  "loadedError r = (case r of Inl thrown \<Rightarrow> None | Inr res \<Rightarrow> resultError res)"

definition loadedAsset :: "jsstring + MeshLoadResult \<Rightarrow> MeshAsset option" where
  "loadedAsset r = (case r of Inl thrown \<Rightarrow> None | Inr res \<Rightarrow> resultAsset res)"

definition loaderLogs1 :: "LoaderEnv \<Rightarrow> jsstring \<Rightarrow> ParseStrategy \<Rightarrow> LogEvent list" where
  "loaderLogs1 env fileName parseStrategy =
     [loaderLog env DEBUG (lit ''Starting mesh load: '' @ fileName) (Some (lit ''load_start'')) None,
      loaderLog env DEBUG
        (lit ''Parser strategy determined: ''
           @ (case ps_parser parseStrategy of js \<Rightarrow> lit ''js'' | wasm \<Rightarrow> lit ''wasm'')
           @ lit '' ('' @ formatName (ps_format parseStrategy) @ lit '')'')
        (Some (lit ''detect_format'')) None]"

text \<open>
  The asset that \<open>parseFile\<close> hands to \<open>load\<close>: the one of the Fast attempt when it is
  valid, else the one of the Exact attempt when fallback is enabled.
\<close>

definition decodedAsset :: "AdapterEnv \<Rightarrow> MeshLoadOptions \<Rightarrow> MeshAsset option" where
  "decodedAsset env options =
     (let fallbackAsset =
            (if enableFallback options \<noteq> Some False
             then (case env_operation env exact of Inl e \<Rightarrow> None | Inr asset \<Rightarrow> Some asset)
             else None)
      in case env_operation env fast of
           Inl e \<Rightarrow> fallbackAsset
         | Inr asset \<Rightarrow> if fst (validateParsedMesh asset) then Some asset else fallbackAsset)"

definition parsedAsset :: "ParseFileResult \<Rightarrow> MeshAsset option" where
  "parsedAsset pr = (if pf_success pr then pf_asset pr else None)"

text \<open>
  Worked examples for the triangle limit: a loader environment whose foreign decoder
  returns a quad (two triangles), a binary STL file and an OBJ file with one quad face,
  loader options that allow one triangle, the bridge before and after the foreign
  decode, and an adapter environment whose decode operation returns three triangles
  under a limit of two.
\<close>

definition quad_result :: EmbindParseResult where
  "quad_result = \<lparr>epr_success = True, epr_error = [], epr_vertexCount = 4, epr_faceCount = 2,
     epr_vertices = Some (replicate 12 (Dec (lit ''0''))), epr_indices = Some [0, 1, 2, 0, 2, 3],
     epr_normals = None\<rparr>"

definition loader_env :: LoaderEnv where
  "loader_env = \<lparr>le_uc = uc_id, le_MAX_MESH_FILE_BYTES = 629145600,
     le_MAX_TRIANGLE_COUNT = 30000000, le_fileId = lit ''file-1'', le_assetId = lit ''asset-1'',
     le_wasm = (\<lambda>data filename computeNormals'. Inr quad_result),
     le_legacyViews = (\<lambda>pointers. Inl (lit ''RangeError'')),
     le_maxTypedArrayLength = 4294967295,
     le_rangeError = (\<lambda>n. lit ''Invalid typed array length: ''
        @ (case n of Finite i \<Rightarrow> showInt i | PosInfinity \<Rightarrow> lit ''Infinity''
           | NegInfinity \<Rightarrow> lit ''-Infinity'' | NotANumber \<Rightarrow> lit ''NaN'')),
     le_arrayLengthError = lit ''Invalid array length'', le_loadDurationMs = 250\<rparr>"

definition binary_stl_blob :: MeshBlob where
  "binary_stl_blob = \<lparr>blob_name = Some (lit ''part.STL''),
     blob_bytes = bytes_of ''binary stl written by a mesh tool'' @ replicate 47 0x20
        @ [2, 0, 0, 0] @ replicate 100 0,
     blob_readError = None\<rparr>"

definition quad_obj_blob :: MeshBlob where
  "quad_obj_blob = \<lparr>blob_name = Some (lit ''quad.obj''),
     blob_bytes = bytes_of ''v 0 0 0\<newline>v 1 0 0\<newline>v 1 1 0\<newline>v 0 1 0\<newline>f 1 2 3 4\<newline>'',
     blob_readError = None\<rparr>"

definition tight_options :: MeshLoaderOptions where
  "tight_options = \<lparr>formatHint = None, statsCalculator = None, maxFileBytes = None,
     maxTriangleCount = Some 1\<rparr>"

definition bridge0 :: BridgeState where
  "bridge0 = \<lparr>generationCounter = 0, pendingBuffersMap = Map.empty, heap_mallocs = 0,
     heap_frees = 0, releaseCalls = []\<rparr>"

definition quad_pointers :: MeshBufferPointers where
  "quad_pointers = \<lparr>vertexPtr = 0, ptr_vertexCount = 12, indexPtr = 0, ptr_indexCount = 6,
     normalPtr = None, normalCount = None, ptr_generation = 1\<rparr>"

definition bridge1 :: BridgeState where
  "bridge1 = \<lparr>generationCounter = 1,
     pendingBuffersMap = [1 \<mapsto> \<lparr>pb_generation = 1, pb_vertices = replicate 12 (Dec (lit ''0'')),
        pb_indices = [0, 1, 2, 0, 2, 3], pb_normals = None\<rparr>],
     heap_mallocs = 1, heap_frees = 1, releaseCalls = []\<rparr>"

definition heavy_asset :: MeshAsset where
  "heavy_asset = \<lparr>asset_id = lit ''file-1'', asset_fileName = lit ''tri.obj'',
     asset_fileSizeBytes = 32, asset_format = obj,
     asset_buffers = \<lparr>vertexView = replicate 27 (Dec (lit ''0'')),
        indexView = [0, 1, 2, 3, 4, 5, 6, 7, 8], normalView = None, generation = 1,
        releaseKind = ReleaseNothing, released = False\<rparr>,
     asset_stats = Some \<lparr>st_vertices = 9, st_triangles = 3, st_bbox_min = zero3,
        st_bbox_max = zero3, st_diagonalLength = Dec (lit ''0'')\<rparr>\<rparr>"

definition heavy_env :: AdapterEnv where
  "heavy_env = failing_env\<lparr>env_MAX_TRIANGLE_COUNT := 2, env_operation := (\<lambda>m. Inr heavy_asset)\<rparr>"

text \<open>
  The two kinds of line that \<open>parseAsciiStl\<close> acts on, the three numbers it pushes for a
  \<open>vertex\<close> line, and the lines of a file.
\<close>

definition isVertexLine :: "jsstring \<Rightarrow> bool" where
  "isVertexLine line = startsWith (trim line) (lit ''vertex '')"

definition isEndfacetLine :: "jsstring \<Rightarrow> bool" where
  "isEndfacetLine line = (trim line = lit ''endfacet'')"

definition stlVertex :: "jsstring \<Rightarrow> f64 list" where
  "stlVertex line =
     (let parts = split_ws (trim line)
      in [parseFloat (nth_opt parts 1), parseFloat (nth_opt parts 2), parseFloat (nth_opt parts 3)])"

definition stlLines :: "byte list \<Rightarrow> jsstring list" where
  "stlLines data = split_char 10 (decode_utf8 data)"

definition vertexLineCount :: "byte list \<Rightarrow> nat" where
  "vertexLineCount data = length (filter isVertexLine (stlLines data))"

definition endfacetLineCount :: "byte list \<Rightarrow> nat" where
  "endfacetLineCount data = length (filter isEndfacetLine (stlLines data))"

text \<open>
  A unit cube as an ASCII STL file: twelve facets, each with its own three \<open>vertex\<close>
  lines, and loader options that keep every default.
\<close>

definition stl_facet :: "string \<Rightarrow> string \<Rightarrow> string \<Rightarrow> string \<Rightarrow> string list" where
  "stl_facet n a b c =
     [''facet normal '' @ n, '' outer loop'', ''  vertex '' @ a, ''  vertex '' @ b,
      ''  vertex '' @ c, '' endloop'', ''endfacet'']"

definition cube_stl_lines :: "string list" where
  "cube_stl_lines =
     [''solid cube'']
      @ stl_facet ''0 0 -1'' ''0 0 0'' ''1 1 0'' ''1 0 0''
      @ stl_facet ''0 0 -1'' ''0 0 0'' ''0 1 0'' ''1 1 0''
      @ stl_facet ''0 0 1'' ''0 0 1'' ''1 0 1'' ''1 1 1''
      @ stl_facet ''0 0 1'' ''0 0 1'' ''1 1 1'' ''0 1 1''
      @ stl_facet ''0 -1 0'' ''0 0 0'' ''1 0 0'' ''1 0 1''
      @ stl_facet ''0 -1 0'' ''0 0 0'' ''1 0 1'' ''0 0 1''
      @ stl_facet ''0 1 0'' ''0 1 0'' ''1 1 1'' ''1 1 0''
      @ stl_facet ''0 1 0'' ''0 1 0'' ''0 1 1'' ''1 1 1''
      @ stl_facet ''-1 0 0'' ''0 0 0'' ''0 0 1'' ''0 1 1''
      @ stl_facet ''-1 0 0'' ''0 0 0'' ''0 1 1'' ''0 1 0''
      @ stl_facet ''1 0 0'' ''1 0 0'' ''1 1 0'' ''1 1 1''
      @ stl_facet ''1 0 0'' ''1 0 0'' ''1 1 1'' ''1 0 1''
      @ [''endsolid cube'']"

definition cube_stl_text :: string where
  "cube_stl_text = concat (map (\<lambda>l. l @ ''\<newline>'') cube_stl_lines)"

definition cube_stl_blob :: MeshBlob where
  "cube_stl_blob = \<lparr>blob_name = Some (lit ''Cube.STL''), blob_bytes = bytes_of cube_stl_text,
     blob_readError = None\<rparr>"

definition default_loader_options :: MeshLoaderOptions where
  "default_loader_options = \<lparr>formatHint = None, statsCalculator = None, maxFileBytes = None,
     maxTriangleCount = None\<rparr>"


text \<open>
  Two PLY files for the worked examples. In the second one a comment line of 252 bytes
  stands between the magic line and the format line, so the directive lies beyond the
  first 256 bytes.
\<close>

definition ply_le_file :: File where
  "ply_le_file =
     \<lparr>file_name = lit ''scan.txt'', file_type = [],
      file_bytes = bytes_of ''ply\<newline>'' @ bytes_of ''format binary_little_endian''
          @ bytes_of '' 1.0\<newline>element vertex 0\<newline>end_header\<newline>'',
      file_readable = True\<rparr>"

definition ply_le_long_comment_file :: File where
  "ply_le_long_comment_file =
     \<lparr>file_name = lit ''scan.ply'', file_type = [],
      file_bytes = bytes_of ''ply\<newline>comment '' @ replicate 244 0x78
          @ (bytes_of ''\<newline>'' @ bytes_of ''format binary_little_endian''
             @ bytes_of '' 1.0\<newline>element vertex 0\<newline>end_header\<newline>''),
      file_readable = True\<rparr>"

text \<open>Reachable states of the UTF-8 decoder expect a continuation byte of at least 0x80.\<close>

definition utf8_ok :: "utf8_state \<Rightarrow> bool" where
  "utf8_ok st = (case st of (cp, needed, lo, hi) \<Rightarrow> 128 \<le> lo)"

section \<open>Theorems\<close>

subsection \<open>Strings and decoding\<close>

lemma startsWith_prefix: "startsWith s p = prefix p s"
  unfolding startsWith_def prefix_def
  by (metis append_eq_conv_conj append_take_drop_id)

lemma includes_js_sublist: "includes_js s p = sublist p s"
  by (induction s) (auto simp: startsWith_prefix sublist_Cons_right)

lemma utf8_ok_init: "utf8_ok utf8_init"
  by (simp add: utf8_ok_def utf8_init_def)

lemma utf8_lead_ok: "utf8_ok (snd (utf8_lead b))"
  by (simp add: utf8_lead_def utf8_ok_def utf8_init_def)

lemma utf8_step_ok: "utf8_ok (snd (utf8_step st b))"
  using utf8_lead_ok [of b]
  by (cases st) (auto simp: utf8_step_def utf8_ok_def utf8_init_def Let_def split: prod.splits)

lemma utf8_step_ascii:
  assumes "utf8_ok st" "c < 128"
  shows "\<exists>pre. utf8_step st c = (pre @ [c], utf8_init)"
proof (cases st)
  case (fields cp needed lo hi)
  with assms have lo: "128 \<le> lo" by (simp add: utf8_ok_def)
  have lead: "utf8_lead c = ([c], utf8_init)" using assms(2) by (simp add: utf8_lead_def)
  show ?thesis
  proof (cases "needed = 0")
    case True
    then have "utf8_step st c = ([] @ [c], utf8_init)" by (simp add: fields utf8_step_def lead)
    then show ?thesis by blast
  next
    case False
    then have "utf8_step st c = ([65533] @ [c], utf8_init)"
      using lo assms(2) by (simp add: fields utf8_step_def lead)
    then show ?thesis by blast
  qed
qed

lemma utf8_run_ascii:
  "\<forall>c \<in> set p. c < 128 \<Longrightarrow> utf8_run utf8_init (p @ b) = p @ utf8_run utf8_init b"
proof (induction p)
  case Nil
  then show ?case by simp
next
  case (Cons c p)
  then have "utf8_step utf8_init c = ([c], utf8_init)"
    by (simp add: utf8_step_def utf8_init_def utf8_lead_def)
  with Cons show ?case by simp
qed

lemma utf8_run_sublist:
  assumes "\<forall>c \<in> set p. c < 128" "utf8_ok st"
  shows "sublist p (utf8_run st (a @ p @ b))"
  using assms(2)
proof (induction a arbitrary: st)
  case Nil
  show ?case
  proof (cases p)
    case Nil
    then show ?thesis by simp
  next
    case (Cons c p')
    with assms(1) have c: "c < 128" and p': "\<forall>c \<in> set p'. c < 128" by auto
    from utf8_step_ascii [OF Nil.prems c] obtain pre where
      "utf8_step st c = (pre @ [c], utf8_init)" by blast
    then have "utf8_run st (p @ b) = pre @ p @ utf8_run utf8_init b"
      using utf8_run_ascii [OF p', of b] by (simp add: Cons)
    then show ?thesis by (auto simp: sublist_def)
  qed
next
  case (Cons x a)
  obtain out st' where s: "utf8_step st x = (out, st')" by (cases "utf8_step st x")
  then have "utf8_ok st'" using utf8_step_ok [of st x] by simp
  from Cons.IH [OF this] have "sublist p (utf8_run st' (a @ p @ b))" .
  then show ?case using s by (simp add: sublist_append)
qed

lemma concat_utf16_ascii: "\<forall>c \<in> set p. c < 128 \<Longrightarrow> concat (map utf16_units p) = p"
  by (induction p) (auto simp: utf16_units_def)

lemma sublist_concat_utf16:
  assumes "\<forall>c \<in> set p. c < 128" "sublist p cps"
  shows "sublist p (concat (map utf16_units cps))"
proof -
  from assms(2) obtain X Y where "cps = X @ p @ Y" by (auto simp: sublist_def)
  then have "concat (map utf16_units cps)
      = concat (map utf16_units X) @ p @ concat (map utf16_units Y)"
    using concat_utf16_ascii [OF assms(1)] by simp
  then show ?thesis by (auto simp: sublist_def)
qed

lemma decode_utf8_sublist:
  assumes "\<forall>c \<in> set p. c < 128" "p \<noteq> []" "sublist p (map unat bs)"
  shows "sublist p (decode_utf8 bs)"
proof -
  from assms(3) obtain a b where ab: "map unat bs = a @ p @ b" by (auto simp: sublist_def)
  have run: "sublist p (utf8_run utf8_init (map unat bs))"
    unfolding ab by (rule utf8_run_sublist [OF assms(1) utf8_ok_init])
  define cps where "cps = utf8_run utf8_init (map unat bs)"
  define cps' where "cps' = (case cps of [] \<Rightarrow> [] | c # rest \<Rightarrow> if c = 65279 then rest else cps)"
  have "sublist p cps'"
  proof (cases cps)
    case Nil
    with run show ?thesis by (simp add: cps'_def cps_def)
  next
    case (Cons c rest)
    show ?thesis
    proof (cases "c = 65279")
      case False
      with Cons run show ?thesis by (simp add: cps'_def cps_def)
    next
      case True
      from run have "sublist p (c # rest)" by (simp add: cps_def [symmetric] Cons)
      then have "prefix p (c # rest) \<or> sublist p rest" by (simp add: sublist_Cons_right)
      moreover have "\<not> prefix p (c # rest)"
      proof
        assume "prefix p (c # rest)"
        with assms(2) have "hd p = c" by (cases p) auto
        moreover have "hd p < 128" using assms(1,2) by (cases p) auto
        ultimately show False using True by simp
      qed
      ultimately show ?thesis using True Cons by (simp add: cps'_def)
    qed
  qed
  then show ?thesis
    unfolding decode_utf8_def Let_def cps_def [symmetric] cps'_def [symmetric]
    by (rule sublist_concat_utf16 [OF assms(1)])
qed

lemma upt_split3:
  "[0..<a + b + c] = [0..<a] @ [a..<a + b] @ [a + b..<a + b + (c::nat)]"
proof -
  have "[0..<a + b + c] = [0..<a + b] @ [a + b..<a + b + c]"
    by (rule upt_add_eq_append) simp
  moreover have "[0..<a + b] = [0..<a] @ [a..<a + b]"
    by (rule upt_add_eq_append) simp
  ultimately show ?thesis by simp
qed

lemma lower_mid:
  assumes "\<forall>c \<in> set p. c < 128"
  shows "map (lowerUnit uc (X @ p @ Y)) [length X..<length X + length p]
            = map (\<lambda>c. [asciiLower c]) p"
proof (rule nth_equalityI)
  show "length (map (lowerUnit uc (X @ p @ Y)) [length X..<length X + length p])
          = length (map (\<lambda>c. [asciiLower c]) p)" by simp
next
  fix i assume "i < length (map (lowerUnit uc (X @ p @ Y)) [length X..<length X + length p])"
  then have i: "i < length p" by simp
  then have "(X @ p @ Y) ! (length X + i) = p ! i" by (simp add: nth_append)
  moreover have "p ! i < 128" using assms i by simp
  ultimately show "map (lowerUnit uc (X @ p @ Y)) [length X..<length X + length p] ! i
          = map (\<lambda>c. [asciiLower c]) p ! i"
    using i by (simp add: lowerUnit_def asciiLower_def Let_def)
qed

lemma concat_singletons: "concat (map (\<lambda>c. [f c]) p) = map f p"
  by (induction p) auto

lemma toLowerCase_sublist:
  assumes "\<forall>c \<in> set p. c < 128" "sublist p s"
  shows "sublist (map asciiLower p) (toLowerCase uc s)"
proof -
  from assms(2) obtain X Y where s: "s = X @ p @ Y" by (auto simp: sublist_def)
  have len: "length s = length X + length p + length Y" by (simp add: s)
  have "toLowerCase uc s
     = concat (map (lowerUnit uc s) [0..<length X])
       @ concat (map (lowerUnit uc s) [length X..<length X + length p])
       @ concat (map (lowerUnit uc s) [length X + length p..<length X + length p + length Y])"
    unfolding toLowerCase_def len upt_split3 by simp
  also have "concat (map (lowerUnit uc s) [length X..<length X + length p]) = map asciiLower p"
    unfolding s lower_mid [OF assms(1)] by (rule concat_singletons)
  finally show ?thesis unfolding sublist_def by blast
qed

lemma decode_utf8_ascii:
  assumes "\<forall>b \<in> set bs. unat b < 128"
  shows "decode_utf8 bs = map unat bs"
proof -
  have a: "\<forall>c \<in> set (map unat bs). c < 128" using assms by simp
  have run: "utf8_run utf8_init (map unat bs) = map unat bs"
    using utf8_run_ascii [OF a, of "[]"] by (simp add: utf8_init_def)
  have bom: "(case map unat bs of [] \<Rightarrow> [] | c # rest \<Rightarrow> if c = 65279 then rest else map unat bs)
      = map unat bs"
    using a by (cases bs) auto
  show ?thesis
    unfolding decode_utf8_def Let_def run bom by (rule concat_utf16_ascii [OF a])
qed

lemma toLowerCase_ascii:
  assumes "\<forall>c \<in> set s. c < 128"
  shows "toLowerCase uc s = map asciiLower s"
proof -
  have "map (lowerUnit uc ([] @ s @ [])) [length ([]::nat list)..<length ([]::nat list) + length s]
      = map (\<lambda>c. [asciiLower c]) s"
    by (rule lower_mid [OF assms])
  then show ?thesis by (simp add: toLowerCase_def concat_singletons)
qed

lemma sublist_hd_in_set: "sublist p s \<Longrightarrow> p \<noteq> [] \<Longrightarrow> hd p \<in> set s"
  by (cases p) (auto simp: sublist_def)


subsection \<open>Plane construction\<close>

text \<open>
  C9. Axis-plane construction for axis = y, position 50 (percent), not flipped, against the
  bounding box min = (-5,-5,-5), max = (5,5,5) yields the normal (0,1,0) and signed
  distance 0. \<open>computeClippingPlane\<close> takes the position in percent, whatever the other
  fields of the clipping state are; \<open>computeSlicePlane\<close> takes the same position as the
  fraction 50 / 100.
\<close>

theorem C9_axis_plane_example:
  "computeClippingPlane (c\<lparr>axis := AxisY, position := 50, flipped := False\<rparr>) cube10
     = \<lparr>pl_normal = \<lparr>vx = 0, vy = 1, vz = 0\<rparr>, pl_constant = 0\<rparr>
   \<and> computeSlicePlane AxisY (50 / 100) False cube10
     = \<lparr>sp_normal = \<lparr>vx = 0, vy = 1, vz = 0\<rparr>, sp_distance = 0\<rparr>"
  by (simp add: computeClippingPlane_def computeSlicePlane_def createAxisPlane_def
      getAxisValue_def cube10_def Let_def)

text \<open>
  C10. For every clipping state and bounding box, the plane computed with flipped = true
  has its normal and its constant equal to the negations of those computed with
  flipped = false, and the two planes contain the same points.
\<close>

theorem C10_flip_negates_plane:
  "pl_normal (computeClippingPlane (c\<lparr>flipped := True\<rparr>) b)
     = negate (pl_normal (computeClippingPlane (c\<lparr>flipped := False\<rparr>) b))
   \<and> pl_constant (computeClippingPlane (c\<lparr>flipped := True\<rparr>) b)
     = - pl_constant (computeClippingPlane (c\<lparr>flipped := False\<rparr>) b)
   \<and> {p. distanceToPoint (computeClippingPlane (c\<lparr>flipped := True\<rparr>) b) p = 0}
     = {p. distanceToPoint (computeClippingPlane (c\<lparr>flipped := False\<rparr>) b) p = 0}"
  by (auto simp: computeClippingPlane_def Let_def negate_def distanceToPoint_def dot_def)

subsection \<open>Format detection\<close>

lemma set_bytes_ascii: "\<forall>c \<in> set (lit ''format binary_little_endian''). c < 128"
  by (simp add: lit_def)

lemma lower_lit_le:
  "map asciiLower (lit ''format binary_little_endian'') = lit ''format binary_little_endian''"
  by (simp add: lit_def asciiLower_def)

lemma unat_bytes_of_le:
  "map unat (bytes_of ''format binary_little_endian'') = lit ''format binary_little_endian''"
  by (simp add: bytes_of_def lit_def)

lemma sublist_map_unat:
  "sublist p bs \<Longrightarrow> sublist (map unat p) (map unat (bs :: byte list))"
proof -
  assume "sublist p bs"
  then obtain ps ss where "bs = ps @ p @ ss" by (auto simp: sublist_def)
  then have "map unat bs = map unat ps @ map unat p @ map unat ss" by simp
  then show ?thesis unfolding sublist_def by blast
qed

lemma detectPlySubformat_le:
  assumes "sublist (bytes_of ''format binary_little_endian'') header"
  shows "detectPlySubformat uc header = ply_binary_le"
proof -
  have "sublist (lit ''format binary_little_endian'') (map unat header)"
    using sublist_map_unat [OF assms] by (simp add: unat_bytes_of_le)
  then have "sublist (lit ''format binary_little_endian'') (decode_utf8 header)"
    by (intro decode_utf8_sublist set_bytes_ascii) (simp_all add: lit_def)
  then have "sublist (map asciiLower (lit ''format binary_little_endian''))
               (toLowerCase uc (decode_utf8 header))"
    by (rule toLowerCase_sublist [OF set_bytes_ascii])
  then show ?thesis
    by (simp add: detectPlySubformat_def Let_def includes_js_sublist lower_lit_le)
qed

text \<open>
  C3 (as amended). For every file whose content can be read, starts with \<open>ply\<close> and a
  line feed or carriage return, and holds the directive \<open>format binary_little_endian\<close>
  within its first 256 bytes, format detection returns \<open>ply_binary_le\<close> with method
  \<open>magic\<close>, whatever the file's name and MIME type and whatever follows the header.
\<close>

theorem C3_binary_le_ply_detected_by_magic:
  assumes readable: "file_readable file"
    and ply: "prefix (bytes_of ''ply'') (file_bytes file)"
    and nl: "file_bytes file ! 3 = 0x0A \<or> file_bytes file ! 3 = 0x0D"
    and directive: "sublist (bytes_of ''format binary_little_endian'') (take 256 (file_bytes file))"
  shows "format (detectMeshFormat uc file) = Some ply_binary_le
       \<and> det_method (detectMeshFormat uc file) = magic"
proof -
  define header where "header = take (min 256 (file_size file)) (file_bytes file)"
  have header: "header = take 256 (file_bytes file)"
    by (simp add: header_def file_size_def min_def)
  from directive have "length (bytes_of ''format binary_little_endian'') \<le> length header"
    unfolding header by (rule sublist_length_le)
  then have len: "27 \<le> length header" by (simp add: bytes_of_def)
  then have len': "27 \<le> length (file_bytes file)" by (simp add: header)
  from ply obtain rest where rest: "file_bytes file = bytes_of ''ply'' @ rest"
    by (auto simp: prefix_def)
  have h012: "header ! 0 = 0x70" "header ! 1 = 0x6C" "header ! 2 = 0x79"
    unfolding header using len' by (simp_all add: rest bytes_of_def)
  have h3: "header ! 3 = 0x0A \<or> header ! 3 = 0x0D"
    unfolding header using nl by simp
  have "detectByMagicBytes uc header = Some (detectPlySubformat uc header)"
    using len h012 h3 by (auto simp: detectByMagicBytes_def)
  also have "detectPlySubformat uc header = ply_binary_le"
    using directive unfolding header by (rule detectPlySubformat_le)
  finally have m: "detectByMagicBytes uc (take (min 256 (file_size file)) (file_bytes file))
      = Some ply_binary_le" by (simp add: header_def)
  show ?thesis
    using readable by (simp add: detectMeshFormat_def Let_def m split: option.splits)
qed

text \<open>The theorem applied to a small binary little-endian PLY file named \<open>scan.txt\<close>.\<close>

theorem C3_witness:
  "file_readable ply_le_file
   \<and> prefix (bytes_of ''ply'') (file_bytes ply_le_file)
   \<and> file_bytes ply_le_file ! 3 = 0x0A
   \<and> sublist (bytes_of ''format binary_little_endian'') (take 256 (file_bytes ply_le_file))
   \<and> format (detectMeshFormat uc_id ply_le_file) = Some ply_binary_le
   \<and> det_method (detectMeshFormat uc_id ply_le_file) = magic"
proof -
  have r: "file_readable ply_le_file" by (simp add: ply_le_file_def)
  have p: "prefix (bytes_of ''ply'') (file_bytes ply_le_file)"
    by (simp add: ply_le_file_def bytes_of_def)
  have n: "file_bytes ply_le_file ! 3 = 0x0A"
    by (simp add: ply_le_file_def bytes_of_def)
  have len: "length (file_bytes ply_le_file) \<le> 256"
    by (simp add: ply_le_file_def bytes_of_def)
  have d: "sublist (bytes_of ''format binary_little_endian'') (take 256 (file_bytes ply_le_file))"
    using len unfolding sublist_def by (auto simp: ply_le_file_def)
  show ?thesis
    using C3_binary_le_ply_detected_by_magic [OF r p disjI1 [OF n] d, of uc_id] r p n d by simp
qed


text \<open>
  The claim without the 256-byte window fails: a readable file that starts with the PLY
  magic line and holds the directive after a long comment line is detected as
  \<open>ply_ascii\<close>.
\<close>

theorem C3_counterexample:
  "file_readable ply_le_long_comment_file
   \<and> prefix (bytes_of ''ply'') (file_bytes ply_le_long_comment_file)
   \<and> file_bytes ply_le_long_comment_file ! 3 = 0x0A
   \<and> sublist (bytes_of ''format binary_little_endian'') (file_bytes ply_le_long_comment_file)
   \<and> format (detectMeshFormat uc_id ply_le_long_comment_file) = Some ply_ascii
   \<and> det_method (detectMeshFormat uc_id ply_le_long_comment_file) = magic"
proof -
  define f where "f = ply_le_long_comment_file"
  have r: "file_readable f" by (simp add: f_def ply_le_long_comment_file_def)
  have p: "prefix (bytes_of ''ply'') (file_bytes f)"
    by (simp add: f_def ply_le_long_comment_file_def bytes_of_def)
  have n: "file_bytes f ! 3 = 0x0A"
    by (simp add: f_def ply_le_long_comment_file_def bytes_of_def)
  have d: "sublist (bytes_of ''format binary_little_endian'') (file_bytes f)"
    unfolding sublist_def f_def ply_le_long_comment_file_def
    by (simp only: File.simps append_assoc [symmetric]) blast
  define header where "header = bytes_of ''ply\<newline>comment '' @ replicate 244 (0x78 :: byte)"
  have hd: "take (min 256 (file_size f)) (file_bytes f) = header"
    by (simp add: f_def ply_le_long_comment_file_def file_size_def header_def bytes_of_def)
  have asc: "\<forall>b \<in> set header. unat b < 128"
    by (simp add: header_def bytes_of_def)
  have set_low: "set (toLowerCase uc_id (decode_utf8 header))
      = set (lit ''ply\<newline>coment x'')"
    unfolding decode_utf8_ascii [OF asc]
    by (subst toLowerCase_ascii) (auto simp: header_def bytes_of_def lit_def asciiLower_def)
  have no_le: "\<not> sublist (lit ''format binary_little_endian'') (toLowerCase uc_id (decode_utf8 header))"
    using sublist_hd_in_set [of "lit ''format binary_little_endian''" "toLowerCase uc_id (decode_utf8 header)"]
    unfolding set_low by (auto simp: lit_def)
  have no_be: "\<not> sublist (lit ''format binary_big_endian'') (toLowerCase uc_id (decode_utf8 header))"
    using sublist_hd_in_set [of "lit ''format binary_big_endian''" "toLowerCase uc_id (decode_utf8 header)"]
    unfolding set_low by (auto simp: lit_def)
  have sub: "detectPlySubformat uc_id header = ply_ascii"
    by (simp add: detectPlySubformat_def Let_def includes_js_sublist no_le no_be)
  have m: "detectByMagicBytes uc_id header = Some ply_ascii"
    unfolding detectByMagicBytes_def sub by (simp add: header_def bytes_of_def)
  have ext: "detectByExtension uc_id (file_name f) = Some ply_ascii"
    by (simp add: f_def ply_le_long_comment_file_def detectByExtension_def lit_def
        toLowerCase_def lowerUnit_def asciiLower_def upt_rec [of _ "numeral _"] upt_rec [of _ "Suc _"])
  have res: "format (detectMeshFormat uc_id f) = Some ply_ascii
      \<and> det_method (detectMeshFormat uc_id f) = magic"
    using r by (simp add: detectMeshFormat_def Let_def hd m ext split: option.splits)
  show ?thesis using r p n d res unfolding f_def by simp
qed

subsection \<open>Observability channel\<close>

lemma emit_logs:
  assumes "length (logs em) \<le> maxBufferSize em"
  shows "logs (emit e em) = drop (length (logs em @ [e]) - maxBufferSize em) (logs em @ [e])"
proof (cases "length (logs em) = maxBufferSize em")
  case True
  then have k: "length (logs em @ [e]) - maxBufferSize em = Suc 0" by simp
  have "logs (emit e em) = tl (logs em @ [e])" using True by (simp add: emit_def Let_def)
  also have "\<dots> = drop (Suc 0) (logs em @ [e])" by (simp only: drop_Suc drop_0)
  finally show ?thesis by (simp only: k)
next
  case False
  with assms show ?thesis by (simp add: emit_def Let_def)
qed

lemma emit_maxBufferSize: "maxBufferSize (emit e em) = maxBufferSize em"
  by (simp add: emit_def Let_def)

lemma emit_all_logs:
  "length (logs em) \<le> maxBufferSize em \<Longrightarrow>
   logs (emit_all es em) = drop (length (logs em @ es) - maxBufferSize em) (logs em @ es)
   \<and> maxBufferSize (emit_all es em) = maxBufferSize em"
proof (induction es arbitrary: em)
  case Nil
  then show ?case by (simp add: emit_all_def)
next
  case (Cons e es)
  define n where "n = maxBufferSize em"
  define L where "L = logs em @ [e]"
  define k where "k = length L - n"
  define em' where "em' = emit e em"
  have kL: "k \<le> length L" by (simp add: k_def)
  have Ln: "length L \<le> Suc n" using Cons.prems by (simp add: L_def n_def)
  have l1: "logs em' = drop k L"
    unfolding em'_def k_def L_def n_def using Cons.prems by (rule emit_logs)
  have n': "maxBufferSize em' = n" by (simp add: em'_def n_def emit_maxBufferSize)
  have len: "length (logs em') \<le> maxBufferSize em'"
    unfolding l1 n' using Ln by (simp add: k_def)
  from Cons.IH [OF len]
  have ih: "logs (emit_all es em') = drop (length (logs em' @ es) - n) (logs em' @ es)"
    and m: "maxBufferSize (emit_all es em') = n"
    by (simp_all only: n')
  have app: "logs em' @ es = drop k (L @ es)"
    unfolding l1 using kL by simp
  have "logs (emit_all es em') = drop (length (drop k (L @ es)) - n) (drop k (L @ es))"
    using ih by (simp only: app)
  also have "\<dots> = drop (length (drop k (L @ es)) - n + k) (L @ es)"
    by (simp only: drop_drop)
  also have "length (drop k (L @ es)) - n + k = length (L @ es) - n"
    using kL Ln by (simp add: k_def)
  finally have "logs (emit_all es em') = drop (length (L @ es) - n) (L @ es)" .
  moreover have "L @ es = logs em @ e # es" by (simp add: L_def)
  moreover have "emit_all (e # es) em = emit_all es em'" by (simp add: emit_all_def em'_def)
  ultimately show ?case using m by (simp only: n_def) 
qed

text \<open>
  C8. Whatever the subscribers and the delivery history of an emitter \<open>em\<close> are, after
  emitting the events \<open>es\<close> into its empty buffer of capacity 1000 (the state of a new
  \<open>LogEmitter\<close>), the buffer returned by \<open>getLogs\<close> holds at most 1000 events and is
  exactly the last \<open>min 1000 (length es)\<close> events of \<open>es\<close>, in emission order.
\<close>

theorem C8_ring_buffer:
  "getLogs (emit_all es (em\<lparr>logs := [], maxBufferSize := 1000\<rparr>)) = drop (length es - 1000) es
   \<and> length (getLogs (emit_all es (em\<lparr>logs := [], maxBufferSize := 1000\<rparr>))) \<le> 1000"
proof -
  have "length (logs (em\<lparr>logs := [], maxBufferSize := 1000\<rparr>))
      \<le> maxBufferSize (em\<lparr>logs := [], maxBufferSize := 1000\<rparr>)"
    by simp
  from emit_all_logs [OF this, of es] show ?thesis
    by (simp add: getLogs_def)
qed

subsection \<open>Fallback in the adapter's load\<close>

lemma emitLog_calls [simp]: "ad_decodeCalls (emitLog l m c st) = ad_decodeCalls st"
  by (simp add: emitLog_def)

lemma emitLog_clock [simp]: "ad_clock (emitLog l m c st) = ad_clock st"
  by (simp add: emitLog_def)

lemma withSharedBufferTimeout_value:
  "map_sum id tr_value (fst (withSharedBufferTimeout opts outcome schedule c u)) = outcome"
  by (cases outcome) (simp_all add: withSharedBufferTimeout_def Let_def)

lemma parseWithMode_result:
  "fst (parseWithMode env m ident st) = env_operation env m"
proof -
  define opts where "opts = adapterWatchdog ident"
  obtain res w where rw: "withSharedBufferTimeout opts
      (env_operation env m) (env_schedule env m) (ad_clock st) (ad_logEmitter st) = (res, w)"
    by (cases "withSharedBufferTimeout opts
      (env_operation env m) (env_schedule env m) (ad_clock st) (ad_logEmitter st)")
  from withSharedBufferTimeout_value [of opts "env_operation env m" "env_schedule env m" "ad_clock st" "ad_logEmitter st"]
  have v: "map_sum id tr_value res = env_operation env m" by (simp add: rw)
  show ?thesis
    using v by (cases res) (auto simp: parseWithMode_def Let_def rw opts_def [symmetric])
qed

lemma parseWithMode_calls:
  "ad_decodeCalls (snd (parseWithMode env m ident st)) = ad_decodeCalls st @ [m]"
  by (simp add: parseWithMode_def Let_def split: prod.splits sum.splits)










lemma obj_file_detect: "detectMeshFormat uc_id obj_file
    = \<lparr>format = Some obj, det_method = magic, mismatch = False, expectedFormat = None\<rparr>"
proof -
  have m: "detectByMagicBytes uc_id (take (min 256 (file_size obj_file)) (file_bytes obj_file)) = Some obj"
    by (simp add: detectByMagicBytes_def obj_file_def file_size_def bytes_of_def lit_def)
  have e: "detectByExtension uc_id (file_name obj_file) = Some obj"
    by (simp add: detectByExtension_def obj_file_def lit_def toLowerCase_def lowerUnit_def
        asciiLower_def upt_rec [of _ "numeral _"] upt_rec [of _ "Suc _"])
  show ?thesis
    by (simp add: detectMeshFormat_def Let_def m e isSameFormatFamily_def)
       (simp add: obj_file_def)
qed

lemma failing_env_reaches: "reachesDecode failing_env obj_file"
  by (simp add: reachesDecode_def failing_env_def obj_file_detect isSupportedFormat_def)
     (simp add: obj_file_def file_size_def bytes_of_def)



lemma stub_asset: "stubOperation obj_file obj (lit ''file-1'') = Inr empty_asset"
  by (simp add: stubOperation_def empty_asset_def obj_file_def file_size_def bytes_of_def)

lemma stub_env_operation: "env_operation stub_env m = Inr empty_asset"
  by (simp add: stub_env_def stub_asset)







subsection \<open>Lock watchdog\<close>

lemma fold_host_step_idle:
  "tw_pending w = None \<Longrightarrow>
   fold (host_step opts) es w = w\<lparr>tw_clock := tw_clock w + ticks es\<rparr>"
proof (induction es arbitrary: w)
  case Nil
  then show ?case by simp
next
  case (Cons ev es)
  show ?case
  proof (cases ev)
    case (Tick n)
    have "tw_pending (w\<lparr>tw_clock := tw_clock w + n\<rparr>) = None" using Cons.prems by simp
    from Cons.IH [OF this] show ?thesis by (simp add: Tick host_step_def add.assoc)
  next
    case RunTimers
    from Cons.IH [OF Cons.prems] show ?thesis using Cons.prems by (simp add: RunTimers host_step_def)
  qed
qed

lemma fold_host_step_armed:
  "tw_pending w = Some due \<Longrightarrow>
   fold (host_step opts) es w =
     (case firedAt due (tw_clock w) es of
        None \<Rightarrow> w\<lparr>tw_clock := tw_clock w + ticks es\<rparr>
      | Some t \<Rightarrow> (timer_callback opts (w\<lparr>tw_clock := t, tw_pending := None\<rparr>))
                    \<lparr>tw_clock := tw_clock w + ticks es\<rparr>)"
proof (induction es arbitrary: w)
  case Nil
  then show ?case by simp
next
  case (Cons ev es)
  show ?case
  proof (cases ev)
    case (Tick n)
    have p: "tw_pending (w\<lparr>tw_clock := tw_clock w + n\<rparr>) = Some due" using Cons.prems by simp
    have hs: "host_step opts (Tick n) w = w\<lparr>tw_clock := tw_clock w + n\<rparr>"
      by (simp add: host_step_def)
    from Cons.IH [OF p] show ?thesis
      by (simp add: hs Tick add.assoc split: option.splits)
  next
    case RunTimers
    show ?thesis
    proof (cases "due \<le> tw_clock w")
      case True
      have idle: "tw_pending (timer_callback opts (w\<lparr>tw_pending := None\<rparr>)) = None"
        by (simp add: timer_callback_def Let_def split: option.splits)
      have clk: "tw_clock (timer_callback opts (w\<lparr>tw_pending := None\<rparr>)) = tw_clock w"
        by (simp add: timer_callback_def Let_def split: option.splits)
      have "fold (host_step opts) (ev # es) w
          = fold (host_step opts) es (timer_callback opts (w\<lparr>tw_pending := None\<rparr>))"
        using True Cons.prems by (simp add: RunTimers host_step_def)
      also have "\<dots> = (timer_callback opts (w\<lparr>tw_pending := None\<rparr>))\<lparr>tw_clock := tw_clock w + ticks es\<rparr>"
        using fold_host_step_idle [OF idle, of opts es] by (simp add: clk)
      finally show ?thesis using True by (simp add: RunTimers split: option.splits)
    next
      case False
      have hs: "host_step opts RunTimers w = w"
        using False Cons.prems by (simp add: host_step_def)
      show ?thesis
        using Cons.IH [OF Cons.prems] False by (simp add: hs RunTimers split: option.splits)
    qed
  qed
qed

lemma firedAt_ge: "firedAt due c es = Some t \<Longrightarrow> due \<le> t"
  by (induction due c es rule: firedAt.induct) (auto split: if_splits)

lemma withSharedBufferTimeout_eq:
  "withSharedBufferTimeout opts outcome schedule clock0 user0 =
     (case watchdogFired opts schedule clock0 of
        None \<Rightarrow>
          (map_sum id (\<lambda>v. \<lparr>tr_value = v, tr_timedOut = False, tr_elapsedMs = ticks schedule\<rparr>) outcome,
           \<lparr>mon_startTime = Some clock0, mon_timeoutId = None, mon_timedOut = False,
            tw_pending = None, tw_clock = clock0 + ticks schedule, tw_user = user0\<rparr>)
      | Some t \<Rightarrow>
          (map_sum id (\<lambda>v. \<lparr>tr_value = v, tr_timedOut = True, tr_elapsedMs = ticks schedule\<rparr>) outcome,
           \<lparr>mon_startTime = Some clock0, mon_timeoutId = None, mon_timedOut = True,
            tw_pending = None, tw_clock = clock0 + ticks schedule,
            tw_user = (case opt_onTimeoutWarning opts of None \<Rightarrow> user0
                       | Some warn \<Rightarrow> warn (t - clock0) user0)\<rparr>))"
proof -
  define w1 where "w1 = monitor_start opts \<lparr>mon_startTime = None, mon_timeoutId = None,
      mon_timedOut = False, tw_pending = None, tw_clock = clock0, tw_user = user0\<rparr>"
  have w1: "w1 = \<lparr>mon_startTime = Some clock0, mon_timeoutId = Some 1, mon_timedOut = False,
      tw_pending = Some (clock0 + timeoutMs_of opts), tw_clock = clock0, tw_user = user0\<rparr>"
    by (simp add: w1_def monitor_start_def)
  have p: "tw_pending w1 = Some (clock0 + timeoutMs_of opts)" by (simp add: w1)
  note f = fold_host_step_armed [OF p, of opts schedule]
  show ?thesis
  proof (cases "watchdogFired opts schedule clock0")
    case None
    then have "fold (host_step opts) schedule w1 = w1\<lparr>tw_clock := tw_clock w1 + ticks schedule\<rparr>"
      using f by (simp add: watchdogFired_def w1)
    then show ?thesis
      by (cases outcome)
         (simp_all add: withSharedBufferTimeout_def Let_def w1_def [symmetric] None w1
           monitor_stop_def hasTimedOut_def getElapsedMs_def)
  next
    case (Some t)
    then have "fold (host_step opts) schedule w1
        = (timer_callback opts (w1\<lparr>tw_clock := t, tw_pending := None\<rparr>))
             \<lparr>tw_clock := tw_clock w1 + ticks schedule\<rparr>"
      using f by (simp add: watchdogFired_def w1)
    moreover have "clock0 \<le> t"
      using firedAt_ge [of "clock0 + timeoutMs_of opts" clock0 schedule t] Some
      by (simp add: watchdogFired_def)
    ultimately show ?thesis
      by (cases outcome; cases "opt_onTimeoutWarning opts")
         (simp_all add: withSharedBufferTimeout_def Let_def w1_def [symmetric] Some w1
           monitor_stop_def hasTimedOut_def getElapsedMs_def timer_callback_def)
  qed
qed

lemma watchdogFired_after_timeout:
  "(case watchdogFired opts schedule clock0 of None \<Rightarrow> True
    | Some t \<Rightarrow> clock0 + timeoutMs_of opts \<le> t)"
  using firedAt_ge [of "clock0 + timeoutMs_of opts" clock0 schedule]
  by (simp add: watchdogFired_def split: option.splits)

lemma parseWithMode_logs:
  "ad_logEmitter (snd (parseWithMode env m ident st)) =
     (case watchdogFired (adapterWatchdog ident) (env_schedule env m) (ad_clock st) of
        None \<Rightarrow> ad_logEmitter st
      | Some t \<Rightarrow>
          (case env_operation env m of
             Inl e \<Rightarrow> timeoutWarning ident (t - ad_clock st) (ad_logEmitter st)
           | Inr asset \<Rightarrow>
               emit \<lparr>ev_level = DEBUG,
                     ev_message = lit ''Parse completed after SharedArrayBuffer timeout. Total elapsed: ''
                        @ toFixed2 (ticks (env_schedule env m)) @ lit ''ms'',
                     ev_context = Some (logContext ''wasm'' ''parse_after_timeout''
                        (Some (ticks (env_schedule env m))) None ident)\<rparr>
                 (timeoutWarning ident (t - ad_clock st) (ad_logEmitter st))))"
  by (cases "env_operation env m")
     (simp_all add: parseWithMode_def Let_def withSharedBufferTimeout_eq
        emitLog_def split: option.splits,
      simp_all add: adapterWatchdog_def)

lemma emit_subscribers: "subscribers (emit e em) = filter sub_alive (subscribers em)"
  by (simp add: emit_def Let_def)

lemma emit_delivered:
  "delivered (emit e em)
     = delivered em @ map (\<lambda>r. (sub_id r, e)) (filter sub_alive (subscribers em))"
  by (simp add: emit_def Let_def)

lemma emit_all_delivered:
  "delivered (emit_all es em)
     = delivered em
       @ concat (map (\<lambda>e. map (\<lambda>r. (sub_id r, e)) (filter sub_alive (subscribers em))) es)"
proof (induction es arbitrary: em)
  case Nil
  show ?case by (simp add: emit_all_def)
next
  case (Cons e es)
  have "emit_all (e # es) em = emit_all es (emit e em)" by (simp add: emit_all_def)
  then show ?case
    by (simp add: Cons.IH emit_subscribers emit_delivered)
qed

lemma parseWithMode_emitted:
  "ad_logEmitter (snd (parseWithMode env m ident st)) =
     emit_all
       (case watchdogFired (adapterWatchdog ident) (env_schedule env m) (ad_clock st) of
          None \<Rightarrow> []
        | Some t \<Rightarrow>
            \<lparr>ev_level = WARN,
             ev_message = lit ''SharedArrayBuffer lock timeout after '' @ showNat (t - ad_clock st)
                @ lit ''ms. Browser tab may be inactive. Continuing operation.'',
             ev_context = Some \<lparr>ctx_category = Some (lit ''wasm''),
                ctx_op = Some (lit ''shared_buffer_timeout''),
                ctx_elapsed_ms = Some (t - ad_clock st), ctx_code = None,
                ctx_fileId = Some ident\<rparr>\<rparr>
            # (case env_operation env m of
                 Inl e \<Rightarrow> []
               | Inr asset \<Rightarrow>
                   [\<lparr>ev_level = DEBUG,
                     ev_message = lit ''Parse completed after SharedArrayBuffer timeout. Total elapsed: ''
                        @ toFixed2 (ticks (env_schedule env m)) @ lit ''ms'',
                     ev_context = Some \<lparr>ctx_category = Some (lit ''wasm''),
                        ctx_op = Some (lit ''parse_after_timeout''),
                        ctx_elapsed_ms = Some (ticks (env_schedule env m)), ctx_code = None,
                        ctx_fileId = Some ident\<rparr>\<rparr>]))
       (ad_logEmitter st)"
  unfolding parseWithMode_logs
  by (cases "watchdogFired (adapterWatchdog ident) (env_schedule env m) (ad_clock st)";
      cases "env_operation env m")
     (simp_all add: emit_all_def timeoutWarning_def logContext_def)

lemma parseWithMode_events:
  "(let em = ad_logEmitter st;
        events =
          (case watchdogFired (adapterWatchdog ident) (env_schedule env m) (ad_clock st) of
                None \<Rightarrow> []
              | Some t \<Rightarrow>
                  \<lparr>ev_level = WARN,
                   ev_message = lit ''SharedArrayBuffer lock timeout after ''
                      @ showNat (t - ad_clock st)
                      @ lit ''ms. Browser tab may be inactive. Continuing operation.'',
                   ev_context = Some \<lparr>ctx_category = Some (lit ''wasm''),
                      ctx_op = Some (lit ''shared_buffer_timeout''),
                      ctx_elapsed_ms = Some (t - ad_clock st), ctx_code = None,
                      ctx_fileId = Some ident\<rparr>\<rparr>
                  # (case env_operation env m of
                       Inl e \<Rightarrow> []
                     | Inr asset \<Rightarrow>
                         [\<lparr>ev_level = DEBUG,
                           ev_message =
                             lit ''Parse completed after SharedArrayBuffer timeout. Total elapsed: ''
                               @ toFixed2 (ticks (env_schedule env m)) @ lit ''ms'',
                           ev_context = Some \<lparr>ctx_category = Some (lit ''wasm''),
                              ctx_op = Some (lit ''parse_after_timeout''),
                              ctx_elapsed_ms = Some (ticks (env_schedule env m)), ctx_code = None,
                              ctx_fileId = Some ident\<rparr>\<rparr>]))
    in ad_logEmitter (snd (parseWithMode env m ident st)) = emit_all events em
       \<and> delivered (ad_logEmitter (snd (parseWithMode env m ident st)))
           = delivered em
             @ concat (map (\<lambda>e. map (\<lambda>r. (sub_id r, e)) (filter sub_alive (subscribers em))) events)
       \<and> (length (logs em) \<le> maxBufferSize em \<longrightarrow>
            getLogs (ad_logEmitter (snd (parseWithMode env m ident st)))
              = drop (length (logs em @ events) - maxBufferSize em) (logs em @ events)))"
proof -
  define events where "events =
          (case watchdogFired (adapterWatchdog ident) (env_schedule env m) (ad_clock st) of
                None \<Rightarrow> []
              | Some t \<Rightarrow>
                  \<lparr>ev_level = WARN,
                   ev_message = lit ''SharedArrayBuffer lock timeout after ''
                      @ showNat (t - ad_clock st)
                      @ lit ''ms. Browser tab may be inactive. Continuing operation.'',
                   ev_context = Some \<lparr>ctx_category = Some (lit ''wasm''),
                      ctx_op = Some (lit ''shared_buffer_timeout''),
                      ctx_elapsed_ms = Some (t - ad_clock st), ctx_code = None,
                      ctx_fileId = Some ident\<rparr>\<rparr>
                  # (case env_operation env m of
                       Inl e \<Rightarrow> []
                     | Inr asset \<Rightarrow>
                         [\<lparr>ev_level = DEBUG,
                           ev_message =
                             lit ''Parse completed after SharedArrayBuffer timeout. Total elapsed: ''
                               @ toFixed2 (ticks (env_schedule env m)) @ lit ''ms'',
                           ev_context = Some \<lparr>ctx_category = Some (lit ''wasm''),
                              ctx_op = Some (lit ''parse_after_timeout''),
                              ctx_elapsed_ms = Some (ticks (env_schedule env m)), ctx_code = None,
                              ctx_fileId = Some ident\<rparr>\<rparr>]))"
  have e: "ad_logEmitter (snd (parseWithMode env m ident st)) = emit_all events (ad_logEmitter st)"
    unfolding events_def by (rule parseWithMode_emitted)
  have d: "delivered (ad_logEmitter (snd (parseWithMode env m ident st)))
           = delivered (ad_logEmitter st)
             @ concat (map (\<lambda>e. map (\<lambda>r. (sub_id r, e))
                 (filter sub_alive (subscribers (ad_logEmitter st)))) events)"
    unfolding e by (rule emit_all_delivered)
  have l: "length (logs (ad_logEmitter st)) \<le> maxBufferSize (ad_logEmitter st) \<longrightarrow>
            getLogs (ad_logEmitter (snd (parseWithMode env m ident st)))
              = drop (length (logs (ad_logEmitter st) @ events) - maxBufferSize (ad_logEmitter st))
                  (logs (ad_logEmitter st) @ events)"
    unfolding e getLogs_def using emit_all_logs [of "ad_logEmitter st" events] by blast
  show ?thesis
    unfolding Let_def events_def [symmetric] using e d l by (simp only: simp_thms)
qed

text \<open>
  C7. For every operation outcome and every schedule of the host: the value (or the
  rejection) of the operation is returned unchanged; \<open>timedOut\<close> says whether the timer
  callback ran; the only effect of the watchdog is one call of the warning callback,
  made when the callback runs, which is never earlier than \<open>timeoutMs\<close> after the start
  (30000 ms in the adapter); the timer is not pending after the return. In the adapter,
  \<open>parseWithMode\<close> invokes the decode operation once and returns its outcome. It emits
  nothing unless the watchdog fired. When it fired, the adapter's emitter has been given
  one event of level \<open>WARN\<close> (operation \<open>shared_buffer_timeout\<close>, with the time elapsed when
  the callback ran) and, once the operation has completed, one \<open>DEBUG\<close> event: every live
  subscriber is handed these events in this order, and they are the newest entries of
  the log buffer.
\<close>

theorem C7_watchdog_is_diagnostic:
  "map_sum id tr_value (fst (withSharedBufferTimeout opts outcome schedule clock0 user0)) = outcome
   \<and> map_sum id tr_timedOut (fst (withSharedBufferTimeout opts outcome schedule clock0 user0))
       = map_sum id (\<lambda>v. watchdogFired opts schedule clock0 \<noteq> None) outcome
   \<and> tw_user (snd (withSharedBufferTimeout opts outcome schedule clock0 user0))
       = (case watchdogFired opts schedule clock0 of
            None \<Rightarrow> user0
          | Some t \<Rightarrow> (case opt_onTimeoutWarning opts of
                         None \<Rightarrow> user0 | Some warn \<Rightarrow> warn (t - clock0) user0))
   \<and> tw_pending (snd (withSharedBufferTimeout opts outcome schedule clock0 user0)) = None
   \<and> (case watchdogFired opts schedule clock0 of
         None \<Rightarrow> True | Some t \<Rightarrow> clock0 + timeoutMs_of opts \<le> t)
   \<and> timeoutMs_of (adapterWatchdog ident) = 30000
   \<and> fst (parseWithMode env m ident st) = env_operation env m
   \<and> ad_decodeCalls (snd (parseWithMode env m ident st)) = ad_decodeCalls st @ [m]
   \<and> ad_logEmitter (snd (parseWithMode env m ident st)) =
       (case watchdogFired (adapterWatchdog ident) (env_schedule env m) (ad_clock st) of
          None \<Rightarrow> ad_logEmitter st
        | Some t \<Rightarrow>
            (case env_operation env m of
               Inl e \<Rightarrow> timeoutWarning ident (t - ad_clock st) (ad_logEmitter st)
             | Inr asset \<Rightarrow>
                 emit \<lparr>ev_level = DEBUG,
                       ev_message = lit ''Parse completed after SharedArrayBuffer timeout. Total elapsed: ''
                          @ toFixed2 (ticks (env_schedule env m)) @ lit ''ms'',
                       ev_context = Some (logContext ''wasm'' ''parse_after_timeout''
                          (Some (ticks (env_schedule env m))) None ident)\<rparr>
                   (timeoutWarning ident (t - ad_clock st) (ad_logEmitter st))))
   \<and> (let em = ad_logEmitter st;
        events =
          (case watchdogFired (adapterWatchdog ident) (env_schedule env m) (ad_clock st) of
                None \<Rightarrow> []
              | Some t \<Rightarrow>
                  \<lparr>ev_level = WARN,
                   ev_message = lit ''SharedArrayBuffer lock timeout after ''
                      @ showNat (t - ad_clock st)
                      @ lit ''ms. Browser tab may be inactive. Continuing operation.'',
                   ev_context = Some \<lparr>ctx_category = Some (lit ''wasm''),
                      ctx_op = Some (lit ''shared_buffer_timeout''),
                      ctx_elapsed_ms = Some (t - ad_clock st), ctx_code = None,
                      ctx_fileId = Some ident\<rparr>\<rparr>
                  # (case env_operation env m of
                       Inl e \<Rightarrow> []
                     | Inr asset \<Rightarrow>
                         [\<lparr>ev_level = DEBUG,
                           ev_message =
                             lit ''Parse completed after SharedArrayBuffer timeout. Total elapsed: ''
                               @ toFixed2 (ticks (env_schedule env m)) @ lit ''ms'',
                           ev_context = Some \<lparr>ctx_category = Some (lit ''wasm''),
                              ctx_op = Some (lit ''parse_after_timeout''),
                              ctx_elapsed_ms = Some (ticks (env_schedule env m)), ctx_code = None,
                              ctx_fileId = Some ident\<rparr>\<rparr>]))
    in ad_logEmitter (snd (parseWithMode env m ident st)) = emit_all events em
       \<and> delivered (ad_logEmitter (snd (parseWithMode env m ident st)))
           = delivered em
             @ concat (map (\<lambda>e. map (\<lambda>r. (sub_id r, e)) (filter sub_alive (subscribers em))) events)
       \<and> (length (logs em) \<le> maxBufferSize em \<longrightarrow>
            getLogs (ad_logEmitter (snd (parseWithMode env m ident st)))
              = drop (length (logs em @ events) - maxBufferSize em) (logs em @ events)))"
proof -
  have a: "map_sum id tr_value (fst (withSharedBufferTimeout opts outcome schedule clock0 user0)) = outcome"
    by (rule withSharedBufferTimeout_value)
  have b: "map_sum id tr_timedOut (fst (withSharedBufferTimeout opts outcome schedule clock0 user0))
       = map_sum id (\<lambda>v. watchdogFired opts schedule clock0 \<noteq> None) outcome"
    by (cases outcome) (simp_all add: withSharedBufferTimeout_eq split: option.splits)
  have c: "tw_user (snd (withSharedBufferTimeout opts outcome schedule clock0 user0))
       = (case watchdogFired opts schedule clock0 of
            None \<Rightarrow> user0
          | Some t \<Rightarrow> (case opt_onTimeoutWarning opts of
                         None \<Rightarrow> user0 | Some warn \<Rightarrow> warn (t - clock0) user0))"
    by (simp add: withSharedBufferTimeout_eq split: option.splits)
  have d: "tw_pending (snd (withSharedBufferTimeout opts outcome schedule clock0 user0)) = None"
    by (simp add: withSharedBufferTimeout_eq split: option.splits)
  have e: "timeoutMs_of (adapterWatchdog ident) = 30000"
    by (simp add: timeoutMs_of_def adapterWatchdog_def SHARED_BUFFER_TIMEOUT_MS_def)
  show ?thesis
    using a b c d e watchdogFired_after_timeout [of clock0 opts schedule]
      parseWithMode_result [of env m ident st] parseWithMode_calls [of env m ident st]
      parseWithMode_logs [of env m ident st] parseWithMode_events [of st ident env m]
    by (simp only: simp_thms)
qed

text \<open>
  The theorem on a stalled decode: the mesh of the operation is returned, and the log
  holds the warning of the watchdog followed by the completion event.
\<close>

lemma stalled_fired:
  "watchdogFired (adapterWatchdog (lit ''file-1'')) (env_schedule stalled_env fast)
     (ad_clock adapter0) = Some 31000"
  by (simp add: watchdogFired_def adapterWatchdog_def timeoutMs_of_def SHARED_BUFFER_TIMEOUT_MS_def
      stalled_env_def adapter0_def)

lemma show_31000: "showNat 31000 = lit ''31000''" "toFixed2 31500 = lit ''31500.00''"
  by (simp_all add: toFixed2_def showNat.simps lit_def)

theorem C7_witness:
  "length (logs (ad_logEmitter adapter0)) \<le> maxBufferSize (ad_logEmitter adapter0)
   \<and> env_schedule stalled_env fast = [Tick 31000, RunTimers, Tick 500]
   \<and> env_operation stalled_env fast = Inr empty_asset
   \<and> watchdogFired (adapterWatchdog (lit ''file-1'')) (env_schedule stalled_env fast)
        (ad_clock adapter0) = Some 31000
   \<and> fst (parseWithMode stalled_env fast (lit ''file-1'') adapter0) = Inr empty_asset
   \<and> ad_decodeCalls (snd (parseWithMode stalled_env fast (lit ''file-1'') adapter0)) = [fast]
   \<and> getLogs (ad_logEmitter (snd (parseWithMode stalled_env fast (lit ''file-1'') adapter0)))
       = [\<lparr>ev_level = WARN,
           ev_message = lit ''SharedArrayBuffer lock timeout after 31000ms. Browser tab may be inactive. Continuing operation.'',
           ev_context = Some \<lparr>ctx_category = Some (lit ''wasm''),
              ctx_op = Some (lit ''shared_buffer_timeout''), ctx_elapsed_ms = Some 31000,
              ctx_code = None, ctx_fileId = Some (lit ''file-1'')\<rparr>\<rparr>,
          \<lparr>ev_level = DEBUG,
           ev_message = lit ''Parse completed after SharedArrayBuffer timeout. Total elapsed: 31500.00ms'',
           ev_context = Some \<lparr>ctx_category = Some (lit ''wasm''),
              ctx_op = Some (lit ''parse_after_timeout''), ctx_elapsed_ms = Some 31500,
              ctx_code = None, ctx_fileId = Some (lit ''file-1'')\<rparr>\<rparr>]"
proof -
  have l: "length (logs (ad_logEmitter adapter0)) \<le> maxBufferSize (ad_logEmitter adapter0)"
    by (simp add: adapter0_def LogEmitter_new_def)
  have s: "env_schedule stalled_env fast = [Tick 31000, RunTimers, Tick 500]"
    by (simp add: stalled_env_def)
  have o: "env_operation stalled_env fast = Inr empty_asset"
    by (simp add: stalled_env_def stub_env_operation)
  have c: "ad_clock adapter0 = 0" "ad_decodeCalls adapter0 = []"
    "logs (ad_logEmitter adapter0) = []" "maxBufferSize (ad_logEmitter adapter0) = 1000"
    by (simp_all add: adapter0_def LogEmitter_new_def)
  note t = C7_watchdog_is_diagnostic [where env = stalled_env and m = fast and ident = "lit ''file-1''"
      and st = adapter0]
  note p7 = t [THEN conjunct2, THEN conjunct2, THEN conjunct2, THEN conjunct2, THEN conjunct2, THEN conjunct2, THEN conjunct1]
  note p8 = t [THEN conjunct2, THEN conjunct2, THEN conjunct2, THEN conjunct2, THEN conjunct2, THEN conjunct2, THEN conjunct2, THEN conjunct1]
  note p10 = t [THEN conjunct2, THEN conjunct2, THEN conjunct2, THEN conjunct2, THEN conjunct2, THEN conjunct2, THEN conjunct2, THEN conjunct2, THEN conjunct2]
  have r: "fst (parseWithMode stalled_env fast (lit ''file-1'') adapter0) = Inr empty_asset"
    using p7 by (simp add: o)
  have k: "ad_decodeCalls (snd (parseWithMode stalled_env fast (lit ''file-1'') adapter0)) = [fast]"
    using p8 by (simp add: c)
  have g: "getLogs (ad_logEmitter (snd (parseWithMode stalled_env fast (lit ''file-1'') adapter0)))
       = [\<lparr>ev_level = WARN,
           ev_message = lit ''SharedArrayBuffer lock timeout after 31000ms. Browser tab may be inactive. Continuing operation.'',
           ev_context = Some \<lparr>ctx_category = Some (lit ''wasm''),
              ctx_op = Some (lit ''shared_buffer_timeout''), ctx_elapsed_ms = Some 31000,
              ctx_code = None, ctx_fileId = Some (lit ''file-1'')\<rparr>\<rparr>,
          \<lparr>ev_level = DEBUG,
           ev_message = lit ''Parse completed after SharedArrayBuffer timeout. Total elapsed: 31500.00ms'',
           ev_context = Some \<lparr>ctx_category = Some (lit ''wasm''),
              ctx_op = Some (lit ''parse_after_timeout''), ctx_elapsed_ms = Some 31500,
              ctx_code = None, ctx_fileId = Some (lit ''file-1'')\<rparr>\<rparr>]"
    unfolding p10 [unfolded Let_def, THEN conjunct2, THEN conjunct2, rule_format, OF l]
    by (simp only: stalled_fired o option.case sum.case) (simp add: s c show_31000 lit_def)
  show ?thesis using l s o stalled_fired r k g by simp
qed

text \<open>An operation that takes 31.5 s with the timer run after 31 s, and one where the event
  loop only gets to run timers before the 30 s are over.\<close>

theorem watchdog_example:
  "fst (withSharedBufferTimeout (adapterWatchdog (lit ''id''))
          (Inr (42::nat) :: jsstring + nat) [Tick 31000, RunTimers, Tick 500] 7 LogEmitter_new)
     = Inr \<lparr>tr_value = 42, tr_timedOut = True, tr_elapsedMs = 31500\<rparr>
   \<and> watchdogFired (adapterWatchdog (lit ''id'')) [Tick 31000, RunTimers, Tick 500] 7 = Some 31007
   \<and> fst (withSharedBufferTimeout (adapterWatchdog (lit ''id''))
          (Inr (42::nat) :: jsstring + nat) [Tick 29000, RunTimers, Tick 5000] 7 LogEmitter_new)
     = Inr \<lparr>tr_value = 42, tr_timedOut = False, tr_elapsedMs = 34000\<rparr>"
  by (simp add: withSharedBufferTimeout_eq watchdogFired_def adapterWatchdog_def timeoutMs_of_def
      SHARED_BUFFER_TIMEOUT_MS_def)

subsection \<open>Buffer release\<close>

lemma release_twice:
  "release (fst (release b bs)) (snd (release b bs)) = release b bs"
  by (cases "releaseKind b") (simp_all add: release_def)

lemma release_n_Suc: "release_n (Suc n) b bs = release b bs"
proof (induction n arbitrary: b bs)
  case 0
  show ?case by (simp split: prod.splits)
next
  case (Suc n)
  obtain b1 bs1 where r: "release b bs = (b1, bs1)" by (cases "release b bs")
  have "release_n (Suc (Suc n)) b bs = release_n (Suc n) b1 bs1" by (simp add: r)
  also have "\<dots> = release b1 bs1" by (rule Suc.IH)
  also have "\<dots> = release b bs" using release_twice [of b bs] by (simp add: r)
  finally show ?case .
qed

lemma release_effect:
  "snd (release b bs) =
     (if releaseKind b = ReleaseBridge \<and> \<not> released b then releaseBuffers (generation b) bs else bs)"
  by (cases "releaseKind b") (simp_all add: release_def)

lemma releaseBuffers_map_idem:
  "pendingBuffersMap (releaseBuffers g (releaseBuffers g bs)) = pendingBuffersMap (releaseBuffers g bs)"
  by (simp add: releaseBuffers_def)

text \<open>
  C6. For every \<open>MeshBuffers\<close> value, every bridge state and every generation: any
  number of \<open>release\<close> calls in a row has the effect of the first one; the bridge's
  \<open>releaseBuffers\<close> is called at most once (once for a foreign buffer set that was not
  yet released, never for in-process buffers), which deletes the registration of that
  generation; and \<open>releaseBuffers\<close> itself leaves the map as it is when called for a
  generation that is already released or not registered. \<open>release\<close> and
  \<open>releaseBuffers\<close> have no failing branch: they return for every input.
\<close>

theorem C6_release_idempotent:
  "release_n (Suc n) b bs = release b bs
   \<and> releaseCalls (snd (release_n (Suc n) b bs))
       = releaseCalls bs @ (if releaseKind b = ReleaseBridge \<and> \<not> released b then [generation b] else [])
   \<and> pendingBuffersMap (snd (release_n (Suc n) b bs))
       = (if releaseKind b = ReleaseBridge \<and> \<not> released b
          then (pendingBuffersMap bs)(generation b := None) else pendingBuffersMap bs)
   \<and> pendingBuffersMap (releaseBuffers g (releaseBuffers g bs)) = pendingBuffersMap (releaseBuffers g bs)
   \<and> pendingBuffersMap (releaseBuffers g (bs\<lparr>pendingBuffersMap := (pendingBuffersMap bs)(g := None)\<rparr>))
       = (pendingBuffersMap bs)(g := None)"
  by (simp add: release_n_Suc release_effect releaseBuffers_def del: release_n.simps)

subsection \<open>Triangle limit\<close>

lemma loadMeshAsset_parse:
  assumes "reachesParse env file options" "loaderStrategy env file options = Some ps"
  shows "loadMeshAsset env file options bs =
     (if ps_parser ps = js then
        (Inr (loadWithJs env options (loaderFileName file) (length (blob_bytes file))
               (guardTriangles env options) (blob_bytes file) ps
               (loaderLogs1 env (loaderFileName file) ps)), bs)
      else loadWithWasm env options (loaderFileName file) (length (blob_bytes file))
             (guardTriangles env options) (blob_bytes file) (ps_format ps)
             (loaderLogs1 env (loaderFileName file) ps) bs)"
proof -
  from assms(2) obtain fmt where fmt: "loaderFormat env file options = Some fmt"
    and ps: "ps = determineParseStrategy (le_uc env) (blob_bytes file) fmt (loaderFileName file)"
    by (auto simp: loaderStrategy_def)
  have f: "(case formatHint options of None \<Rightarrow> inferFormat (le_uc env) (loaderFileName file)
      | Some h \<Rightarrow> Some h) = Some fmt"
    using fmt by (simp add: loaderFormat_def)
  from assms(1) have sz: "\<not> length (blob_bytes file) \<le> 0"
      "\<not> length (blob_bytes file) > guardBytes env options" "blob_readError file = None"
    by (simp_all add: reachesParse_def)
  show ?thesis
    unfolding loadMeshAsset_def Let_def loaderFileName_def [symmetric] guardBytes_def [symmetric]
      guardTriangles_def [symmetric]
    by (simp only: sz f if_False option.case ps [symmetric] loaderLogs1_def append_Cons append_Nil)
qed

lemma parseMesh_registers:
  assumes "parseMesh w data fmt bs = (Inr pointers, bs1)"
  shows "\<exists>pb. getBuffersForGeneration (ptr_generation pointers) bs1 = Some pb
      \<and> pb_generation pb = ptr_generation pointers
      \<and> length (pb_indices pb) = ptr_indexCount pointers"
    and "releaseCalls bs1 = releaseCalls bs"
    and "ptr_generation pointers = generationCounter bs + 1"
  using assms
  by (auto simp: parseMesh_def Let_def getBuffersForGeneration_def split: sum.splits if_splits)

lemma loadWithWasm_too_many:
  assumes pm: "parseMesh (le_wasm env) data fmt bs = (Inr pointers, bs1)"
    and big: "int (ptr_indexCount pointers div 3) > g"
  shows "loadedError (fst (loadWithWasm env options fileName sz g data fmt lg bs))
       = Some \<lparr>err_code = E_TOO_MANY_TRIANGLES,
               err_message = lit ''Triangle count exceeds allowed limit.'',
               err_severity = SevError,
               err_context = Some (noContext\<lparr>ec_triangleCount := Some (int (ptr_indexCount pointers div 3)),
                                      ec_maxTriangles := Some g\<rparr>)\<rparr>"
    and "loadedAsset (fst (loadWithWasm env options fileName sz g data fmt lg bs)) = None"
    and "snd (loadWithWasm env options fileName sz g data fmt lg bs)
       = releaseBuffers (ptr_generation pointers) bs1"
proof -
  from parseMesh_registers(1) [OF pm] obtain pb where
    pb: "getBuffersForGeneration (ptr_generation pointers) bs1 = Some pb" by blast
  have tm: "toMeshBuffers env pointers bs1 =
      Inr \<lparr>vertexView = pb_vertices pb, indexView = pb_indices pb,
               normalView = pb_normals pb, generation = ptr_generation pointers,
               releaseKind = ReleaseBridge, released = False\<rparr>"
    by (simp add: toMeshBuffers_def pb)
  have eq: "loadWithWasm env options fileName sz g data fmt lg bs =
     (Inr (loaderError E_TOO_MANY_TRIANGLES (lit ''Triangle count exceeds allowed limit.'')
            (noContext\<lparr>ec_triangleCount := Some (int (ptr_indexCount pointers div 3)),
                       ec_maxTriangles := Some g\<rparr>)
            (buildMetrics env sz (int (ptr_indexCount pointers div 3)) (int (ptr_vertexCount pointers)))
            (lg @ [loaderLog env ERROR (lit ''Triangle count exceeds allowed limit.'') None
                     (Some (lit ''E_TOO_MANY_TRIANGLES''))])),
      releaseBuffers (ptr_generation pointers) bs1)"
    using big by (simp add: loadWithWasm_def pm tm Let_def release_def)
  show "loadedError (fst (loadWithWasm env options fileName sz g data fmt lg bs))
       = Some \<lparr>err_code = E_TOO_MANY_TRIANGLES,
               err_message = lit ''Triangle count exceeds allowed limit.'',
               err_severity = SevError,
               err_context = Some (noContext\<lparr>ec_triangleCount := Some (int (ptr_indexCount pointers div 3)),
                                      ec_maxTriangles := Some g\<rparr>)\<rparr>"
    by (simp add: eq loadedError_def loaderError_def resultError_def)
  show "loadedAsset (fst (loadWithWasm env options fileName sz g data fmt lg bs)) = None"
    by (simp add: eq loadedAsset_def loaderError_def resultAsset_def)
  show "snd (loadWithWasm env options fileName sz g data fmt lg bs)
       = releaseBuffers (ptr_generation pointers) bs1"
    by (simp add: eq)
qed

lemma loadWithJs_too_many:
  assumes pj: "parseWithJs env data (ps_format ps) = Inr r"
    and big: "int (jr_faceCount r) > g"
  shows "resultError (loadWithJs env options fileName sz g data ps lg)
       = Some \<lparr>err_code = E_TOO_MANY_TRIANGLES,
               err_message = lit ''Triangle count exceeds allowed limit.'',
               err_severity = SevError,
               err_context = Some (noContext\<lparr>ec_triangleCount := Some (int (jr_faceCount r)),
                                      ec_maxTriangles := Some g\<rparr>)\<rparr>"
    and "resultAsset (loadWithJs env options fileName sz g data ps lg) = None"
  using big by (simp_all add: loadWithJs_def pj Let_def loaderError_def resultError_def resultAsset_def)

lemma exactFallback_asset:
  "parsedAsset (fst (fst (exactFallback env fileId metrics st)))
     = (case env_operation env exact of Inl e \<Rightarrow> None | Inr asset \<Rightarrow> Some asset)"
proof -
  let ?st1 = "emitLog DEBUG (lit ''Attempting Exact mode parsing'')
         (logContext ''adapter'' ''parse_exact_start'' None None fileId) st"
  obtain r st2 where p: "parseWithMode env exact fileId ?st1 = (r, st2)"
    by (cases "parseWithMode env exact fileId ?st1")
  have r: "r = env_operation env exact"
    using parseWithMode_result [of env exact fileId ?st1] by (simp add: p)
  show ?thesis
    by (cases r) (simp_all add: exactFallback_def Let_def p r [symmetric] parsedAsset_def)
qed

lemma parseFile_asset:
  assumes "file_readable file"
  shows "\<exists>pr m st'. parseFile env file options metrics fileId st = (Inr (pr, m), st')
           \<and> parsedAsset pr = decodedAsset env options"
proof -
  let ?st1 = "emitLog DEBUG (lit ''Attempting Fast mode parsing'')
                     (logContext ''adapter'' ''parse_fast_start'' None None fileId) st"
  obtain r st2 where p: "parseWithMode env fast fileId ?st1 = (r, st2)"
    by (cases "parseWithMode env fast fileId ?st1")
  have r: "r = env_operation env fast"
    using parseWithMode_result [of env fast fileId ?st1] by (simp add: p)
  show ?thesis
  proof (cases "enableFallback options = Some False")
    case True
    show ?thesis
    proof (cases r)
      case (Inl e)
      then show ?thesis
        using assms True by (simp add: parseFile_def Let_def p parsedAsset_def decodedAsset_def r [symmetric])
    next
      case (Inr asset)
      obtain valid reason where v: "validateParsedMesh asset = (valid, reason)"
        by (cases "validateParsedMesh asset")
      show ?thesis
        using assms True
        by (cases valid)
           (simp_all add: parseFile_def Let_def p Inr v parsedAsset_def decodedAsset_def r [symmetric])
    qed
  next
    case False
    show ?thesis
    proof (cases r)
      case (Inl e)
      then show ?thesis
        using assms False exactFallback_asset [of env fileId metrics]
        by (simp add: parseFile_def Let_def p decodedAsset_def r [symmetric] split: prod.splits)
           (metis fst_conv)
    next
      case (Inr asset)
      obtain valid reason where v: "validateParsedMesh asset = (valid, reason)"
        by (cases "validateParsedMesh asset")
      show ?thesis
      proof (cases valid)
        case True
        then show ?thesis
          using assms False
          by (simp add: parseFile_def Let_def p Inr v parsedAsset_def decodedAsset_def r [symmetric])
      next
        case nv: False
        then show ?thesis
          using assms False exactFallback_asset [of env fileId metrics]
          by (simp add: parseFile_def Let_def p Inr v decodedAsset_def r [symmetric] split: prod.splits)
             (metis fst_conv)
      qed
    qed
  qed
qed

lemma finishLoad_too_many:
  assumes "parsedAsset pr = Some asset" "asset_stats asset = Some stats"
    and "st_triangles stats > env_MAX_TRIANGLE_COUNT env"
  shows "resultError (fst (finishLoad env file fileId pr metrics st))
       = Some (createTooManyTrianglesError (st_triangles stats) (env_MAX_TRIANGLE_COUNT env)
                 (file_name file))"
    and "resultAsset (fst (finishLoad env file fileId pr metrics st)) = None"
  using assms
  by (simp_all add: finishLoad_def Let_def parsedAsset_def buildErrorResult_def resultError_def
      resultAsset_def)

lemma load_reaches:
  assumes "reachesDecode env file"
  shows "\<exists>m1 st3. load env file options st =
      (case parseFile env file options m1 (env_fileId env) st3 of
         (Inr (parseResult, metrics2), st4) \<Rightarrow>
           finishLoad env file (env_fileId env) parseResult metrics2 st4
       | (Inl errorMessage, st4) \<Rightarrow>
           (let error = createParseError (file_name file) (Some errorMessage);
                st5 = emitLog ERROR (lit ''Load failed: '' @ errorMessage)
                        (logContext ''adapter'' ''load_error'' None
                           (Some (codeName (err_code error))) (env_fileId env)) st4
            in (buildErrorResult error m1 (getLogs (ad_logEmitter st5)), st5)))"
  using assms
  by (cases "mismatch (detectMeshFormat (env_uc env) file)")
     (simp_all add: load_def Let_def reachesDecode_def, blast+)

lemma load_too_many:
  assumes reach: "reachesDecode env file"
    and dec: "decodedAsset env options = Some asset"
    and stats: "asset_stats asset = Some stats"
    and big: "st_triangles stats > env_MAX_TRIANGLE_COUNT env"
  shows "resultError (fst (load env file options st))
       = Some (createTooManyTrianglesError (st_triangles stats) (env_MAX_TRIANGLE_COUNT env)
                 (file_name file))
     \<and> resultAsset (fst (load env file options st)) = None"
proof -
  from load_reaches [OF reach, of options st] obtain m1 st3 where
    ld: "load env file options st =
      (case parseFile env file options m1 (env_fileId env) st3 of
         (Inr (parseResult, metrics2), st4) \<Rightarrow>
           finishLoad env file (env_fileId env) parseResult metrics2 st4
       | (Inl errorMessage, st4) \<Rightarrow>
           (let error = createParseError (file_name file) (Some errorMessage);
                st5 = emitLog ERROR (lit ''Load failed: '' @ errorMessage)
                        (logContext ''adapter'' ''load_error'' None
                           (Some (codeName (err_code error))) (env_fileId env)) st4
            in (buildErrorResult error m1 (getLogs (ad_logEmitter st5)), st5)))"
    by blast
  from reach have "file_readable file" by (simp add: reachesDecode_def)
  from parseFile_asset [OF this, of env options m1 "env_fileId env" st3]
  obtain pr m st' where pf: "parseFile env file options m1 (env_fileId env) st3 = (Inr (pr, m), st')"
    and pa: "parsedAsset pr = decodedAsset env options" by blast
  have "load env file options st = finishLoad env file (env_fileId env) pr m st'"
    by (simp add: ld pf)
  then show ?thesis
    using finishLoad_too_many [of pr asset stats env "file" "env_fileId env" m st'] pa dec stats big
    by simp
qed

text \<open>
  C2. In \<open>loadMeshAsset\<close>, when the bridge has decoded the file (\<open>parseMesh\<close> returned
  pointers, so the copied buffers are registered under a new generation) and the
  triangle count exceeds the configured maximum, the result is the error
  \<open>E_TOO_MANY_TRIANGLES\<close> without an asset, and the bridge's \<open>releaseBuffers\<close> has been
  called for that generation, whose registration is gone. When the in-process decoder
  produced too many triangles the result is the same error and the bridge is untouched
  (nothing foreign was allocated). In the adapter's \<open>load\<close>, an asset whose statistics
  count more triangles than the limit gives the same error and no asset (the decode
  operation there allocates no foreign buffers).
\<close>

theorem C2_too_many_triangles:
  "(reachesParse env file options \<and> loaderStrategy env file options = Some ps \<and> ps_parser ps = wasm
      \<and> parseMesh (le_wasm env) (blob_bytes file) (ps_format ps) bs = (Inr pointers, bs1)
      \<and> int (ptr_indexCount pointers div 3) > guardTriangles env options
    \<longrightarrow> map_option err_code (loadedError (fst (loadMeshAsset env file options bs)))
          = Some E_TOO_MANY_TRIANGLES
        \<and> loadedAsset (fst (loadMeshAsset env file options bs)) = None
        \<and> pendingBuffersMap bs1 (ptr_generation pointers) \<noteq> None
        \<and> snd (loadMeshAsset env file options bs) = releaseBuffers (ptr_generation pointers) bs1
        \<and> releaseCalls (snd (loadMeshAsset env file options bs))
            = releaseCalls bs @ [ptr_generation pointers]
        \<and> pendingBuffersMap (snd (loadMeshAsset env file options bs)) (ptr_generation pointers) = None)
   \<and> (reachesParse env file options \<and> loaderStrategy env file options = Some ps \<and> ps_parser ps = js
      \<and> parseWithJs env (blob_bytes file) (ps_format ps) = Inr r
      \<and> int (jr_faceCount r) > guardTriangles env options
    \<longrightarrow> map_option err_code (loadedError (fst (loadMeshAsset env file options bs)))
          = Some E_TOO_MANY_TRIANGLES
        \<and> loadedAsset (fst (loadMeshAsset env file options bs)) = None
        \<and> snd (loadMeshAsset env file options bs) = bs)
   \<and> (reachesDecode aenv afile \<and> decodedAsset aenv aoptions = Some asset
      \<and> asset_stats asset = Some stats \<and> st_triangles stats > env_MAX_TRIANGLE_COUNT aenv
    \<longrightarrow> map_option err_code (resultError (fst (load aenv afile aoptions st)))
          = Some E_TOO_MANY_TRIANGLES
        \<and> resultAsset (fst (load aenv afile aoptions st)) = None)"
proof (intro conjI impI)
  assume a: "reachesParse env file options \<and> loaderStrategy env file options = Some ps \<and> ps_parser ps = wasm
      \<and> parseMesh (le_wasm env) (blob_bytes file) (ps_format ps) bs = (Inr pointers, bs1)
      \<and> int (ptr_indexCount pointers div 3) > guardTriangles env options"
  then have eq: "loadMeshAsset env file options bs =
      loadWithWasm env options (loaderFileName file) (length (blob_bytes file))
             (guardTriangles env options) (blob_bytes file) (ps_format ps)
             (loaderLogs1 env (loaderFileName file) ps) bs"
    using loadMeshAsset_parse [of env "file" options ps bs] by simp
  from a have pm: "parseMesh (le_wasm env) (blob_bytes file) (ps_format ps) bs = (Inr pointers, bs1)"
    and big: "int (ptr_indexCount pointers div 3) > guardTriangles env options" by simp_all
  note w = loadWithWasm_too_many [OF pm big, of options "loaderFileName file" "length (blob_bytes file)"
      "loaderLogs1 env (loaderFileName file) ps"]
  note reg = parseMesh_registers [OF pm]
  show "map_option err_code (loadedError (fst (loadMeshAsset env file options bs)))
          = Some E_TOO_MANY_TRIANGLES"
    by (simp add: eq w(1))
  show "loadedAsset (fst (loadMeshAsset env file options bs)) = None"
    by (simp add: eq w(2))
  show "pendingBuffersMap bs1 (ptr_generation pointers) \<noteq> None"
    using reg(1) by (auto simp: getBuffersForGeneration_def)
  show "snd (loadMeshAsset env file options bs) = releaseBuffers (ptr_generation pointers) bs1"
    by (simp add: eq w(3))
  show "releaseCalls (snd (loadMeshAsset env file options bs))
            = releaseCalls bs @ [ptr_generation pointers]"
    by (simp add: eq w(3) releaseBuffers_def reg(2))
  show "pendingBuffersMap (snd (loadMeshAsset env file options bs)) (ptr_generation pointers) = None"
    by (simp add: eq w(3) releaseBuffers_def)
next
  assume a: "reachesParse env file options \<and> loaderStrategy env file options = Some ps \<and> ps_parser ps = js
      \<and> parseWithJs env (blob_bytes file) (ps_format ps) = Inr r
      \<and> int (jr_faceCount r) > guardTriangles env options"
  then have eq: "loadMeshAsset env file options bs =
        (Inr (loadWithJs env options (loaderFileName file) (length (blob_bytes file))
               (guardTriangles env options) (blob_bytes file) ps
               (loaderLogs1 env (loaderFileName file) ps)), bs)"
    using loadMeshAsset_parse [of env "file" options ps bs] by simp
  from a have pj: "parseWithJs env (blob_bytes file) (ps_format ps) = Inr r"
    and big: "int (jr_faceCount r) > guardTriangles env options" by simp_all
  note j = loadWithJs_too_many [OF pj big, of options "loaderFileName file" "length (blob_bytes file)"
      "loaderLogs1 env (loaderFileName file) ps"]
  show "map_option err_code (loadedError (fst (loadMeshAsset env file options bs)))
          = Some E_TOO_MANY_TRIANGLES"
    by (simp add: eq loadedError_def j(1))
  show "loadedAsset (fst (loadMeshAsset env file options bs)) = None"
    by (simp add: eq loadedAsset_def j(2))
  show "snd (loadMeshAsset env file options bs) = bs" by (simp add: eq)
next
  assume a: "reachesDecode aenv afile \<and> decodedAsset aenv aoptions = Some asset
      \<and> asset_stats asset = Some stats \<and> st_triangles stats > env_MAX_TRIANGLE_COUNT aenv"
  then have l: "resultError (fst (load aenv afile aoptions st))
       = Some (createTooManyTrianglesError (st_triangles stats) (env_MAX_TRIANGLE_COUNT aenv)
                 (file_name afile))
     \<and> resultAsset (fst (load aenv afile aoptions st)) = None"
    using load_too_many [of aenv afile aoptions asset stats st] by simp
  show "map_option err_code (resultError (fst (load aenv afile aoptions st)))
          = Some E_TOO_MANY_TRIANGLES"
    using l by (simp add: createTooManyTrianglesError_def createAdapterError_def)
  show "resultAsset (fst (load aenv afile aoptions st)) = None" using l by simp
qed

text \<open>The three cases on the worked examples.\<close>

lemma binary_stl_len: "length (blob_bytes binary_stl_blob) = 184"
  by (simp add: binary_stl_blob_def bytes_of_def)

lemma binary_stl_name: "toLowerCase uc_id (lit ''part.STL'') = lit ''part.stl''"
  by (subst toLowerCase_ascii) (simp_all add: lit_def asciiLower_def)

lemma binary_stl_not_ascii: "\<not> isAsciiStl uc_id (blob_bytes binary_stl_blob)"
proof -
  define header where "header = decode_ascii (blob_bytes binary_stl_blob)"
  have h: "header = lit ''binary stl written by a mesh tool'' @ replicate 47 32 @ [2, 0, 0, 0]
      @ replicate 100 0"
    by (simp add: header_def binary_stl_blob_def decode_ascii_def bytes_of_def lit_def)
  have asc: "\<forall>c \<in> set header. c < 128" by (auto simp: h lit_def)
  have "\<not> startsWith (toLowerCase uc_id header) (lit ''solid'')"
    unfolding toLowerCase_ascii [OF asc] by (simp add: h startsWith_def lit_def asciiLower_def)
  then show ?thesis
    by (simp add: isAsciiStl_def Let_def binary_stl_len header_def [symmetric])
qed

lemma binary_stl_fileName: "loaderFileName binary_stl_blob = lit ''part.STL''"
  by (simp add: loaderFileName_def binary_stl_blob_def)

lemma binary_stl_format: "loaderFormat loader_env binary_stl_blob tight_options = Some stl"
proof -
  have u: "le_uc loader_env = uc_id" by (simp add: loader_env_def)
  have h: "formatHint tight_options = None" by (simp add: tight_options_def)
  show ?thesis
    by (simp add: loaderFormat_def h u inferFormat_def binary_stl_fileName binary_stl_name)
       (simp add: endsWith_def lit_def)
qed

lemma binary_stl_strategy:
  "loaderStrategy loader_env binary_stl_blob tight_options
     = Some \<lparr>ps_parser = wasm, ps_format = stl_binary\<rparr>"
proof -
  have u: "le_uc loader_env = uc_id" by (simp add: loader_env_def)
  have e: "last (split_char 46 (lit ''part.stl'')) = lit ''stl''" by (simp add: lit_def)
  have ne: "lit ''stl'' \<noteq> lit ''ply''" by (simp add: lit_def)
  show ?thesis
    using binary_stl_not_ascii
    by (simp add: loaderStrategy_def binary_stl_format determineParseStrategy_def
        binary_stl_fileName u binary_stl_name e ne)
qed

lemma binary_stl_reaches: "reachesParse loader_env binary_stl_blob tight_options"
proof -
  have r: "blob_readError binary_stl_blob = None" by (simp add: binary_stl_blob_def)
  have g: "guardBytes loader_env tight_options = 629145600"
    by (simp add: guardBytes_def tight_options_def loader_env_def)
  show ?thesis
    by (simp add: reachesParse_def binary_stl_len binary_stl_format r g)
qed

lemma binary_stl_parseMesh:
  "parseMesh (le_wasm loader_env) (blob_bytes binary_stl_blob) stl_binary bridge0
     = (Inr quad_pointers, bridge1)"
  by (simp add: parseMesh_def loader_env_def quad_result_def Let_def bridge0_def quad_pointers_def
      bridge1_def)

lemma quad_obj_text:
  "decode_utf8 (blob_bytes quad_obj_blob)
     = lit ''v 0 0 0\<newline>v 1 0 0\<newline>v 1 1 0\<newline>v 0 1 0\<newline>f 1 2 3 4\<newline>''"
  by (subst decode_utf8_ascii) (simp_all add: quad_obj_blob_def bytes_of_def lit_def)

lemma quad_obj_lines:
  "split_char 10 (lit ''v 0 0 0\<newline>v 1 0 0\<newline>v 1 1 0\<newline>v 0 1 0\<newline>f 1 2 3 4\<newline>'')
     = [lit ''v 0 0 0'', lit ''v 1 0 0'', lit ''v 1 1 0'', lit ''v 0 1 0'', lit ''f 1 2 3 4'', []]"
  by (simp add: lit_def)

lemma quad_obj_faceCount: "jr_faceCount (parseObj (blob_bytes quad_obj_blob)) = 2"
  unfolding parseObj_def Let_def quad_obj_text quad_obj_lines
  by (simp add: objLine_def Let_def lit_def trim_def isWhiteSpace_def startsWith_def nth_opt_def
      parseFloat_def parseInt_def isDigit_def objCorner_def fanTriangles_def
      upt_rec [of _ "numeral _"] upt_rec [of _ "Suc _"])

lemma heavy_env_reaches: "reachesDecode heavy_env obj_file"
  using failing_env_reaches by (simp add: reachesDecode_def heavy_env_def)

lemma heavy_env_decoded: "decodedAsset heavy_env default_options = Some heavy_asset"
  by (simp add: decodedAsset_def heavy_env_def Let_def validateParsedMesh_def heavy_asset_def)

lemma quad_obj_fileName: "loaderFileName quad_obj_blob = lit ''quad.obj''"
  by (simp add: loaderFileName_def quad_obj_blob_def)

lemma quad_obj_lower: "toLowerCase uc_id (lit ''quad.obj'') = lit ''quad.obj''"
  by (subst toLowerCase_ascii) (simp_all add: lit_def asciiLower_def)

lemma quad_obj_format: "loaderFormat loader_env quad_obj_blob tight_options = Some obj"
proof -
  have u: "le_uc loader_env = uc_id" by (simp add: loader_env_def)
  have h: "formatHint tight_options = None" by (simp add: tight_options_def)
  show ?thesis
    by (simp add: loaderFormat_def h u inferFormat_def quad_obj_fileName quad_obj_lower)
       (simp add: endsWith_def lit_def)
qed

lemma quad_obj_strategy:
  "loaderStrategy loader_env quad_obj_blob tight_options = Some \<lparr>ps_parser = js, ps_format = obj\<rparr>"
proof -
  have u: "le_uc loader_env = uc_id" by (simp add: loader_env_def)
  have e: "last (split_char 46 (lit ''quad.obj'')) = lit ''obj''" by (simp add: lit_def)
  have ne: "lit ''obj'' \<noteq> lit ''ply''" "lit ''obj'' \<noteq> lit ''stl''" by (simp_all add: lit_def)
  show ?thesis
    by (simp add: loaderStrategy_def quad_obj_format determineParseStrategy_def
        quad_obj_fileName u quad_obj_lower e ne)
qed

lemma quad_obj_reaches: "reachesParse loader_env quad_obj_blob tight_options"
proof -
  have r: "blob_readError quad_obj_blob = None" by (simp add: quad_obj_blob_def)
  have g: "guardBytes loader_env tight_options = 629145600"
    by (simp add: guardBytes_def tight_options_def loader_env_def)
  have l: "length (blob_bytes quad_obj_blob) = 42" by (simp add: quad_obj_blob_def bytes_of_def)
  show ?thesis
    by (simp add: reachesParse_def l quad_obj_format r g)
qed

lemma tight_guard: "guardTriangles loader_env tight_options = 1"
  by (simp add: guardTriangles_def tight_options_def)

theorem C2_witness:
  "(reachesParse loader_env binary_stl_blob tight_options
      \<and> loaderStrategy loader_env binary_stl_blob tight_options
           = Some \<lparr>ps_parser = wasm, ps_format = stl_binary\<rparr>
      \<and> parseMesh (le_wasm loader_env) (blob_bytes binary_stl_blob) stl_binary bridge0
           = (Inr quad_pointers, bridge1)
      \<and> int (ptr_indexCount quad_pointers div 3) > guardTriangles loader_env tight_options
      \<and> map_option err_code (loadedError (fst (loadMeshAsset loader_env binary_stl_blob tight_options bridge0)))
          = Some E_TOO_MANY_TRIANGLES
      \<and> loadedAsset (fst (loadMeshAsset loader_env binary_stl_blob tight_options bridge0)) = None
      \<and> pendingBuffersMap bridge1 1 \<noteq> None
      \<and> releaseCalls (snd (loadMeshAsset loader_env binary_stl_blob tight_options bridge0)) = [1]
      \<and> pendingBuffersMap (snd (loadMeshAsset loader_env binary_stl_blob tight_options bridge0)) 1 = None)
   \<and> (reachesParse loader_env quad_obj_blob tight_options
      \<and> loaderStrategy loader_env quad_obj_blob tight_options = Some \<lparr>ps_parser = js, ps_format = obj\<rparr>
      \<and> parseWithJs loader_env (blob_bytes quad_obj_blob) obj = Inr (parseObj (blob_bytes quad_obj_blob))
      \<and> int (jr_faceCount (parseObj (blob_bytes quad_obj_blob))) > guardTriangles loader_env tight_options
      \<and> map_option err_code (loadedError (fst (loadMeshAsset loader_env quad_obj_blob tight_options bridge0)))
          = Some E_TOO_MANY_TRIANGLES
      \<and> loadedAsset (fst (loadMeshAsset loader_env quad_obj_blob tight_options bridge0)) = None
      \<and> snd (loadMeshAsset loader_env quad_obj_blob tight_options bridge0) = bridge0)
   \<and> (reachesDecode heavy_env obj_file \<and> decodedAsset heavy_env default_options = Some heavy_asset
      \<and> map_option st_triangles (asset_stats heavy_asset) = Some 3
      \<and> env_MAX_TRIANGLE_COUNT heavy_env = 2
      \<and> map_option err_code (resultError (fst (load heavy_env obj_file default_options adapter0)))
          = Some E_TOO_MANY_TRIANGLES
      \<and> resultAsset (fst (load heavy_env obj_file default_options adapter0)) = None)"
proof -
  have big1: "int (ptr_indexCount quad_pointers div 3) > guardTriangles loader_env tight_options"
    by (simp add: tight_guard quad_pointers_def)
  have pj: "parseWithJs loader_env (blob_bytes quad_obj_blob) obj = Inr (parseObj (blob_bytes quad_obj_blob))"
    by (simp add: parseWithJs_def)
  have big2: "int (jr_faceCount (parseObj (blob_bytes quad_obj_blob))) > guardTriangles loader_env tight_options"
    by (simp add: tight_guard quad_obj_faceCount)
  have st: "asset_stats heavy_asset = Some \<lparr>st_vertices = 9, st_triangles = 3, st_bbox_min = zero3,
        st_bbox_max = zero3, st_diagonalLength = Dec (lit ''0'')\<rparr>"
    by (simp add: heavy_asset_def)
  have mx: "env_MAX_TRIANGLE_COUNT heavy_env = 2" by (simp add: heavy_env_def)
  have g: "ptr_generation quad_pointers = 1" by (simp add: quad_pointers_def)
  have rc: "releaseCalls bridge0 = []" by (simp add: bridge0_def)
  have pb: "pendingBuffersMap bridge1 1 \<noteq> None" by (simp add: bridge1_def)
  note t = C2_too_many_triangles [of loader_env binary_stl_blob tight_options
      "\<lparr>ps_parser = wasm, ps_format = stl_binary\<rparr>" bridge0 quad_pointers bridge1]
  note A = t [THEN conjunct1, rule_format]
  note u = C2_too_many_triangles [of loader_env quad_obj_blob tight_options
      "\<lparr>ps_parser = js, ps_format = obj\<rparr>" bridge0 _ _ "parseObj (blob_bytes quad_obj_blob)"]
  note B = u [THEN conjunct2, THEN conjunct1, rule_format]
  note v = C2_too_many_triangles [where aenv=heavy_env and afile=obj_file and aoptions=default_options
      and asset=heavy_asset and st=adapter0
      and stats="\<lparr>st_vertices = 9, st_triangles = 3, st_bbox_min = zero3,
        st_bbox_max = zero3, st_diagonalLength = Dec (lit ''0'')\<rparr>"]
  note C = v [THEN conjunct2, THEN conjunct2, rule_format]
  have a: "map_option err_code (loadedError (fst (loadMeshAsset loader_env binary_stl_blob tight_options bridge0)))
          = Some E_TOO_MANY_TRIANGLES
      \<and> loadedAsset (fst (loadMeshAsset loader_env binary_stl_blob tight_options bridge0)) = None
      \<and> releaseCalls (snd (loadMeshAsset loader_env binary_stl_blob tight_options bridge0)) = [1]
      \<and> pendingBuffersMap (snd (loadMeshAsset loader_env binary_stl_blob tight_options bridge0)) 1 = None"
    using A binary_stl_reaches binary_stl_strategy binary_stl_parseMesh big1
    by (simp add: g rc) (simp add: releaseBuffers_def bridge1_def)
  have b: "map_option err_code (loadedError (fst (loadMeshAsset loader_env quad_obj_blob tight_options bridge0)))
          = Some E_TOO_MANY_TRIANGLES
      \<and> loadedAsset (fst (loadMeshAsset loader_env quad_obj_blob tight_options bridge0)) = None
      \<and> snd (loadMeshAsset loader_env quad_obj_blob tight_options bridge0) = bridge0"
    using B quad_obj_reaches quad_obj_strategy pj big2 by simp
  have c: "map_option err_code (resultError (fst (load heavy_env obj_file default_options adapter0)))
          = Some E_TOO_MANY_TRIANGLES
      \<and> resultAsset (fst (load heavy_env obj_file default_options adapter0)) = None"
    using C heavy_env_reaches heavy_env_decoded st mx by simp
  show ?thesis
    using a b c binary_stl_reaches binary_stl_strategy binary_stl_parseMesh big1 pb
      quad_obj_reaches quad_obj_strategy pj big2 heavy_env_reaches heavy_env_decoded mx
    by (simp add: st)
qed

subsection \<open>ASCII STL\<close>

lemma endfacet_not_vertex: "isEndfacetLine l \<Longrightarrow> \<not> isVertexLine l"
  by (simp add: isEndfacetLine_def isVertexLine_def startsWith_def lit_def)

lemma upt_3: "[v..<v + (3 + m)] = v # Suc v # Suc (Suc v) # [v + 3..<v + 3 + m]"
proof -
  have "[v..<v + (3 + m)] = [v..<v + 3] @ [v + 3..<v + 3 + m]"
    using upt_add_eq_append [of v "v + 3" m] by (simp add: add.assoc)
  moreover have "[v..<v + 3] = [v, Suc v, Suc (Suc v)]"
    by (simp add: upt_rec [of v] upt_rec [of "Suc v"] upt_rec [of "Suc (Suc v)"] numeral_3_eq_3)
  ultimately show ?thesis by simp
qed

lemma fold_stlLine:
  "fold stlLine ls (tv, ti, vi) =
      (tv @ concat (map stlVertex (filter isVertexLine ls)),
       ti @ map (\<lambda>k. Some (int k)) [vi..<vi + 3 * length (filter isEndfacetLine ls)],
       vi + 3 * length (filter isEndfacetLine ls))"
proof (induction ls arbitrary: tv ti vi)
  case Nil
  show ?case by simp
next
  case (Cons l ls)
  show ?case
  proof (cases "isVertexLine l")
    case True
    then have ne: "\<not> isEndfacetLine l" using endfacet_not_vertex by blast
    have s: "stlLine l (tv, ti, vi) = (tv @ stlVertex l, ti, vi)"
      using True by (simp add: stlLine_def Let_def isVertexLine_def stlVertex_def)
    show ?thesis
      using True ne by (simp add: s Cons.IH)
  next
    case False
    show ?thesis
    proof (cases "isEndfacetLine l")
      case True
      let ?ti = "ti @ [Some (int vi), Some (int vi + 1), Some (int vi + 2)]"
      have s: "stlLine l (tv, ti, vi) = (tv, ?ti, vi + 3)"
        using True False by (simp add: stlLine_def Let_def isVertexLine_def isEndfacetLine_def)
      show ?thesis
        using True False by (simp add: s Cons.IH upt_3 del: upt_Suc)
    next
      case nf: False
      have s: "stlLine l (tv, ti, vi) = (tv, ti, vi)"
        using False nf by (simp add: stlLine_def Let_def isVertexLine_def isEndfacetLine_def)
      show ?thesis
        using False nf by (simp add: s Cons.IH)
    qed
  qed
qed

lemma toUint32_nat: "toUint32 (Some (int k)) = of_nat k"
  by (simp add: toUint32_def of_int_of_nat_eq)

lemma length_stlVertices: "length (concat (map stlVertex ls)) = 3 * length ls"
  by (induction ls) (simp_all add: stlVertex_def Let_def)

lemma parseAsciiStl_result:
  "parseAsciiStl data =
     \<lparr>jr_vertices = concat (map stlVertex (filter isVertexLine (stlLines data))),
      jr_indices = map of_nat [0..<3 * endfacetLineCount data],
      jr_vertexCount = Some (int (vertexLineCount data)),
      jr_faceCount = endfacetLineCount data\<rparr>"
proof -
  have f: "fold stlLine (stlLines data) ([], [], 0) =
      (concat (map stlVertex (filter isVertexLine (stlLines data))),
       map (\<lambda>k. Some (int k)) [0..<3 * endfacetLineCount data], 3 * endfacetLineCount data)"
    using fold_stlLine [of "stlLines data" "[]" "[]" 0] by (simp add: endfacetLineCount_def)
  show ?thesis
    unfolding parseAsciiStl_def Let_def stlLines_def [symmetric] f
    by (simp add: length_stlVertices vertexLineCount_def toUint32_nat comp_def)
qed

lemma split_char_nonempty: "split_char c s \<noteq> []"
  by (induction s) (auto split: list.splits)

lemma split_char_append: "split_char c (xs @ c # ys) = split_char c xs @ split_char c ys"
proof (induction xs)
  case Nil
  show ?case by simp
next
  case (Cons x xs)
  obtain p ps where p: "split_char c xs = p # ps"
    using split_char_nonempty [of c xs] by (cases "split_char c xs") auto
  show ?case by (simp add: Cons.IH p)
qed

lemma split_char_none: "c \<notin> set s \<Longrightarrow> split_char c s = [s]"
  by (induction s) auto

lemma stl_extension:
  assumes "endsWith s (lit ''.stl'')"
  shows "last (split_char 46 s) = lit ''stl''"
proof -
  have len: "length (lit ''.stl'') = 4" and e: "lit ''.stl'' = 46 # lit ''stl''"
    by (simp_all add: lit_def)
  from assms have d: "drop (length s - 4) s = 46 # lit ''stl''"
    unfolding endsWith_def len by (simp add: e)
  have "s = take (length s - 4) s @ 46 # lit ''stl''"
    using append_take_drop_id [of "length s - 4" s] unfolding d by simp
  then have "split_char 46 s = split_char 46 (take (length s - 4) s) @ split_char 46 (lit ''stl'')"
    using split_char_append [of 46 "take (length s - 4) s" "lit ''stl''"] by simp
  moreover have "split_char 46 (lit ''stl'') = [lit ''stl'']" by (simp add: lit_def)
  ultimately show ?thesis by simp
qed

lemma stl_inferFormat:
  assumes "endsWith (toLowerCase uc n) (lit ''.stl'')"
  shows "inferFormat uc n = Some stl"
proof -
  have "\<not> endsWith (toLowerCase uc n) (lit ''.obj'')"
    using assms by (auto simp: endsWith_def lit_def)
  then show ?thesis using assms by (simp add: inferFormat_def Let_def)
qed

lemma loadMeshAsset_ascii_stl:
  assumes name: "endsWith (toLowerCase (le_uc env) (loaderFileName file)) (lit ''.stl'')"
    and rd: "blob_readError file = None"
    and sz: "0 < length (blob_bytes file)" "length (blob_bytes file) \<le> guardBytes env options"
    and asc: "isAsciiStl (le_uc env) (blob_bytes file)"
    and guard: "int (endfacetLineCount (blob_bytes file)) \<le> guardTriangles env options"
  shows "loadMeshAsset env file options bs =
    (Inr (loaderSuccess env options (loaderFileName file) (length (blob_bytes file)) stl
            (toJsBuffers (parseAsciiStl (blob_bytes file)))
            (int (endfacetLineCount (blob_bytes file))) (int (vertexLineCount (blob_bytes file)))
            (length (blob_bytes file))
            (loaderLogs1 env (loaderFileName file) \<lparr>ps_parser = js, ps_format = stl\<rparr>)), bs)"
proof -
  obtain fmt where fmt: "loaderFormat env file options = Some fmt"
    using stl_inferFormat [OF name] by (cases "formatHint options") (simp_all add: loaderFormat_def)
  have ne: "lit ''stl'' \<noteq> lit ''ply''" by (simp add: lit_def)
  have st: "loaderStrategy env file options = Some \<lparr>ps_parser = js, ps_format = stl\<rparr>"
    by (simp add: loaderStrategy_def fmt determineParseStrategy_def stl_extension [OF name] ne asc)
  have rp: "reachesParse env file options"
    using sz rd by (simp add: reachesParse_def fmt)
  have pj: "parseWithJs env (blob_bytes file) stl = Inr (parseAsciiStl (blob_bytes file))"
    by (simp add: parseWithJs_def)
  have r: "jr_faceCount (parseAsciiStl (blob_bytes file)) = endfacetLineCount (blob_bytes file)"
      "length (jr_vertices (parseAsciiStl (blob_bytes file))) div 3 = vertexLineCount (blob_bytes file)"
    by (simp_all add: parseAsciiStl_result length_stlVertices vertexLineCount_def)
  show ?thesis
    using guard by (simp add: loadMeshAsset_parse [OF rp st] loadWithJs_def pj Let_def r)
qed

text \<open>
  C5. A file whose lower-cased name ends in \<open>.stl\<close>, that \<open>isAsciiStl\<close> accepts, that holds
  36 \<open>vertex\<close> lines and 12 \<open>endfacet\<close> lines and that passes the size and triangle guards
  loads successfully through \<open>loadMeshAsset\<close>: the metrics report 36 vertices and 12
  triangles, the vertex buffer holds the three coordinates of every \<open>vertex\<close> line in file
  order (108 numbers, duplicates included), the index buffer is \<open>0, 1, \<dots>, 35\<close>, so that
  triangle \<open>k\<close> has the indices \<open>3k\<close>, \<open>3k + 1\<close>, \<open>3k + 2\<close>, and the format of the asset is the
  member that the source writes \<open>'stl'\<close>, its name for ASCII STL (the binary variant is
  \<open>'stl_binary'\<close>).
\<close>

theorem C5_ascii_cube_stl:
  assumes name: "endsWith (toLowerCase (le_uc env) (loaderFileName file)) (lit ''.stl'')"
    and rd: "blob_readError file = None"
    and sz: "0 < length (blob_bytes file)" "length (blob_bytes file) \<le> guardBytes env options"
    and asc: "isAsciiStl (le_uc env) (blob_bytes file)"
    and vs: "vertexLineCount (blob_bytes file) = 36"
    and fs: "endfacetLineCount (blob_bytes file) = 12"
    and guard: "12 \<le> guardTriangles env options"
  shows "\<exists>asset metrics lg.
      loadMeshAsset env file options bs = (Inr (LoadSuccess asset metrics lg), bs)
    \<and> asset_format asset = stl \<and> formatName (asset_format asset) = lit ''stl''
    \<and> am_vertexCount metrics = 36 \<and> am_triangleCount metrics = 12
    \<and> vertexView (asset_buffers asset)
          = concat (map stlVertex (filter isVertexLine (stlLines (blob_bytes file))))
    \<and> length (vertexView (asset_buffers asset)) = 3 * 36
    \<and> indexView (asset_buffers asset) = map of_nat [0..<36]
    \<and> length (indexView (asset_buffers asset)) = 3 * 12
    \<and> (\<forall>k<12. indexView (asset_buffers asset) ! (3 * k) = of_nat (3 * k)
              \<and> indexView (asset_buffers asset) ! (3 * k + 1) = of_nat (3 * k + 1)
              \<and> indexView (asset_buffers asset) ! (3 * k + 2) = of_nat (3 * k + 2))"
proof -
  have g: "int (endfacetLineCount (blob_bytes file)) \<le> guardTriangles env options"
    using guard by (simp add: fs)
  have l: "length (filter isVertexLine (stlLines (blob_bytes file))) = 36"
    using vs by (simp add: vertexLineCount_def)
  have n: "\<And>k. k < 12 \<Longrightarrow> map of_nat [0..<36] ! (3 * k) = (of_nat (3 * k) :: 32 word)
      \<and> map of_nat [0..<36] ! (3 * k + 1) = (of_nat (3 * k + 1) :: 32 word)
      \<and> map of_nat [0..<36] ! (3 * k + 2) = (of_nat (3 * k + 2) :: 32 word)"
    by (simp del: upt_Suc)
  show ?thesis
    unfolding loadMeshAsset_ascii_stl [OF name rd sz asc g] loaderSuccess_def Let_def
    using n
    by (simp add: parseAsciiStl_result toJsBuffers_def formatName_def fs vs length_stlVertices l
        del: upt_Suc)
qed

lemma unat_of_char: "unat (of_char c :: 8 word) = of_char c"
proof -
  have "(of_char c :: 8 word) = of_nat (of_char c)" by (simp add: of_nat_of_char)
  then have "unat (of_char c :: 8 word) = of_char c mod 256" by (simp only: unat_of_nat) simp
  then show ?thesis by simp
qed

lemma unat_bytes_of: "map unat (bytes_of s) = lit s"
  by (simp add: bytes_of_def lit_def unat_of_char)

lemma decode_utf8_bytes_of:
  assumes "\<forall>c \<in> set (lit s). c < 128"
  shows "decode_utf8 (bytes_of s) = lit s"
proof -
  have "\<forall>c \<in> set (map unat (bytes_of s)). c < 128" using assms by (simp only: unat_bytes_of)
  then have "\<forall>b \<in> set (bytes_of s). unat b < 128" by simp
  then show ?thesis by (simp add: decode_utf8_ascii unat_bytes_of)
qed

lemma decode_ascii_take:
  assumes "\<forall>c \<in> set (lit s). c < 128"
  shows "decode_ascii (take n (bytes_of s)) = take n (lit s)"
proof -
  have a: "\<forall>c \<in> set (map unat (bytes_of s)). c < 128" using assms by (simp only: unat_bytes_of)
  have "decode_ascii (bytes_of s) = map unat (bytes_of s)"
    unfolding decode_ascii_def using a by (intro map_cong) (auto simp: Let_def)
  moreover have "decode_ascii (take n (bytes_of s)) = take n (decode_ascii (bytes_of s))"
    by (simp add: decode_ascii_def take_map)
  ultimately show ?thesis by (simp add: unat_bytes_of)
qed

lemma lit_lines: "lit (concat (map (\<lambda>l. l @ ''\<newline>'') ls)) = concat (map (\<lambda>l. lit l @ [10]) ls)"
  by (induction ls) (simp_all add: lit_def)

lemma split_char_lines:
  "\<forall>l \<in> set ls. 10 \<notin> set (lit l)
    \<Longrightarrow> split_char 10 (concat (map (\<lambda>l. lit l @ [10]) ls)) = map lit ls @ [[]]"
proof (induction ls)
  case Nil
  show ?case by simp
next
  case (Cons l ls)
  have "split_char 10 (lit l @ 10 # concat (map (\<lambda>l. lit l @ [10]) ls))
      = split_char 10 (lit l) @ split_char 10 (concat (map (\<lambda>l. lit l @ [10]) ls))"
    by (rule split_char_append)
  then show ?case using Cons by (simp add: split_char_none)
qed

lemma cube_lines_ascii: "\<forall>l \<in> set cube_stl_lines. \<forall>c \<in> set (lit l). c < 128 \<and> c \<noteq> 10"
  by (simp add: cube_stl_lines_def stl_facet_def lit_def)

lemma cube_ascii: "\<forall>c \<in> set (lit cube_stl_text). c < 128"
  using cube_lines_ascii by (auto simp: cube_stl_text_def lit_lines)

lemma cube_len: "length (blob_bytes cube_stl_blob) = 1159"
  by (simp add: cube_stl_blob_def bytes_of_def cube_stl_text_def cube_stl_lines_def stl_facet_def)

lemma cube_stlLines: "stlLines (blob_bytes cube_stl_blob) = map lit cube_stl_lines @ [[]]"
proof -
  have "\<forall>l \<in> set cube_stl_lines. 10 \<notin> set (lit l)" using cube_lines_ascii by blast
  then show ?thesis
    by (simp add: stlLines_def cube_stl_blob_def decode_utf8_bytes_of [OF cube_ascii])
       (simp add: cube_stl_text_def lit_lines split_char_lines)
qed

lemma cube_vertexLines: "vertexLineCount (blob_bytes cube_stl_blob) = 36"
  unfolding vertexLineCount_def cube_stlLines
  by (simp add: cube_stl_lines_def stl_facet_def lit_def isVertexLine_def trim_def isWhiteSpace_def
      startsWith_def)

lemma cube_endfacetLines: "endfacetLineCount (blob_bytes cube_stl_blob) = 12"
  unfolding endfacetLineCount_def cube_stlLines
  by (simp add: cube_stl_lines_def stl_facet_def lit_def isEndfacetLine_def trim_def isWhiteSpace_def)

lemma cube_isAscii: "isAsciiStl uc_id (blob_bytes cube_stl_blob)"
proof -
  define rest where "rest = concat (map (\<lambda>l. lit l @ [10]) (tl cube_stl_lines))"
  have c: "cube_stl_lines = ''solid cube'' # tl cube_stl_lines" by (simp add: cube_stl_lines_def)
  have t: "lit cube_stl_text = lit ''solid cube'' @ 10 # rest"
    unfolding cube_stl_text_def lit_lines by (subst c) (simp add: rest_def)
  define header where "header = take 256 (lit cube_stl_text)"
  have h: "decode_ascii (take 256 (blob_bytes cube_stl_blob)) = header"
    by (simp add: cube_stl_blob_def decode_ascii_take [OF cube_ascii] header_def)
  have asc: "\<forall>c \<in> set header. c < 128"
    using cube_ascii by (auto simp: header_def dest: in_set_takeD)
  have p: "header = lit ''solid cube'' @ 10 # take 245 rest"
    by (simp add: header_def t) (simp add: lit_def)
  have "toLowerCase uc_id header = map asciiLower header" by (rule toLowerCase_ascii [OF asc])
  then have s: "startsWith (toLowerCase uc_id header) (lit ''solid'')"
    by (simp add: p startsWith_def lit_def asciiLower_def)
  have "sublist [10] header"
    unfolding p sublist_def by (rule exI [of _ "lit ''solid cube''"]) (simp add: lit_def)
  then have i: "includes_js header [10]" by (simp add: includes_js_sublist)
  have e: "\<And>t::nat. 84 + t * 50 \<noteq> 1159" by presburger
  show ?thesis
    by (simp add: isAsciiStl_def Let_def cube_len h s i e)
qed

lemma cube_name: "toLowerCase uc_id (loaderFileName cube_stl_blob) = lit ''cube.stl''"
  by (subst toLowerCase_ascii) (simp_all add: loaderFileName_def cube_stl_blob_def lit_def asciiLower_def)

theorem C5_witness:
  "endsWith (toLowerCase (le_uc loader_env) (loaderFileName cube_stl_blob)) (lit ''.stl'')
   \<and> blob_readError cube_stl_blob = None
   \<and> 0 < length (blob_bytes cube_stl_blob)
   \<and> length (blob_bytes cube_stl_blob) \<le> guardBytes loader_env default_loader_options
   \<and> isAsciiStl (le_uc loader_env) (blob_bytes cube_stl_blob)
   \<and> vertexLineCount (blob_bytes cube_stl_blob) = 36
   \<and> endfacetLineCount (blob_bytes cube_stl_blob) = 12
   \<and> 12 \<le> guardTriangles loader_env default_loader_options
   \<and> (\<exists>asset metrics lg.
        loadMeshAsset loader_env cube_stl_blob default_loader_options bridge0
          = (Inr (LoadSuccess asset metrics lg), bridge0)
      \<and> asset_format asset = stl \<and> am_vertexCount metrics = 36 \<and> am_triangleCount metrics = 12
      \<and> length (vertexView (asset_buffers asset)) = 108
      \<and> indexView (asset_buffers asset) = map of_nat [0..<36])"
proof -
  have u: "le_uc loader_env = uc_id" by (simp add: loader_env_def)
  have n: "endsWith (toLowerCase (le_uc loader_env) (loaderFileName cube_stl_blob)) (lit ''.stl'')"
    by (simp add: u cube_name) (simp add: endsWith_def lit_def)
  have r: "blob_readError cube_stl_blob = None" by (simp add: cube_stl_blob_def)
  have g: "guardBytes loader_env default_loader_options = 629145600"
    by (simp add: guardBytes_def default_loader_options_def loader_env_def)
  have t: "guardTriangles loader_env default_loader_options = 30000000"
    by (simp add: guardTriangles_def default_loader_options_def loader_env_def)
  have a: "isAsciiStl (le_uc loader_env) (blob_bytes cube_stl_blob)"
    using cube_isAscii by (simp add: u)
  have s: "0 < length (blob_bytes cube_stl_blob)"
    "length (blob_bytes cube_stl_blob) \<le> guardBytes loader_env default_loader_options"
    by (simp_all add: cube_len g)
  have q: "12 \<le> guardTriangles loader_env default_loader_options" by (simp add: t)
  from C5_ascii_cube_stl [OF n r s a cube_vertexLines cube_endfacetLines q, of bridge0]
  obtain asset metrics lg where
    "loadMeshAsset loader_env cube_stl_blob default_loader_options bridge0
          = (Inr (LoadSuccess asset metrics lg), bridge0)"
    "asset_format asset = stl" "am_vertexCount metrics = 36" "am_triangleCount metrics = 12"
    "length (vertexView (asset_buffers asset)) = 3 * 36"
    "indexView (asset_buffers asset) = map of_nat [0..<36]"
    by blast
  then show ?thesis
    using n r s a cube_vertexLines cube_endfacetLines q by simp
qed

end
